theory Spec2Isabelle
  imports Main "HOL-Library.Word"
begin

unbundle bit_operations_syntax

section \<open>The host headers\<close>

text \<open>
  \<^verbatim>\<open>comp.c\<close> includes \<^verbatim>\<open>lisp.h\<close> and \<^verbatim>\<open>bytecode.h\<close>, which are not among the sources
  at hand.  Every constant, macro and structure accessor that the functions embedded below
  take from them is a field of the record \<open>lisp_h\<close> and is passed as the parameter \<open>h\<close>
  (\<open>symbol_function\<close> is \<^verbatim>\<open>XSYMBOL (sym)->u.s.function\<close>, \<open>subr_max_args\<close> and
  \<open>subr_function_a0\<close> are \<^verbatim>\<open>XSUBR (f)->max_args\<close> and \<^verbatim>\<open>XSUBR (f)->function.a0\<close>,
  \<open>XVECTOR_contents\<close> is the memory behind \<^verbatim>\<open>XVECTOR (v)->contents\<close> by index, \<open>SDATA\<close> the
  \<^verbatim>\<open>SBYTES\<close> bytes of a string);
  the opcode numbers of \<^verbatim>\<open>bytecode.h\<close> are the parameter \<open>B\<close>, from the name of the
  enumerator to its value.  A Lisp object is the machine word \<^verbatim>\<open>EMACS_INT\<close>; the model
  fixes the LP64 little-endian build: \<^verbatim>\<open>EMACS_INT\<close> is a 64-bit \<^verbatim>\<open>long\<close>, \<^verbatim>\<open>int\<close> and
  \<^verbatim>\<open>unsigned\<close> have 32 bits, pointers have 64.
\<close>

type_synonym Lisp_Object = "64 word"

record lisp_h =
  USE_LSB_TAG :: bool
  VALBITS :: nat
  GCTYPEBITS :: nat
  INTTYPEBITS :: nat
  FIXNUM_BITS :: nat
  Lisp_Symbol :: int
  Lisp_Int0 :: int
  Lisp_Cons :: int
  Lisp_Float :: int
  Lisp_Vectorlike :: int
  PVEC_BIGNUM :: int
  MOST_POSITIVE_FIXNUM :: int
  MOST_NEGATIVE_FIXNUM :: int
  MANY :: int
  SUBR_MAX_ARGS :: int
  CATCHER :: int
  CONDITION_CASE :: int
  HAVE__SETJMP :: bool
  Qnil :: Lisp_Object
  Qlistp :: Lisp_Object
  LISP_WORD_TAG :: "int \<Rightarrow> int"
  XTYPE :: "Lisp_Object \<Rightarrow> int"
  SYMBOLP :: "Lisp_Object \<Rightarrow> bool"
  SYMBOL_NAME :: "Lisp_Object \<Rightarrow> string"
  symbol_function :: "Lisp_Object \<Rightarrow> Lisp_Object"
  SUBRP :: "Lisp_Object \<Rightarrow> bool"
  subr_max_args :: "Lisp_Object \<Rightarrow> int"
  subr_function_a0 :: "Lisp_Object \<Rightarrow> 64 word"
  FIXNUMP :: "Lisp_Object \<Rightarrow> bool"
  XFIXNUM :: "Lisp_Object \<Rightarrow> int"
  FIXNATP :: "Lisp_Object \<Rightarrow> bool"
  XFIXNAT :: "Lisp_Object \<Rightarrow> nat"
  CONSP :: "Lisp_Object \<Rightarrow> bool"
  Flength :: "Lisp_Object \<Rightarrow> Lisp_Object"
  STRINGP :: "Lisp_Object \<Rightarrow> bool"
  STRING_MULTIBYTE :: "Lisp_Object \<Rightarrow> bool"
  Fstring_as_unibyte :: "Lisp_Object \<Rightarrow> Lisp_Object"
  SDATA :: "Lisp_Object \<Rightarrow> 8 word list"
  VECTORP :: "Lisp_Object \<Rightarrow> bool"
  XVECTOR_contents :: "Lisp_Object \<Rightarrow> nat \<Rightarrow> Lisp_Object"
  ASIZE :: "Lisp_Object \<Rightarrow> nat"
  offsetof_handler_val :: nat
  offsetof_handler_next :: nat
  offsetof_handler_jmp :: nat
  offsetof_m_handlerlist :: nat
  current_thread :: "64 word"

type_synonym bytecode_h = "string \<Rightarrow> nat"

section \<open>The code-generation library: what a context records\<close>

text \<open>
  libgccjit is a recording interface: every call of \<^verbatim>\<open>gcc_jit_context_new_...\<close> builds an
  expression tree, every \<^verbatim>\<open>gcc_jit_block_add_...\<close> appends a statement to a block and every
  \<^verbatim>\<open>gcc_jit_block_end_with_...\<close> terminates a block.  The datatypes below are those trees,
  one constructor for each entry point that \<^verbatim>\<open>comp.c\<close> calls.
\<close>

datatype jtype =
    TYPE_VOID | TYPE_BOOL | TYPE_CHAR | TYPE_INT | TYPE_UNSIGNED_INT | TYPE_LONG
  | TYPE_UNSIGNED_LONG | TYPE_LONG_LONG | TYPE_UNSIGNED_LONG_LONG | TYPE_VOID_PTR
  | Struct string
  | Union string
  | Pointer jtype
  | Array jtype nat
  | Function_ptr jtype "jtype list"

text \<open>A field: its name, its type and its byte offset in the enclosing struct (0 in a union).\<close>

datatype field = Field string jtype nat

datatype function_kind = EXPORTED | IMPORTED | ALWAYS_INLINE

text \<open>A function: kind, return type, name, types of the parameters.\<close>

datatype gfunc = Function function_kind jtype string "jtype list"

datatype unary_op = UNARY_MINUS | UNARY_LOGICAL_NEGATE

datatype binary_op = PLUS | MINUS | BITWISE_AND | LOGICAL_AND | LOGICAL_OR | LSHIFT | RSHIFT

datatype comparison = EQ | NE | LE

datatype rvalue =
    Rvalue_from_int jtype int
  | Rvalue_from_ptr jtype "64 word"
  | Param_as_rvalue jtype string
  | Lvalue_as_rvalue lvalue
  | Rvalue_access_field rvalue field
  | Unary_op unary_op jtype rvalue
  | Binary_op binary_op jtype rvalue rvalue
  | Comparison comparison rvalue rvalue
  | Call gfunc "rvalue list"
  | Call_through_ptr rvalue "rvalue list"
  | Get_address lvalue
and lvalue =
    Local nat jtype string
  | Array_access rvalue rvalue
  | Lvalue_access_field lvalue field
  | Dereference_field rvalue field
  | Dereference rvalue

datatype stmt =
    Add_comment string
  | Add_assignment lvalue rvalue
  | Add_eval rvalue

datatype terminator =
    End_with_jump nat
  | End_with_conditional rvalue nat nat
  | End_with_return rvalue
  | End_with_void_return

fun field_type :: "field \<Rightarrow> jtype" where
  "field_type (Field n t off) = t"

fun field_offset :: "field \<Rightarrow> nat" where
  "field_offset (Field n t off) = off"

fun function_ret :: "gfunc \<Rightarrow> jtype" where
  "function_ret (Function k r n ps) = r"

fun function_name :: "gfunc \<Rightarrow> string" where
  "function_name (Function k r n ps) = n"

text \<open>\<^verbatim>\<open>gcc_jit_rvalue_get_type\<close>, and the type of an lvalue.\<close>

fun rvalue_get_type :: "rvalue \<Rightarrow> jtype" and lvalue_get_type :: "lvalue \<Rightarrow> jtype" where
  "rvalue_get_type (Rvalue_from_int t n) = t"
| "rvalue_get_type (Rvalue_from_ptr t p) = t"
| "rvalue_get_type (Param_as_rvalue t n) = t"
| "rvalue_get_type (Lvalue_as_rvalue lv) = lvalue_get_type lv"
| "rvalue_get_type (Rvalue_access_field r f) = field_type f"
| "rvalue_get_type (Unary_op u t r) = t"
| "rvalue_get_type (Binary_op b t x y) = t"
| "rvalue_get_type (Comparison c x y) = TYPE_BOOL"
| "rvalue_get_type (Call f as) = function_ret f"
| "rvalue_get_type (Call_through_ptr f as) =
     (case rvalue_get_type f of Function_ptr r ps \<Rightarrow> r | _ \<Rightarrow> TYPE_VOID)"
| "rvalue_get_type (Get_address lv) = Pointer (lvalue_get_type lv)"
| "lvalue_get_type (Local i t n) = t"
| "lvalue_get_type (Array_access p i) =
     (case rvalue_get_type p of Array t n \<Rightarrow> t | Pointer t \<Rightarrow> t | _ \<Rightarrow> TYPE_VOID)"
| "lvalue_get_type (Lvalue_access_field lv f) = field_type f"
| "lvalue_get_type (Dereference_field p f) = field_type f"
| "lvalue_get_type (Dereference p) =
     (case rvalue_get_type p of Pointer t \<Rightarrow> t | _ \<Rightarrow> TYPE_VOID)"

section \<open>The compiler's state\<close>

text \<open>
  An \<^verbatim>\<open>error (...)\<close> of the source signals a Lisp error and leaves the compilation; a
  failed \<^verbatim>\<open>eassert\<close> aborts; an access outside an array is undefined in C.  Each is an
  outcome of its own.
\<close>

datatype error = Signal string | Eassert | Undefined

text \<open>Element of the meta stack; \<open>type\<close> is \<open>-1\<close> if not set, \<open>el_constant\<close> is the field \<^verbatim>\<open>constant\<close>.\<close>

record stack_el_t =
  gcc_lval :: lvalue
  type :: int
  el_constant :: Lisp_Object
  const_set :: bool

text \<open>
  A \<^verbatim>\<open>basic_block_t\<close>.  \<open>gcc_bb\<close> is the number of the block in the context;
  \<open>top_sp\<close> (the field \<^verbatim>\<open>top\<close>) is the stack pointer to restart from, as an index into
  the meta stack, \<open>None\<close> for \<^verbatim>\<open>NULL\<close>.
\<close>

record basic_block_t =
  gcc_bb :: nat
  top_sp :: "int option"
  terminated :: bool

text \<open>
  A \<^verbatim>\<open>basic_block_t *\<close> is \<^verbatim>\<open>NULL\<close>, or points to an element of \<^verbatim>\<open>bb_map\<close> or to a
  block allocated by \<^verbatim>\<open>SAFE_ALLOCA_BLOCK\<close>.
\<close>

datatype bb_ptr = Null | In_bb_map nat | Alloca nat

text \<open>
  The state: what the context has recorded (\<open>stmts\<close>, \<open>ends\<close>, \<open>blocks\<close>, \<open>nlocals\<close>,
  \<open>ctxt_error\<close>), the fields of \<^verbatim>\<open>comp\<close> that change (\<open>func\<close>, \<open>block\<close>, \<open>func_hash\<close>), the
  two static counters of \<^verbatim>\<open>emit_cast\<close> and \<^verbatim>\<open>emit_lisp_obj_from_ptr\<close>, and the locals of
  \<^verbatim>\<open>compile_f\<close>.  The meta-stack pointer \<open>stack\<close> is an index into \<open>stack_base\<close>.
\<close>

record cstate =
  stmts :: "nat \<Rightarrow> stmt list"
  ends :: "nat \<Rightarrow> terminator option"
  blocks :: "(gfunc \<times> string) list"
  nlocals :: nat
  ctxt_error :: bool
  func :: gfunc
  block :: bb_ptr
  func_hash :: "string \<Rightarrow> gfunc option"
  cast_i :: nat
  obj_i :: nat
  allocas :: "basic_block_t list"
  bb_map :: "basic_block_t list"
  stack_base :: "stack_el_t list"
  stack :: int
  args :: "nat \<Rightarrow> rvalue"
  pc :: nat
  pushhandler_n :: nat
  nil :: rvalue

type_synonym 'a emit = "cstate \<Rightarrow> error + ('a \<times> cstate)"

definition returnE :: "'a \<Rightarrow> 'a emit" where
  "returnE x = (\<lambda>st. Inr (x, st))"

definition bindE :: "'a emit \<Rightarrow> ('a \<Rightarrow> 'b emit) \<Rightarrow> 'b emit" where
  "bindE m f = (\<lambda>st. case m st of Inl e \<Rightarrow> Inl e | Inr (x, st') \<Rightarrow> f x st')"

definition thenE :: "unit emit \<Rightarrow> 'b emit \<Rightarrow> 'b emit" where
  "thenE m k = bindE m (\<lambda>u. k)"

definition failE :: "error \<Rightarrow> 'a emit" where
  "failE e = (\<lambda>st. Inl e)"

definition getsE :: "(cstate \<Rightarrow> 'a) \<Rightarrow> 'a emit" where
  "getsE f = (\<lambda>st. Inr (f st, st))"

definition modifyE :: "(cstate \<Rightarrow> cstate) \<Rightarrow> unit emit" where
  "modifyE f = (\<lambda>st. Inr ((), f st))"

definition eassert :: "bool \<Rightarrow> unit emit" where
  "eassert c = (if c then returnE () else failE Eassert)"

subsection \<open>Entry points of the library that change the context\<close>

text \<open>
  Adding to a block that has been terminated, or terminating it again, is an error of the
  context: the library records the error and drops the statement.
\<close>

definition gcc_jit_function_new_block :: "gfunc \<Rightarrow> string \<Rightarrow> nat emit" where
  "gcc_jit_function_new_block f name = (\<lambda>st.
     let n = length (blocks st)
     in Inr (n, st\<lparr>blocks := blocks st @ [(f, name)],
                   stmts := (stmts st)(n := []),
                   ends := (ends st)(n := None)\<rparr>))"

definition gcc_jit_function_new_local :: "gfunc \<Rightarrow> jtype \<Rightarrow> string \<Rightarrow> lvalue emit" where
  "gcc_jit_function_new_local f t name = (\<lambda>st.
     Inr (Local (nlocals st) t name, st\<lparr>nlocals := nlocals st + 1\<rparr>))"

definition block_add :: "nat \<Rightarrow> stmt \<Rightarrow> unit emit" where
  "block_add b s = modifyE (\<lambda>st.
     if ends st b \<noteq> None then st\<lparr>ctxt_error := True\<rparr>
     else st\<lparr>stmts := (stmts st)(b := stmts st b @ [s])\<rparr>)"

definition block_end :: "nat \<Rightarrow> terminator \<Rightarrow> unit emit" where
  "block_end b t = modifyE (\<lambda>st.
     if ends st b \<noteq> None then st\<lparr>ctxt_error := True\<rparr>
     else st\<lparr>ends := (ends st)(b := Some t)\<rparr>)"

subsection \<open>Pointers to basic blocks and to elements of the meta stack\<close>

definition deref_bb :: "bb_ptr \<Rightarrow> basic_block_t emit" where
  "deref_bb p = (\<lambda>st. case p of
       Null \<Rightarrow> Inl Undefined
     | In_bb_map i \<Rightarrow> if i < length (bb_map st) then Inr (bb_map st ! i, st) else Inl Undefined
     | Alloca i \<Rightarrow> if i < length (allocas st) then Inr (allocas st ! i, st) else Inl Undefined)"

definition update_bb :: "bb_ptr \<Rightarrow> (basic_block_t \<Rightarrow> basic_block_t) \<Rightarrow> unit emit" where
  "update_bb p f = (\<lambda>st. case p of
       Null \<Rightarrow> Inl Undefined
     | In_bb_map i \<Rightarrow>
         if i < length (bb_map st) then Inr ((), st\<lparr>bb_map := (bb_map st)[i := f (bb_map st ! i)]\<rparr>)
         else Inl Undefined
     | Alloca i \<Rightarrow>
         if i < length (allocas st) then Inr ((), st\<lparr>allocas := (allocas st)[i := f (allocas st ! i)]\<rparr>)
         else Inl Undefined)"

definition stack_el :: "int \<Rightarrow> stack_el_t emit" where
  "stack_el k = (\<lambda>st.
     if 0 \<le> k \<and> k < int (length (stack_base st)) then Inr (stack_base st ! nat k, st)
     else Inl Undefined)"

definition update_stack_el :: "int \<Rightarrow> (stack_el_t \<Rightarrow> stack_el_t) \<Rightarrow> unit emit" where
  "update_stack_el k f = (\<lambda>st.
     if 0 \<le> k \<and> k < int (length (stack_base st))
     then Inr ((), st\<lparr>stack_base := (stack_base st)[nat k := f (stack_base st ! nat k)]\<rparr>)
     else Inl Undefined)"

text \<open>\<^verbatim>\<open>comp.block->gcc_bb\<close>\<close>

definition cur_gcc_bb :: "nat emit" where
  "cur_gcc_bb = bindE (getsE block) (\<lambda>p. bindE (deref_bb p) (\<lambda>b. returnE (gcc_bb b)))"

text \<open>\<^verbatim>\<open>SAFE_ALLOCA_BLOCK (ptr, func, name)\<close>\<close>

definition SAFE_ALLOCA_BLOCK :: "gfunc \<Rightarrow> string \<Rightarrow> bb_ptr emit" where
  "SAFE_ALLOCA_BLOCK f name =
     bindE (gcc_jit_function_new_block f name) (\<lambda>b. (\<lambda>st.
       Inr (Alloca (length (allocas st)),
            st\<lparr>allocas := allocas st @ [\<lparr>gcc_bb = b, top_sp = None, terminated = False\<rparr>]\<rparr>)))"

section \<open>Types, fields and constants set up by \<^verbatim>\<open>init_comp\<close>\<close>

text \<open>
  \<^verbatim>\<open>gcc_jit_context_get_int_type (sizeof (EMACS_INT), true)\<close> is the library's \<^verbatim>\<open>long\<close>
  on LP64, so that \<^verbatim>\<open>type_to_cast_field\<close> finds it; likewise for \<^verbatim>\<open>ptrdiff_type\<close> and
  \<^verbatim>\<open>uintptr_type\<close>.
\<close>

definition emacs_int_type :: jtype where "emacs_int_type = TYPE_LONG"
definition ptrdiff_type :: jtype where "ptrdiff_type = TYPE_LONG"
definition uintptr_type :: jtype where "uintptr_type = TYPE_UNSIGNED_LONG"
definition char_ptr_type :: jtype where "char_ptr_type = Pointer TYPE_CHAR"

definition lisp_obj_as_ptr :: field where "lisp_obj_as_ptr = Field ''obj'' TYPE_VOID_PTR 0"
definition lisp_obj_as_num :: field where "lisp_obj_as_num = Field ''num'' emacs_int_type 0"
definition lisp_obj_type :: jtype where "lisp_obj_type = Union ''comp_Lisp_Object''"
definition lisp_obj_ptr_type :: jtype where "lisp_obj_ptr_type = Pointer lisp_obj_type"

definition most_positive_fixnum :: "lisp_h \<Rightarrow> rvalue" where
  "most_positive_fixnum h = Rvalue_from_int emacs_int_type (MOST_POSITIVE_FIXNUM h)"
definition most_negative_fixnum :: "lisp_h \<Rightarrow> rvalue" where
  "most_negative_fixnum h = Rvalue_from_int emacs_int_type (MOST_NEGATIVE_FIXNUM h)"
definition one :: rvalue where
  "one = Rvalue_from_int emacs_int_type 1"
definition inttypebits :: "lisp_h \<Rightarrow> rvalue" where
  "inttypebits h = Rvalue_from_int emacs_int_type (int (INTTYPEBITS h))"
definition lisp_int0 :: "lisp_h \<Rightarrow> rvalue" where
  "lisp_int0 h = Rvalue_from_int emacs_int_type (Lisp_Int0 h)"

text \<open>\<^verbatim>\<open>define_lisp_cons\<close>: the car is the first member of \<^verbatim>\<open>cons_s\<close>, the union with the cdr the second.\<close>

definition lisp_cons_s :: jtype where "lisp_cons_s = Struct ''comp_Lisp_Cons''"
definition lisp_cons_ptr_type :: jtype where "lisp_cons_ptr_type = Pointer lisp_cons_s"
definition lisp_cons_u_s_u_cdr :: field where "lisp_cons_u_s_u_cdr = Field ''cdr'' lisp_obj_type 0"
definition lisp_cons_u_s_car :: field where "lisp_cons_u_s_car = Field ''car'' lisp_obj_type 0"
definition lisp_cons_u_s_u :: field where "lisp_cons_u_s_u = Field ''u'' (Union ''comp_cdr_u'') 8"
definition lisp_cons_u_s :: field where "lisp_cons_u_s = Field ''s'' (Struct ''comp_cons_s'') 0"
definition lisp_cons_u :: field where "lisp_cons_u = Field ''u'' (Union ''comp_cons_u'') 0"

text \<open>\<^verbatim>\<open>define_cast_union\<close>\<close>

definition cast_union_type :: jtype where "cast_union_type = Union ''cast_union''"
definition cast_union_as_ll :: field where "cast_union_as_ll = Field ''ll'' TYPE_LONG_LONG 0"
definition cast_union_as_ull :: field where "cast_union_as_ull = Field ''ull'' TYPE_UNSIGNED_LONG_LONG 0"
definition cast_union_as_l :: field where "cast_union_as_l = Field ''l'' TYPE_LONG 0"
definition cast_union_as_ul :: field where "cast_union_as_ul = Field ''ul'' TYPE_UNSIGNED_LONG 0"
definition cast_union_as_u :: field where "cast_union_as_u = Field ''u'' TYPE_UNSIGNED_INT 0"
definition cast_union_as_i :: field where "cast_union_as_i = Field ''i'' TYPE_INT 0"
definition cast_union_as_b :: field where "cast_union_as_b = Field ''b'' TYPE_BOOL 0"
definition cast_union_as_c_p :: field where "cast_union_as_c_p = Field ''c_p'' char_ptr_type 0"
definition cast_union_as_v_p :: field where "cast_union_as_v_p = Field ''v_p'' TYPE_VOID_PTR 0"
definition cast_union_as_lisp_cons_ptr :: field where
  "cast_union_as_lisp_cons_ptr = Field ''cons_ptr'' lisp_cons_ptr_type 0"
definition cast_union_as_lisp_obj :: field where
  "cast_union_as_lisp_obj = Field ''lisp_obj'' lisp_obj_type 0"

text \<open>The inline functions that \<^verbatim>\<open>init_comp\<close> declares, as \<^verbatim>\<open>comp\<close> holds them.\<close>

definition pseudovectorp :: gfunc where
  "pseudovectorp = Function ALWAYS_INLINE TYPE_BOOL ''PSEUDOVECTORP'' [lisp_obj_type, TYPE_INT]"
definition bool_to_lisp_obj :: gfunc where
  "bool_to_lisp_obj = Function ALWAYS_INLINE lisp_obj_type ''bool_to_lisp_obj'' [TYPE_BOOL]"
definition car :: gfunc where
  "car = Function ALWAYS_INLINE lisp_obj_type ''CAR'' [lisp_obj_type]"
definition cdr :: gfunc where
  "cdr = Function ALWAYS_INLINE lisp_obj_type ''CDR'' [lisp_obj_type]"

section \<open>The helpers of the emitter\<close>

text \<open>Decimal digits, for the \<^verbatim>\<open>%u\<close> and \<^verbatim>\<open>%d\<close> of \<^verbatim>\<open>format_string\<close>.\<close>

fun string_of_nat :: "nat \<Rightarrow> string" where
  "string_of_nat n =
     (if n < 10 then [char_of (48 + n)]
      else string_of_nat (n div 10) @ [char_of (48 + n mod 10)])"

declare string_of_nat.simps [simp del]

text \<open>\<^verbatim>\<open>format_string\<close> writes into 512 bytes and signals when the text does not fit.\<close>

definition format_string :: "string \<Rightarrow> string emit" where
  "format_string s =
     (if length s \<ge> 512 then failE (Signal ''Truncating string'') else returnE s)"

text \<open>\<^verbatim>\<open>COMP_DEBUG\<close> is defined as 1: every comment is emitted.\<close>

definition emit_comment :: "string \<Rightarrow> unit emit" where
  "emit_comment str = bindE cur_gcc_bb (\<lambda>b. block_add b (Add_comment str))"

definition emit_assign_to_stack_slot :: "bb_ptr \<Rightarrow> int \<Rightarrow> rvalue \<Rightarrow> unit emit" where
  "emit_assign_to_stack_slot blk slot val =
     bindE (deref_bb blk) (\<lambda>b.
     bindE (stack_el slot) (\<lambda>el.
     thenE (block_add (gcc_bb b) (Add_assignment (gcc_lval el) val))
           (update_stack_el slot (\<lambda>e. e\<lparr>type := - 1, const_set := False\<rparr>))))"

text \<open>
  \<^verbatim>\<open>emit_func_declare\<close>.  The arrays \<^verbatim>\<open>param\<close> and \<^verbatim>\<open>type\<close> have four elements, so more
  than four arguments write outside them before the \<^verbatim>\<open>switch\<close> is reached.  \<open>argv\<close> is
  \<open>None\<close> for a \<^verbatim>\<open>NULL\<close> pointer.
\<close>

definition emit_func_declare ::
  "string \<Rightarrow> jtype \<Rightarrow> nat \<Rightarrow> rvalue list option \<Rightarrow> function_kind \<Rightarrow> bool \<Rightarrow> gfunc emit" where
  "emit_func_declare f_name ret_type nargs argv kind reusable =
     (if nargs > 4 then failE Undefined
      else
        let types = (case argv of
                       Some as \<Rightarrow> map rvalue_get_type (take nargs as)
                     | None \<Rightarrow> replicate nargs lisp_obj_type);
            f = Function kind ret_type f_name types
        in if reusable
           then bindE (getsE func_hash) (\<lambda>ht.
                thenE (eassert (ht f_name = None))
               (thenE (modifyE (\<lambda>st. st\<lparr>func_hash := (func_hash st)(f_name \<mapsto> f)\<rparr>))
                      (returnE f)))
           else returnE f)"

definition emit_call :: "string \<Rightarrow> jtype \<Rightarrow> nat \<Rightarrow> rvalue list \<Rightarrow> rvalue emit" where
  "emit_call f_name ret_type nargs argv =
     bindE (getsE func_hash) (\<lambda>ht.
     thenE (if ht f_name = None
            then bindE (emit_func_declare f_name ret_type nargs (Some argv) IMPORTED True)
                       (\<lambda>f. returnE ())
            else returnE ())
     (bindE (getsE func_hash) (\<lambda>ht'.
        case ht' f_name of
          None \<Rightarrow> failE Eassert
        | Some f \<Rightarrow> returnE (Call f (take nargs argv)))))"

text \<open>Close current basic block emitting a conditional.\<close>

definition emit_cond_jump :: "rvalue \<Rightarrow> bb_ptr \<Rightarrow> bb_ptr \<Rightarrow> unit emit" where
  "emit_cond_jump test then_target else_target =
     bindE cur_gcc_bb (\<lambda>b.
     bindE (deref_bb then_target) (\<lambda>t.
     bindE (deref_bb else_target) (\<lambda>e.
     thenE (if rvalue_get_type test = TYPE_BOOL
            then block_end b (End_with_conditional test (gcc_bb t) (gcc_bb e))
            else block_end b (End_with_conditional
                                (Unary_op UNARY_LOGICAL_NEGATE TYPE_BOOL test) (gcc_bb e) (gcc_bb t)))
     (bindE (getsE block) (\<lambda>p. update_bb p (\<lambda>bb. bb\<lparr>terminated := True\<rparr>))))))"

text \<open>Close current basic block emitting a comparison between two rval.\<close>

definition emit_comparison_jump ::
  "comparison \<Rightarrow> rvalue \<Rightarrow> rvalue \<Rightarrow> bb_ptr \<Rightarrow> bb_ptr \<Rightarrow> rvalue emit" where
  "emit_comparison_jump cmp a b then_target else_target =
     (let test = Comparison cmp a b
      in thenE (emit_cond_jump test then_target else_target) (returnE test))"

definition type_to_cast_field :: "jtype \<Rightarrow> field emit" where
  "type_to_cast_field t =
     (if t = TYPE_LONG_LONG then returnE cast_union_as_ll
      else if t = TYPE_UNSIGNED_LONG_LONG then returnE cast_union_as_ull
      else if t = TYPE_LONG then returnE cast_union_as_l
      else if t = TYPE_UNSIGNED_LONG then returnE cast_union_as_ul
      else if t = TYPE_UNSIGNED_INT then returnE cast_union_as_u
      else if t = TYPE_INT then returnE cast_union_as_i
      else if t = TYPE_BOOL then returnE cast_union_as_b
      else if t = TYPE_VOID_PTR then returnE cast_union_as_v_p
      else if t = char_ptr_type then returnE cast_union_as_c_p
      else if t = lisp_cons_ptr_type then returnE cast_union_as_lisp_cons_ptr
      else if t = lisp_obj_type then returnE cast_union_as_lisp_obj
      else failE (Signal ''unsupported cast''))"

text \<open>
  \<^verbatim>\<open>emit_cast\<close>: the library has no general cast, so the value is stored into one member of
  a fresh union and read back through another.  The counter is a static \<^verbatim>\<open>unsigned\<close>.
\<close>

definition emit_cast :: "jtype \<Rightarrow> rvalue \<Rightarrow> rvalue emit" where
  "emit_cast new_type obj =
     bindE (type_to_cast_field (rvalue_get_type obj)) (\<lambda>orig_field.
     bindE (type_to_cast_field new_type) (\<lambda>dest_field.
     bindE (getsE cast_i) (\<lambda>i.
     thenE (modifyE (\<lambda>st. st\<lparr>cast_i := (i + 1) mod 2 ^ 32\<rparr>))
    (bindE (format_string (''union_cast_'' @ string_of_nat i)) (\<lambda>name.
     bindE (getsE func) (\<lambda>f.
     bindE (gcc_jit_function_new_local f cast_union_type name) (\<lambda>tmp_u.
     bindE cur_gcc_bb (\<lambda>b.
     thenE (block_add b (Add_assignment (Lvalue_access_field tmp_u orig_field) obj))
           (returnE (Rvalue_access_field (Lvalue_as_rvalue tmp_u) dest_field))))))))))"

definition emit_XLI :: "rvalue \<Rightarrow> rvalue emit" where
  "emit_XLI obj =
     thenE (emit_comment ''XLI'') (returnE (Rvalue_access_field obj lisp_obj_as_num))"

definition emit_lval_XLI :: "lvalue \<Rightarrow> lvalue emit" where
  "emit_lval_XLI obj =
     thenE (emit_comment ''lval_XLI'') (returnE (Lvalue_access_field obj lisp_obj_as_num))"

definition emit_lval_XLP :: "lvalue \<Rightarrow> lvalue emit" where
  "emit_lval_XLP obj =
     thenE (emit_comment ''lval_XLP'') (returnE (Lvalue_access_field obj lisp_obj_as_ptr))"

text \<open>
  \<^verbatim>\<open>emit_XUNTAG\<close>.  The tag arrives in an \<^verbatim>\<open>unsigned\<close> parameter and goes on through the
  \<^verbatim>\<open>int\<close> parameter of \<^verbatim>\<open>gcc_jit_context_new_rvalue_from_int\<close>.
\<close>

definition emit_XUNTAG :: "rvalue \<Rightarrow> jtype \<Rightarrow> int \<Rightarrow> rvalue emit" where
  "emit_XUNTAG a t lisp_word_tag =
     thenE (emit_comment ''XUNTAG'')
    (bindE (emit_XLI a) (\<lambda>x.
     emit_cast (Pointer t)
       (Binary_op MINUS emacs_int_type x
          (Rvalue_from_int emacs_int_type (sint (word_of_int lisp_word_tag :: 32 word))))))"

definition emit_XCONS :: "lisp_h \<Rightarrow> rvalue \<Rightarrow> rvalue emit" where
  "emit_XCONS h a =
     thenE (emit_comment ''XCONS'')
           (emit_XUNTAG a lisp_cons_s (LISP_WORD_TAG h (Lisp_Cons h)))"

definition emit_EQ :: "rvalue \<Rightarrow> rvalue \<Rightarrow> rvalue emit" where
  "emit_EQ x y =
     thenE (emit_comment ''EQ'')
    (bindE (emit_XLI x) (\<lambda>a.
     bindE (emit_XLI y) (\<lambda>b.
     returnE (Comparison EQ a b))))"

definition emit_TAGGEDP :: "lisp_h \<Rightarrow> rvalue \<Rightarrow> int \<Rightarrow> rvalue emit" where
  "emit_TAGGEDP h obj tag =
     thenE (emit_comment ''TAGGEDP'')
    (bindE (emit_XLI obj) (\<lambda>x.
     let sh_res = Binary_op RSHIFT emacs_int_type x
                    (Rvalue_from_int emacs_int_type (if USE_LSB_TAG h then 0 else int (VALBITS h)))
     in bindE (emit_cast TYPE_UNSIGNED_INT sh_res) (\<lambda>c.
        let minus_res = Binary_op MINUS TYPE_UNSIGNED_INT c (Rvalue_from_int TYPE_UNSIGNED_INT tag)
        in returnE (Unary_op UNARY_LOGICAL_NEGATE TYPE_INT
                      (Binary_op BITWISE_AND TYPE_UNSIGNED_INT minus_res
                         (Rvalue_from_int TYPE_UNSIGNED_INT (2 ^ GCTYPEBITS h - 1)))))))"

definition emit_VECTORLIKEP :: "lisp_h \<Rightarrow> rvalue \<Rightarrow> rvalue emit" where
  "emit_VECTORLIKEP h obj =
     thenE (emit_comment ''VECTORLIKEP'') (emit_TAGGEDP h obj (Lisp_Vectorlike h))"

definition emit_CONSP :: "lisp_h \<Rightarrow> rvalue \<Rightarrow> rvalue emit" where
  "emit_CONSP h obj =
     thenE (emit_comment ''CONSP'') (emit_TAGGEDP h obj (Lisp_Cons h))"

definition emit_FLOATP :: "lisp_h \<Rightarrow> rvalue \<Rightarrow> rvalue emit" where
  "emit_FLOATP h obj =
     thenE (emit_comment ''FLOATP'') (emit_TAGGEDP h obj (Lisp_Float h))"

definition emit_BIGNUMP :: "lisp_h \<Rightarrow> rvalue \<Rightarrow> rvalue emit" where
  "emit_BIGNUMP h obj =
     thenE (emit_comment ''BIGNUMP'')
           (returnE (Call pseudovectorp [obj, Rvalue_from_int TYPE_INT (PVEC_BIGNUM h)]))"

definition emit_FIXNUMP :: "lisp_h \<Rightarrow> rvalue \<Rightarrow> rvalue emit" where
  "emit_FIXNUMP h obj =
     thenE (emit_comment ''FIXNUMP'')
    (bindE (emit_XLI obj) (\<lambda>x.
     let sh_res = Binary_op RSHIFT emacs_int_type x
                    (Rvalue_from_int emacs_int_type (if USE_LSB_TAG h then 0 else int (FIXNUM_BITS h)))
     in bindE (emit_cast TYPE_UNSIGNED_INT sh_res) (\<lambda>c.
        let minus_res = Binary_op MINUS TYPE_UNSIGNED_INT c
                          (Rvalue_from_int TYPE_UNSIGNED_INT
                             (if USE_LSB_TAG h then Lisp_Int0 h else Lisp_Int0 h div 2))
        in returnE (Unary_op UNARY_LOGICAL_NEGATE TYPE_INT
                      (Binary_op BITWISE_AND TYPE_UNSIGNED_INT minus_res
                         (Rvalue_from_int TYPE_UNSIGNED_INT (2 ^ INTTYPEBITS h - 1)))))))"

definition emit_XFIXNUM :: "lisp_h \<Rightarrow> rvalue \<Rightarrow> rvalue emit" where
  "emit_XFIXNUM h obj =
     thenE (emit_comment ''XFIXNUM'')
    (bindE (emit_XLI obj) (\<lambda>x.
     returnE (Binary_op RSHIFT emacs_int_type x (inttypebits h))))"

text \<open>
  In \<^verbatim>\<open>emit_INTEGERP\<close> and \<^verbatim>\<open>emit_NUMBERP\<close> both operands are calls that emit; C leaves the
  order of the two open, the model takes them from left to right.
\<close>

definition emit_INTEGERP :: "lisp_h \<Rightarrow> rvalue \<Rightarrow> rvalue emit" where
  "emit_INTEGERP h obj =
     thenE (emit_comment ''INTEGERP'')
    (bindE (emit_FIXNUMP h obj) (\<lambda>f.
     bindE (emit_cast TYPE_BOOL f) (\<lambda>a.
     bindE (emit_BIGNUMP h obj) (\<lambda>b.
     returnE (Binary_op LOGICAL_OR TYPE_BOOL a b)))))"

definition emit_NUMBERP :: "lisp_h \<Rightarrow> rvalue \<Rightarrow> rvalue emit" where
  "emit_NUMBERP h obj =
     thenE (emit_comment ''NUMBERP'')
    (bindE (emit_INTEGERP h obj) (\<lambda>a.
     bindE (emit_FLOATP h obj) (\<lambda>f.
     bindE (emit_cast TYPE_BOOL f) (\<lambda>b.
     returnE (Binary_op LOGICAL_OR TYPE_BOOL a b)))))"

definition emit_make_fixnum :: "lisp_h \<Rightarrow> rvalue \<Rightarrow> rvalue emit" where
  "emit_make_fixnum h obj =
     thenE (emit_comment ''make_fixnum'')
    (let tmp = Binary_op LSHIFT emacs_int_type obj (inttypebits h);
         tmp = Binary_op PLUS emacs_int_type tmp (lisp_int0 h)
     in bindE (getsE func) (\<lambda>f.
        bindE (gcc_jit_function_new_local f lisp_obj_type ''lisp_obj_fixnum'') (\<lambda>res.
        bindE cur_gcc_bb (\<lambda>b.
        bindE (emit_lval_XLI res) (\<lambda>l.
        thenE (block_add b (Add_assignment l tmp))
              (returnE (Lvalue_as_rvalue res)))))))"

text \<open>Construct fill and return a lisp object form a raw pointer.\<close>

definition emit_lisp_obj_from_ptr :: "lisp_h \<Rightarrow> Lisp_Object \<Rightarrow> rvalue emit" where
  "emit_lisp_obj_from_ptr h p =
     thenE (emit_comment ''lisp_obj_from_ptr'')
    (bindE (getsE obj_i) (\<lambda>i.
     thenE (modifyE (\<lambda>st. st\<lparr>obj_i := (i + 1) mod 2 ^ 32\<rparr>))
    (bindE (format_string (''lisp_obj_from_ptr_'' @ string_of_nat i)) (\<lambda>name.
     bindE (getsE func) (\<lambda>f.
     bindE (gcc_jit_function_new_local f lisp_obj_type name) (\<lambda>lisp_obj.
     let void_ptr = Rvalue_from_ptr TYPE_VOID_PTR p
     in thenE (if SYMBOLP h p
               then bindE (format_string (''Symbol '' @ SYMBOL_NAME h p)) emit_comment
               else returnE ())
       (bindE cur_gcc_bb (\<lambda>b.
        bindE (emit_lval_XLP lisp_obj) (\<lambda>l.
        thenE (block_add b (Add_assignment l void_ptr))
              (returnE (Lvalue_as_rvalue lisp_obj)))))))))))"

definition emit_NILP :: "lisp_h \<Rightarrow> rvalue \<Rightarrow> rvalue emit" where
  "emit_NILP h x =
     thenE (emit_comment ''NILP'')
    (bindE (emit_lisp_obj_from_ptr h (Qnil h)) (\<lambda>n. emit_EQ x n))"

definition emit_XCAR :: "lisp_h \<Rightarrow> rvalue \<Rightarrow> rvalue emit" where
  "emit_XCAR h c =
     thenE (emit_comment ''XCAR'')
    (bindE (emit_XCONS h c) (\<lambda>p.
     returnE (Rvalue_access_field
                (Rvalue_access_field
                   (Lvalue_as_rvalue (Dereference_field p lisp_cons_u))
                   lisp_cons_u_s)
                lisp_cons_u_s_car)))"

definition emit_XCDR :: "lisp_h \<Rightarrow> rvalue \<Rightarrow> rvalue emit" where
  "emit_XCDR h c =
     thenE (emit_comment ''XCDR'')
    (bindE (emit_XCONS h c) (\<lambda>p.
     returnE (Rvalue_access_field
                (Rvalue_access_field
                   (Rvalue_access_field
                      (Lvalue_as_rvalue (Dereference_field p lisp_cons_u))
                      lisp_cons_u_s)
                   lisp_cons_u_s_u)
                lisp_cons_u_s_u_cdr)))"

definition emit_call_n_ref :: "string \<Rightarrow> nat \<Rightarrow> lvalue \<Rightarrow> rvalue emit" where
  "emit_call_n_ref f_name nargs base_arg =
     emit_call f_name lisp_obj_type 2
       [Rvalue_from_int ptrdiff_type (int nargs), Get_address base_arg]"

section \<open>Running emitted code\<close>

text \<open>
  What the recorded trees compute once compiled, for the LP64 little-endian target.  A value is
  a machine word, or the address of a cell of a local variable; a local is a row of 8-byte
  cells, the host's memory a map from addresses to 8-byte cells (accesses are aligned).  The
  members of a union share the low bytes of its cell.  A call of a host function is appended to
  the trace \<open>calls\<close> and answered by the parameter \<open>host\<close>; the host function may return,
  or leave by a non-local exit (\<open>Exits\<close>).  \<open>Stuck\<close> is every behaviour that C leaves
  undefined, signed overflow included.
\<close>

datatype val = Word "64 word" | Ref nat nat

datatype callee = Named string | Through_ptr "64 word"

record rt_state =
  locals :: "nat \<Rightarrow> nat \<Rightarrow> 64 word"
  heap :: "64 word \<Rightarrow> 64 word"
  calls :: "(callee \<times> val list) list"

datatype 'a result = Returns 'a rt_state | Exits rt_state | Stuck

type_synonym host_sem = "callee \<Rightarrow> val list \<Rightarrow> rt_state \<Rightarrow> val result"

fun bindR :: "'a result \<Rightarrow> ('a \<Rightarrow> rt_state \<Rightarrow> 'b result) \<Rightarrow> 'b result" where
  "bindR (Returns x rt) f = f x rt"
| "bindR (Exits rt) f = Exits rt"
| "bindR Stuck f = Stuck"

datatype loc = Loc_local nat nat | Loc_mem "64 word"

fun type_bits :: "jtype \<Rightarrow> nat" where
  "type_bits TYPE_VOID = 0"
| "type_bits TYPE_BOOL = 8"
| "type_bits TYPE_CHAR = 8"
| "type_bits TYPE_INT = 32"
| "type_bits TYPE_UNSIGNED_INT = 32"
| "type_bits t = 64"

fun type_signed :: "jtype \<Rightarrow> bool" where
  "type_signed TYPE_CHAR = True"
| "type_signed TYPE_INT = True"
| "type_signed TYPE_LONG = True"
| "type_signed TYPE_LONG_LONG = True"
| "type_signed t = False"

text \<open>A word as a value of type \<open>t\<close>: its low bits.  \<open>sval\<close> reads them as two's complement.\<close>

definition norm :: "jtype \<Rightarrow> 64 word \<Rightarrow> 64 word" where
  "norm t w = take_bit (type_bits t) w"

text \<open>The C constant \<open>k\<close> as a value of type \<open>t\<close>.\<close>

definition cval :: "jtype \<Rightarrow> int \<Rightarrow> 64 word" where
  "cval t k = norm t (word_of_int k)"

definition sval :: "jtype \<Rightarrow> 64 word \<Rightarrow> int" where
  "sval t w = signed_take_bit (type_bits t - 1) (uint w)"

definition in_range :: "jtype \<Rightarrow> int \<Rightarrow> bool" where
  "in_range t k \<longleftrightarrow> - (2 ^ (type_bits t - 1)) \<le> k \<and> k < 2 ^ (type_bits t - 1)"

definition load :: "rt_state \<Rightarrow> loc \<Rightarrow> jtype \<Rightarrow> 64 word" where
  "load rt l t = norm t (case l of Loc_local i k \<Rightarrow> locals rt i k | Loc_mem a \<Rightarrow> heap rt a)"

definition merge :: "jtype \<Rightarrow> 64 word \<Rightarrow> 64 word \<Rightarrow> 64 word" where
  "merge t old v = push_bit (type_bits t) (drop_bit (type_bits t) old) OR norm t v"

definition store :: "rt_state \<Rightarrow> loc \<Rightarrow> jtype \<Rightarrow> 64 word \<Rightarrow> rt_state" where
  "store rt l t v = (case l of
       Loc_local i k \<Rightarrow> rt\<lparr>locals := (locals rt)(i := (locals rt i)(k := merge t (locals rt i k) v))\<rparr>
     | Loc_mem a \<Rightarrow> rt\<lparr>heap := (heap rt)(a := merge t (heap rt a) v)\<rparr>)"

fun loc_add :: "loc \<Rightarrow> nat \<Rightarrow> loc option" where
  "loc_add (Loc_local i k) off = (if off mod 8 = 0 then Some (Loc_local i (k + off div 8)) else None)"
| "loc_add (Loc_mem a) off = Some (Loc_mem (a + of_nat off))"

fun val_loc :: "val \<Rightarrow> loc" where
  "val_loc (Word a) = Loc_mem a"
| "val_loc (Ref i k) = Loc_local i k"

fun loc_val :: "loc \<Rightarrow> val" where
  "loc_val (Loc_mem a) = Word a"
| "loc_val (Loc_local i k) = Ref i k"

fun is_array :: "jtype \<Rightarrow> bool" where
  "is_array (Array t n) = True"
| "is_array t = False"

text \<open>An rvalue that is a member of an lvalue read as a whole: it has a place in memory.\<close>

fun is_place :: "rvalue \<Rightarrow> bool" where
  "is_place (Lvalue_as_rvalue lv) = True"
| "is_place (Rvalue_access_field r f) = is_place r"
| "is_place r = False"

definition arith :: "binary_op \<Rightarrow> jtype \<Rightarrow> 64 word \<Rightarrow> 64 word \<Rightarrow> 64 word option" where
  "arith bop t a b = (case bop of
       PLUS \<Rightarrow> if type_signed t
               then (if in_range t (sval t a + sval t b) then Some (norm t (a + b)) else None)
               else Some (norm t (a + b))
     | MINUS \<Rightarrow> if type_signed t
                then (if in_range t (sval t a - sval t b) then Some (norm t (a - b)) else None)
                else Some (norm t (a - b))
     | BITWISE_AND \<Rightarrow> Some (norm t (a AND b))
     | LSHIFT \<Rightarrow> if unat b < type_bits t then Some (norm t (push_bit (unat b) a)) else None
     | RSHIFT \<Rightarrow> if unat b < type_bits t
                 then Some (if type_signed t
                            then cval t (drop_bit (unat b) (sval t a))
                            else drop_bit (unat b) (norm t a))
                 else None
     | LOGICAL_AND \<Rightarrow> Some (of_bool (a \<noteq> 0 \<and> b \<noteq> 0))
     | LOGICAL_OR \<Rightarrow> Some (of_bool (a \<noteq> 0 \<or> b \<noteq> 0)))"

definition compare :: "comparison \<Rightarrow> jtype \<Rightarrow> val \<Rightarrow> val \<Rightarrow> bool option" where
  "compare c t x y = (case c of
       EQ \<Rightarrow> Some (x = y)
     | NE \<Rightarrow> Some (x \<noteq> y)
     | LE \<Rightarrow> (case (x, y) of
                (Word a, Word b) \<Rightarrow>
                  Some (if type_signed t then sval t a \<le> sval t b else norm t a \<le> norm t b)
              | _ \<Rightarrow> None))"

fun eval_rvalue :: "host_sem \<Rightarrow> (string \<Rightarrow> val option) \<Rightarrow> rvalue \<Rightarrow> rt_state \<Rightarrow> val result"
  and eval_place :: "host_sem \<Rightarrow> (string \<Rightarrow> val option) \<Rightarrow> rvalue \<Rightarrow> rt_state \<Rightarrow> loc result"
  and eval_lvalue :: "host_sem \<Rightarrow> (string \<Rightarrow> val option) \<Rightarrow> lvalue \<Rightarrow> rt_state \<Rightarrow> loc result"
  and eval_rvalues :: "host_sem \<Rightarrow> (string \<Rightarrow> val option) \<Rightarrow> rvalue list \<Rightarrow> rt_state \<Rightarrow> val list result"
where
  "eval_rvalue host ps (Rvalue_from_int t n) rt = Returns (Word (cval t n)) rt"
| "eval_rvalue host ps (Rvalue_from_ptr t p) rt = Returns (Word p) rt"
| "eval_rvalue host ps (Param_as_rvalue t n) rt =
     (case ps n of Some v \<Rightarrow> Returns v rt | None \<Rightarrow> Stuck)"
| "eval_rvalue host ps (Lvalue_as_rvalue lv) rt =
     bindR (eval_lvalue host ps lv rt) (\<lambda>l rt'.
       if is_array (lvalue_get_type lv) then Returns (loc_val l) rt'
       else Returns (Word (load rt' l (lvalue_get_type lv))) rt')"
| "eval_rvalue host ps (Rvalue_access_field r f) rt =
     (if is_place r
      then bindR (eval_place host ps r rt) (\<lambda>l rt'.
             case loc_add l (field_offset f) of
               None \<Rightarrow> Stuck
             | Some l' \<Rightarrow> Returns (Word (load rt' l' (field_type f))) rt')
      else bindR (eval_rvalue host ps r rt) (\<lambda>v rt'.
             case v of
               Word w \<Rightarrow> if field_offset f = 0 then Returns (Word (norm (field_type f) w)) rt'
                         else Stuck
             | Ref i k \<Rightarrow> Stuck))"
| "eval_rvalue host ps (Unary_op u t r) rt =
     bindR (eval_rvalue host ps r rt) (\<lambda>v rt'.
       case v of
         Ref i k \<Rightarrow> Stuck
       | Word w \<Rightarrow> (case u of
           UNARY_LOGICAL_NEGATE \<Rightarrow> Returns (Word (of_bool (w = 0))) rt'
         | UNARY_MINUS \<Rightarrow>
             if type_signed t \<and> \<not> in_range t (- sval t w) then Stuck
             else Returns (Word (norm t (- w))) rt'))"
| "eval_rvalue host ps (Binary_op bop t x y) rt =
     bindR (eval_rvalue host ps x rt) (\<lambda>vx rt'.
       case vx of
         Ref i k \<Rightarrow> Stuck
       | Word a \<Rightarrow>
           if bop = LOGICAL_AND \<and> a = 0 then Returns (Word 0) rt'
           else if bop = LOGICAL_OR \<and> a \<noteq> 0 then Returns (Word 1) rt'
           else bindR (eval_rvalue host ps y rt') (\<lambda>vy rt''.
             case vy of
               Ref i k \<Rightarrow> Stuck
             | Word b \<Rightarrow> (case arith bop t a b of
                             None \<Rightarrow> Stuck
                           | Some w \<Rightarrow> Returns (Word w) rt'')))"
| "eval_rvalue host ps (Comparison c x y) rt =
     bindR (eval_rvalue host ps x rt) (\<lambda>vx rt'.
     bindR (eval_rvalue host ps y rt') (\<lambda>vy rt''.
       case compare c (rvalue_get_type x) vx vy of
         None \<Rightarrow> Stuck
       | Some b \<Rightarrow> Returns (Word (of_bool b)) rt''))"
| "eval_rvalue host ps (Call f as) rt =
     bindR (eval_rvalues host ps as rt) (\<lambda>vs rt'.
       host (Named (function_name f)) vs
         (rt'\<lparr>calls := calls rt' @ [(Named (function_name f), vs)]\<rparr>))"
| "eval_rvalue host ps (Call_through_ptr p as) rt =
     bindR (eval_rvalue host ps p rt) (\<lambda>vp rt'.
       case vp of
         Ref i k \<Rightarrow> Stuck
       | Word a \<Rightarrow>
           bindR (eval_rvalues host ps as rt') (\<lambda>vs rt''.
             host (Through_ptr a) vs (rt''\<lparr>calls := calls rt'' @ [(Through_ptr a, vs)]\<rparr>)))"
| "eval_rvalue host ps (Get_address lv) rt =
     bindR (eval_lvalue host ps lv rt) (\<lambda>l rt'. Returns (loc_val l) rt')"
| "eval_place host ps (Lvalue_as_rvalue lv) rt = eval_lvalue host ps lv rt"
| "eval_place host ps (Rvalue_access_field r f) rt =
     bindR (eval_place host ps r rt) (\<lambda>l rt'.
       case loc_add l (field_offset f) of None \<Rightarrow> Stuck | Some l' \<Rightarrow> Returns l' rt')"
| "eval_place host ps (Rvalue_from_int t n) rt = Stuck"
| "eval_place host ps (Rvalue_from_ptr t p) rt = Stuck"
| "eval_place host ps (Param_as_rvalue t n) rt = Stuck"
| "eval_place host ps (Unary_op u t r) rt = Stuck"
| "eval_place host ps (Binary_op bop t x y) rt = Stuck"
| "eval_place host ps (Comparison c x y) rt = Stuck"
| "eval_place host ps (Call f as) rt = Stuck"
| "eval_place host ps (Call_through_ptr p as) rt = Stuck"
| "eval_place host ps (Get_address lv) rt = Stuck"
| "eval_lvalue host ps (Local i t n) rt = Returns (Loc_local i 0) rt"
| "eval_lvalue host ps (Array_access p idx) rt =
     bindR (eval_rvalue host ps p rt) (\<lambda>vp rt'.
     bindR (eval_rvalue host ps idx rt') (\<lambda>vi rt''.
       case vi of
         Ref i k \<Rightarrow> Stuck
       | Word w \<Rightarrow>
           if sval (rvalue_get_type idx) w < 0 then Stuck
           else (case loc_add (val_loc vp) (8 * nat (sval (rvalue_get_type idx) w)) of
                   None \<Rightarrow> Stuck
                 | Some l \<Rightarrow> Returns l rt'')))"
| "eval_lvalue host ps (Lvalue_access_field lv f) rt =
     bindR (eval_lvalue host ps lv rt) (\<lambda>l rt'.
       case loc_add l (field_offset f) of None \<Rightarrow> Stuck | Some l' \<Rightarrow> Returns l' rt')"
| "eval_lvalue host ps (Dereference_field p f) rt =
     bindR (eval_rvalue host ps p rt) (\<lambda>vp rt'.
       case loc_add (val_loc vp) (field_offset f) of None \<Rightarrow> Stuck | Some l' \<Rightarrow> Returns l' rt')"
| "eval_lvalue host ps (Dereference p) rt =
     bindR (eval_rvalue host ps p rt) (\<lambda>vp rt'. Returns (val_loc vp) rt')"
| "eval_rvalues host ps [] rt = Returns [] rt"
| "eval_rvalues host ps (r # rs) rt =
     bindR (eval_rvalue host ps r rt) (\<lambda>v rt'.
     bindR (eval_rvalues host ps rs rt') (\<lambda>vs rt''. Returns (v # vs) rt''))"

fun exec_stmt :: "host_sem \<Rightarrow> (string \<Rightarrow> val option) \<Rightarrow> stmt \<Rightarrow> rt_state \<Rightarrow> unit result" where
  "exec_stmt host ps (Add_comment c) rt = Returns () rt"
| "exec_stmt host ps (Add_assignment lv r) rt =
     bindR (eval_rvalue host ps r rt) (\<lambda>v rt'.
     bindR (eval_lvalue host ps lv rt') (\<lambda>l rt''.
       case v of
         Ref i k \<Rightarrow> Stuck
       | Word w \<Rightarrow> Returns () (store rt'' l (lvalue_get_type lv) w)))"
| "exec_stmt host ps (Add_eval r) rt =
     bindR (eval_rvalue host ps r rt) (\<lambda>v rt'. Returns () rt')"

fun exec_stmts :: "host_sem \<Rightarrow> (string \<Rightarrow> val option) \<Rightarrow> stmt list \<Rightarrow> rt_state \<Rightarrow> unit result" where
  "exec_stmts host ps [] rt = Returns () rt"
| "exec_stmts host ps (s # ss) rt =
     bindR (exec_stmt host ps s rt) (\<lambda>u rt'. exec_stmts host ps ss rt')"

text \<open>
  Running the blocks of a function from block \<open>b\<close>: the statements, then the terminator.
  The fuel bounds the number of blocks entered; a block without terminator is stuck.  The
  result is the returned value, \<open>None\<close> for a void return.
\<close>

fun exec_blocks ::
  "host_sem \<Rightarrow> (string \<Rightarrow> val option) \<Rightarrow> (nat \<Rightarrow> stmt list) \<Rightarrow> (nat \<Rightarrow> terminator option) \<Rightarrow>
   nat \<Rightarrow> nat \<Rightarrow> rt_state \<Rightarrow> val option result" where
  "exec_blocks host ps code fin 0 b rt = Stuck"
| "exec_blocks host ps code fin (Suc fuel) b rt =
     bindR (exec_stmts host ps (code b) rt) (\<lambda>u rt'.
       case fin b of
         None \<Rightarrow> Stuck
       | Some (End_with_jump b') \<Rightarrow> exec_blocks host ps code fin fuel b' rt'
       | Some (End_with_conditional c b1 b2) \<Rightarrow>
           bindR (eval_rvalue host ps c rt') (\<lambda>v rt''.
             case v of
               Ref i k \<Rightarrow> Stuck
             | Word w \<Rightarrow> exec_blocks host ps code fin fuel (if w \<noteq> 0 then b1 else b2) rt'')
       | Some (End_with_return r) \<Rightarrow>
           bindR (eval_rvalue host ps r rt') (\<lambda>v rt''. Returns (Some v) rt'')
       | Some End_with_void_return \<Rightarrow> Returns None rt')"

section \<open>The macros of the meta stack and of the byte stream\<close>

text \<open>
  \<^verbatim>\<open>MAX_POP\<close>: max number of entries of the meta-stack that can get poped; it is the size of
  the array \<open>args\<close>.
\<close>

definition MAX_POP :: nat where "MAX_POP = 64"

definition set_arg :: "nat \<Rightarrow> rvalue \<Rightarrow> unit emit" where
  "set_arg i r =
     (if i < MAX_POP then modifyE (\<lambda>st. st\<lparr>args := (args st)(i := r)\<rparr>) else failE Undefined)"

text \<open>The first \<open>n\<close> elements behind \<^verbatim>\<open>args + k\<close>.\<close>

definition args_from :: "nat \<Rightarrow> nat \<Rightarrow> rvalue list emit" where
  "args_from k n =
     (if k + n \<le> MAX_POP then getsE (\<lambda>st. map (args st) [k ..< k + n]) else failE Undefined)"

definition CHECK_STACK :: "unit emit" where
  "CHECK_STACK =
     bindE (getsE stack) (\<lambda>sp.
     bindE (getsE stack_base) (\<lambda>sb.
     eassert (0 \<le> sp \<and> sp < int (length sb))))"

definition PUSH_RVAL :: "rvalue \<Rightarrow> unit emit" where
  "PUSH_RVAL obj =
     thenE CHECK_STACK
    (bindE (getsE block) (\<lambda>b.
     bindE (getsE stack) (\<lambda>sp.
     thenE (emit_assign_to_stack_slot b sp obj)
           (modifyE (\<lambda>st. st\<lparr>stack := sp + 1\<rparr>)))))"

definition PUSH_LVAL :: "lvalue \<Rightarrow> unit emit" where
  "PUSH_LVAL obj = PUSH_RVAL (Lvalue_as_rvalue obj)"

text \<open>\<^verbatim>\<open>PUSH_PARAM\<close>: this always happens in the first basic block.\<close>

definition PUSH_PARAM :: "bb_ptr \<Rightarrow> rvalue \<Rightarrow> unit emit" where
  "PUSH_PARAM prologue obj =
     thenE CHECK_STACK
    (bindE (getsE stack) (\<lambda>sp.
     thenE (emit_assign_to_stack_slot prologue sp obj)
           (modifyE (\<lambda>st. st\<lparr>stack := sp + 1\<rparr>))))"

text \<open>\<^verbatim>\<open>TOS\<close> is \<^verbatim>\<open>*(stack - 1)\<close>.\<close>

definition TOS :: "stack_el_t emit" where
  "TOS = bindE (getsE stack) (\<lambda>sp. stack_el (sp - 1))"

definition DISCARD :: "nat \<Rightarrow> unit emit" where
  "DISCARD n = modifyE (\<lambda>st. st\<lparr>stack := stack st - int n\<rparr>)"

text \<open>\<^verbatim>\<open>stack--\<close>, then \<^verbatim>\<open>args[i] = gcc_jit_lvalue_as_rvalue (stack->gcc_lval)\<close>.\<close>

definition pop_to :: "bool \<Rightarrow> nat \<Rightarrow> unit emit" where
  "pop_to check i =
     thenE (modifyE (\<lambda>st. st\<lparr>stack := stack st - 1\<rparr>))
    (thenE (if check then CHECK_STACK else returnE ())
    (bindE (getsE stack) (\<lambda>sp.
     bindE (stack_el sp) (\<lambda>el.
     set_arg i (Lvalue_as_rvalue (gcc_lval el))))))"

definition POP0 :: "unit emit" where
  "POP0 = returnE ()"

definition POP1 :: "unit emit" where
  "POP1 = pop_to True 0"

definition POP2 :: "unit emit" where
  "POP2 = thenE (pop_to True 1) (pop_to False 0)"

definition POP3 :: "unit emit" where
  "POP3 = thenE (pop_to True 2) (thenE (pop_to False 1) (pop_to False 0))"

text \<open>
  \<^verbatim>\<open>pop\<close>: pop form the main evaluation stack and place the elements in args in reversed
  order.  \<open>k\<close> is the offset of the pointer \<^verbatim>\<open>args\<close> that the caller passes.
\<close>

fun pop_loop :: "nat \<Rightarrow> nat \<Rightarrow> unit emit" where
  "pop_loop 0 k = returnE ()"
| "pop_loop (Suc n) k = thenE (pop_to False (k + n)) (pop_loop n k)"

definition pop :: "nat \<Rightarrow> nat \<Rightarrow> unit emit" where
  "pop n k = thenE (eassert (n \<le> MAX_POP)) (pop_loop n k)"

text \<open>Fetch the next byte from the bytecode stream.\<close>

definition FETCH :: "8 word list \<Rightarrow> nat emit" where
  "FETCH bytestr_data =
     bindE (getsE pc) (\<lambda>p.
     if p < length bytestr_data
     then thenE (modifyE (\<lambda>st. st\<lparr>pc := p + 1\<rparr>)) (returnE (unat (bytestr_data ! p)))
     else failE Undefined)"

text \<open>Fetch two bytes from the bytecode stream and make a 16-bit number out of them.\<close>

definition FETCH2 :: "8 word list \<Rightarrow> nat emit" where
  "FETCH2 bytestr_data =
     bindE (FETCH bytestr_data) (\<lambda>lo.
     bindE (FETCH bytestr_data) (\<lambda>hi.
     returnE (lo + hi * 2 ^ 8)))"

text \<open>Subtraction in \<^verbatim>\<open>unsigned\<close>, the type of \<^verbatim>\<open>op\<close>.\<close>

definition unsigned_sub :: "nat \<Rightarrow> nat \<Rightarrow> nat" where
  "unsigned_sub a b = unat (word_of_nat a - word_of_nat b :: 32 word)"

definition unsigned_add :: "nat \<Rightarrow> nat \<Rightarrow> nat" where
  "unsigned_add a b = unat (word_of_nat a + word_of_nat b :: 32 word)"

text \<open>\<^verbatim>\<open>CASE (op)\<close> is the label and \<^verbatim>\<open>emit_comment (STR (op))\<close>.\<close>

definition CASE :: "string \<Rightarrow> unit emit" where
  "CASE name = emit_comment name"

text \<open>Pop from the meta-stack, emit the call and push the result.\<close>

definition EMIT_CALL_N :: "string \<Rightarrow> nat \<Rightarrow> unit emit" where
  "EMIT_CALL_N name nargs =
     thenE (if nargs = 0 then POP0 else if nargs = 1 then POP1
            else if nargs = 2 then POP2 else if nargs = 3 then POP3 else failE Undefined)
    (bindE (args_from 0 nargs) (\<lambda>as.
     bindE (emit_call name lisp_obj_type nargs as) (\<lambda>res.
     PUSH_RVAL res)))"

text \<open>Generate appropriate case and emit call to function.\<close>

definition CASE_CALL_N :: "string \<Rightarrow> nat \<Rightarrow> unit emit" where
  "CASE_CALL_N name nargs = thenE (CASE (''B'' @ name)) (EMIT_CALL_N (''F'' @ name) nargs)"

text \<open>
  Emit calls to functions with prototype \<^verbatim>\<open>(ptrdiff_t nargs, Lisp_Object *args)\<close>.
  This is done by passing a reference to the first obj involved on the stack.
\<close>

definition EMIT_CALL_N_REF :: "string \<Rightarrow> nat \<Rightarrow> unit emit" where
  "EMIT_CALL_N_REF name nargs =
     thenE (DISCARD nargs)
    (bindE (getsE stack) (\<lambda>sp.
     bindE (stack_el sp) (\<lambda>el.
     bindE (emit_call_n_ref name nargs (gcc_lval el)) (\<lambda>res.
     PUSH_RVAL res))))"

section \<open>The cases of the emitter\<close>

text \<open>
  Each definition below is the body of one \<^verbatim>\<open>case\<close> of the \<^verbatim>\<open>switch (op)\<close> in \<^verbatim>\<open>compile_f\<close>,
  run after \<^verbatim>\<open>op = FETCH\<close>: \<open>pc\<close> is the index of the byte after the opcode.
\<close>

subsection \<open>Calls of host functions: \<^verbatim>\<open>CASE_CALL_N\<close> and its neighbours\<close>

definition CASE_Bnth :: "unit emit" where "CASE_Bnth = CASE_CALL_N ''nth'' 2"
definition CASE_Bsymbolp :: "unit emit" where "CASE_Bsymbolp = CASE_CALL_N ''symbolp'' 1"
definition CASE_Bstringp :: "unit emit" where "CASE_Bstringp = CASE_CALL_N ''stringp'' 1"
definition CASE_Blistp :: "unit emit" where "CASE_Blistp = CASE_CALL_N ''listp'' 1"
definition CASE_Bnot :: "unit emit" where "CASE_Bnot = CASE_CALL_N ''not'' 1"
definition CASE_Blength :: "unit emit" where "CASE_Blength = CASE_CALL_N ''length'' 1"
definition CASE_Bsymbol_value :: "unit emit" where
  "CASE_Bsymbol_value = CASE_CALL_N ''symbol_value'' 1"
definition CASE_Bsymbol_function :: "unit emit" where
  "CASE_Bsymbol_function = CASE_CALL_N ''symbol_function'' 1"
definition CASE_Bfollowing_char :: "unit emit" where
  "CASE_Bfollowing_char = CASE_CALL_N ''following_char'' 0"
definition CASE_Bcurrent_column :: "unit emit" where
  "CASE_Bcurrent_column = CASE_CALL_N ''current_column'' 0"
definition CASE_Beolp :: "unit emit" where "CASE_Beolp = CASE_CALL_N ''eolp'' 0"
definition CASE_Beobp :: "unit emit" where "CASE_Beobp = CASE_CALL_N ''eobp'' 0"
definition CASE_Bbolp :: "unit emit" where "CASE_Bbolp = CASE_CALL_N ''bolp'' 0"
definition CASE_Bbobp :: "unit emit" where "CASE_Bbobp = CASE_CALL_N ''bobp'' 0"
definition CASE_Bcurrent_buffer :: "unit emit" where
  "CASE_Bcurrent_buffer = CASE_CALL_N ''current_buffer'' 0"
definition CASE_Bwiden :: "unit emit" where "CASE_Bwiden = CASE_CALL_N ''widen'' 0"

definition CASE_Bpreceding_char :: "unit emit" where
  "CASE_Bpreceding_char =
     thenE (CASE ''Bpreceding_char'')
    (bindE (args_from 0 0) (\<lambda>as.
     bindE (emit_call ''Fprevious_char'' lisp_obj_type 0 as) (\<lambda>res.
     PUSH_RVAL res)))"

definition CASE_Bcar_safe :: "unit emit" where
  "CASE_Bcar_safe = thenE (CASE ''Bcar_safe'') (EMIT_CALL_N ''CAR_SAFE'' 1)"

definition CASE_Bcdr_safe :: "unit emit" where
  "CASE_Bcdr_safe = thenE (CASE ''Bcdr_safe'') (EMIT_CALL_N ''CDR_SAFE'' 1)"

definition CASE_Bnumberp :: "lisp_h \<Rightarrow> unit emit" where
  "CASE_Bnumberp h =
     thenE (CASE ''Bnumberp'')
    (thenE POP1
    (bindE (args_from 0 1) (\<lambda>as.
     bindE (emit_NUMBERP h (hd as)) (\<lambda>res.
     PUSH_RVAL (Call bool_to_lisp_obj [res])))))"

definition CASE_Bintegerp :: "lisp_h \<Rightarrow> unit emit" where
  "CASE_Bintegerp h =
     thenE (CASE ''Bintegerp'')
    (thenE POP1
    (bindE (args_from 0 1) (\<lambda>as.
     bindE (emit_INTEGERP h (hd as)) (\<lambda>res.
     PUSH_RVAL (Call bool_to_lisp_obj [res])))))"

subsection \<open>List construction\<close>

fun make_list_loop :: "nat \<Rightarrow> unit emit" where
  "make_list_loop 0 = returnE ()"
| "make_list_loop (Suc n) =
     thenE POP2
    (bindE (args_from 0 2) (\<lambda>as.
     bindE (emit_call ''Fcons'' lisp_obj_type 2 as) (\<lambda>res.
     thenE (PUSH_RVAL res) (make_list_loop n))))"

text \<open>The label \<^verbatim>\<open>make_list\<close>.\<close>

definition make_list :: "nat \<Rightarrow> unit emit" where
  "make_list op =
     thenE POP1
    (bindE (getsE nil) (\<lambda>n.
     thenE (set_arg 1 n)
    (bindE (args_from 0 2) (\<lambda>as.
     bindE (emit_call ''Fcons'' lisp_obj_type 2 as) (\<lambda>res.
     thenE (PUSH_RVAL res) (make_list_loop op))))))"

definition CASE_BlistN :: "8 word list \<Rightarrow> unit emit" where
  "CASE_BlistN bytestr_data =
     thenE (CASE ''BlistN'') (bindE (FETCH bytestr_data) make_list)"

text \<open>
  \<^verbatim>\<open>Blist1\<close> to \<^verbatim>\<open>Blist4\<close> go through the label \<^verbatim>\<open>make_list_count\<close>; \<open>name\<close> is the
  enumerator of the case and \<open>op\<close> the opcode byte.
\<close>

definition make_list_count :: "bytecode_h \<Rightarrow> string \<Rightarrow> nat \<Rightarrow> unit emit" where
  "make_list_count B name op =
     thenE (CASE name) (make_list (unsigned_sub op (B ''Blist1'')))"

subsection \<open>Calls\<close>

text \<open>The label \<^verbatim>\<open>docall\<close>; \<open>res\<close> is \<open>None\<close> for \<^verbatim>\<open>NULL\<close>.\<close>

definition docall :: "lisp_h \<Rightarrow> string \<Rightarrow> nat \<Rightarrow> unit emit" where
  "docall h lisp_f_name op =
     (let nargs = op + 1 in
      thenE (pop nargs 0)
     (bindE (getsE stack) (\<lambda>sp.
      bindE (stack_el sp) (\<lambda>el.
      bindE (if const_set el \<and> type el = Lisp_Symbol h
             then (let native_nargs = op;
                       sym_name = SYMBOL_NAME h (el_constant el)
                   in if sym_name = lisp_f_name
                      then bindE (getsE func) (\<lambda>f.
                           bindE (args_from 1 native_nargs) (\<lambda>as.
                           returnE (Some (Call f as))))
                      else if SUBRP h (symbol_function h (el_constant el))
                      then bindE (format_string (''Calling primitive '' @ sym_name)) (\<lambda>c.
                           thenE (emit_comment c)
                          (let subr = symbol_function h (el_constant el)
                           in if subr_max_args h subr = MANY h
                              then returnE None
                              else (let fn_ptr_type =
                                          Function_ptr lisp_obj_type
                                            (replicate native_nargs lisp_obj_type)
                                    in bindE (args_from 1 native_nargs) (\<lambda>as.
                                       returnE (Some (Call_through_ptr
                                         (Rvalue_from_ptr fn_ptr_type (subr_function_a0 h subr))
                                         as))))))
                      else returnE None)
             else returnE None) (\<lambda>res.
      bindE (case res of
               None \<Rightarrow> bindE (getsE stack) (\<lambda>sp'.
                       bindE (stack_el sp') (\<lambda>el'.
                       emit_call_n_ref ''Ffuncall'' nargs (gcc_lval el')))
             | Some r \<Rightarrow> returnE r) (\<lambda>r.
      PUSH_RVAL r))))))"

definition CASE_Bcall6 :: "lisp_h \<Rightarrow> string \<Rightarrow> 8 word list \<Rightarrow> unit emit" where
  "CASE_Bcall6 h lisp_f_name bytestr_data =
     thenE (CASE ''Bcall6'') (bindE (FETCH bytestr_data) (docall h lisp_f_name))"

definition CASE_Bcall7 :: "lisp_h \<Rightarrow> string \<Rightarrow> 8 word list \<Rightarrow> unit emit" where
  "CASE_Bcall7 h lisp_f_name bytestr_data =
     thenE (CASE ''Bcall7'') (bindE (FETCH2 bytestr_data) (docall h lisp_f_name))"

text \<open>\<^verbatim>\<open>Bcall\<close> to \<^verbatim>\<open>Bcall5\<close> go through the label \<^verbatim>\<open>docall_count\<close>.\<close>

definition docall_count :: "lisp_h \<Rightarrow> bytecode_h \<Rightarrow> string \<Rightarrow> string \<Rightarrow> nat \<Rightarrow> unit emit" where
  "docall_count h B lisp_f_name name op =
     thenE (CASE name) (docall h lisp_f_name (unsigned_sub op (B ''Bcall'')))"

subsection \<open>Inline arithmetic: \<^verbatim>\<open>Bsub1\<close>, \<^verbatim>\<open>Badd1\<close>, \<^verbatim>\<open>Bnegate\<close>\<close>

text \<open>\<^verbatim>\<open>bb_map[pc].gcc_bb\<close>\<close>

definition bb_map_gcc_bb :: "nat \<Rightarrow> nat emit" where
  "bb_map_gcc_bb i = bindE (deref_bb (In_bb_map i)) (\<lambda>b. returnE (gcc_bb b))"

definition set_block :: "bb_ptr \<Rightarrow> unit emit" where
  "set_block p = modifyE (\<lambda>st. st\<lparr>block := p\<rparr>)"

text \<open>
  \<^verbatim>\<open>FIXNUMP (TOP) && XFIXNUM (TOP) != MOST_NEGATIVE_FIXNUM
     ? make_fixnum (XFIXNUM (TOP) - 1) : Fsub1 (TOP)\<close>
\<close>

definition CASE_Bsub1 :: "lisp_h \<Rightarrow> unit emit" where
  "CASE_Bsub1 h =
     thenE (CASE ''Bsub1'') (
     bindE (getsE func) (\<lambda>f.
     bindE (SAFE_ALLOCA_BLOCK f ''sub1_inline_block'') (\<lambda>sub1_inline_block.
     bindE (SAFE_ALLOCA_BLOCK f ''sub1_fcall_block'') (\<lambda>sub1_fcall_block.
     bindE (TOS) (\<lambda>tos.
     bindE (emit_XFIXNUM h (Lvalue_as_rvalue (gcc_lval tos))) (\<lambda>tos_as_num.
     bindE (emit_FIXNUMP h (Lvalue_as_rvalue (gcc_lval tos))) (\<lambda>fixnump.
     bindE (emit_cast TYPE_BOOL fixnump) (\<lambda>is_fixnum.
     thenE (emit_cond_jump (Binary_op LOGICAL_AND TYPE_BOOL is_fixnum (Comparison NE tos_as_num (most_negative_fixnum h))) sub1_inline_block sub1_fcall_block) (
     (let sub1_inline_res = Binary_op MINUS emacs_int_type tos_as_num one in
     bindE (getsE block) (\<lambda>bb_orig.
     thenE (set_block sub1_inline_block) (
     bindE (emit_make_fixnum h sub1_inline_res) (\<lambda>packed.
     bindE (getsE stack) (\<lambda>sp.
     thenE (emit_assign_to_stack_slot sub1_inline_block (sp - 1) packed) (
     thenE (set_block sub1_fcall_block) (
     thenE (POP1) (
     bindE (args_from 0 1) (\<lambda>as.
     bindE (emit_call ''Fsub1'' lisp_obj_type 1 as) (\<lambda>res.
     thenE (PUSH_RVAL res) (
     bindE (getsE pc) (\<lambda>p.
     bindE (deref_bb sub1_inline_block) (\<lambda>ib.
     bindE (bb_map_gcc_bb p) (\<lambda>next1.
     thenE (block_end (gcc_bb ib) (End_with_jump next1)) (
     bindE (deref_bb sub1_fcall_block) (\<lambda>fb.
     bindE (bb_map_gcc_bb p) (\<lambda>next2.
     thenE (block_end (gcc_bb fb) (End_with_jump next2)) (
     set_block bb_orig)))))))))))))))))))))))))))"

text \<open>
  \<^verbatim>\<open>FIXNUMP (TOP) && XFIXNUM (TOP) != MOST_POSITIVE_FIXNUM
     ? make_fixnum (XFIXNUM (TOP) + 1) : Fadd (TOP)\<close>
\<close>

definition CASE_Badd1 :: "lisp_h \<Rightarrow> unit emit" where
  "CASE_Badd1 h =
     thenE (CASE ''Badd1'') (
     bindE (getsE func) (\<lambda>f.
     bindE (SAFE_ALLOCA_BLOCK f ''add1_inline_block'') (\<lambda>add1_inline_block.
     bindE (SAFE_ALLOCA_BLOCK f ''add1_fcall_block'') (\<lambda>add1_fcall_block.
     bindE (TOS) (\<lambda>tos.
     bindE (emit_XFIXNUM h (Lvalue_as_rvalue (gcc_lval tos))) (\<lambda>tos_as_num.
     bindE (emit_FIXNUMP h (Lvalue_as_rvalue (gcc_lval tos))) (\<lambda>fixnump.
     bindE (emit_cast TYPE_BOOL fixnump) (\<lambda>is_fixnum.
     thenE (emit_cond_jump (Binary_op LOGICAL_AND TYPE_BOOL is_fixnum (Comparison NE tos_as_num (most_positive_fixnum h))) add1_inline_block add1_fcall_block) (
     (let add1_inline_res = Binary_op PLUS emacs_int_type tos_as_num one in
     bindE (getsE block) (\<lambda>bb_orig.
     thenE (set_block add1_inline_block) (
     bindE (emit_make_fixnum h add1_inline_res) (\<lambda>packed.
     bindE (getsE stack) (\<lambda>sp.
     thenE (emit_assign_to_stack_slot add1_inline_block (sp - 1) packed) (
     thenE (set_block add1_fcall_block) (
     thenE (POP1) (
     bindE (args_from 0 1) (\<lambda>as.
     bindE (emit_call ''Fadd1'' lisp_obj_type 1 as) (\<lambda>res.
     thenE (PUSH_RVAL res) (
     bindE (getsE pc) (\<lambda>p.
     bindE (deref_bb add1_inline_block) (\<lambda>ib.
     bindE (bb_map_gcc_bb p) (\<lambda>next1.
     thenE (block_end (gcc_bb ib) (End_with_jump next1)) (
     bindE (deref_bb add1_fcall_block) (\<lambda>fb.
     bindE (bb_map_gcc_bb p) (\<lambda>next2.
     thenE (block_end (gcc_bb fb) (End_with_jump next2)) (
     set_block bb_orig)))))))))))))))))))))))))))"

text \<open>
  \<^verbatim>\<open>FIXNUMP (TOP) && XFIXNUM (TOP) != MOST_NEGATIVE_FIXNUM
     ? make_fixnum (- XFIXNUM (TOP)) : Fminus (1, &TOP)\<close>
\<close>

definition CASE_Bnegate :: "lisp_h \<Rightarrow> unit emit" where
  "CASE_Bnegate h =
     thenE (CASE ''Bnegate'') (
     bindE (getsE func) (\<lambda>f.
     bindE (SAFE_ALLOCA_BLOCK f ''negate_inline_block'') (\<lambda>negate_inline_block.
     bindE (SAFE_ALLOCA_BLOCK f ''negate_fcall_block'') (\<lambda>negate_fcall_block.
     bindE (TOS) (\<lambda>tos.
     bindE (emit_XFIXNUM h (Lvalue_as_rvalue (gcc_lval tos))) (\<lambda>tos_as_num.
     bindE (emit_FIXNUMP h (Lvalue_as_rvalue (gcc_lval tos))) (\<lambda>fixnump.
     bindE (emit_cast TYPE_BOOL fixnump) (\<lambda>is_fixnum.
     thenE (emit_cond_jump (Binary_op LOGICAL_AND TYPE_BOOL is_fixnum (Comparison NE tos_as_num (most_negative_fixnum h))) negate_inline_block negate_fcall_block) (
     (let negate_inline_res = Unary_op UNARY_MINUS emacs_int_type tos_as_num in
     bindE (getsE block) (\<lambda>bb_orig.
     thenE (set_block negate_inline_block) (
     bindE (emit_make_fixnum h negate_inline_res) (\<lambda>packed.
     bindE (getsE stack) (\<lambda>sp.
     thenE (emit_assign_to_stack_slot negate_inline_block (sp - 1) packed) (
     thenE (set_block negate_fcall_block) (
     thenE (EMIT_CALL_N_REF ''Fminus'' 1) (
     bindE (getsE pc) (\<lambda>p.
     bindE (deref_bb negate_inline_block) (\<lambda>ib.
     bindE (bb_map_gcc_bb p) (\<lambda>next1.
     thenE (block_end (gcc_bb ib) (End_with_jump next1)) (
     bindE (deref_bb negate_fcall_block) (\<lambda>fb.
     bindE (bb_map_gcc_bb p) (\<lambda>next2.
     thenE (block_end (gcc_bb fb) (End_with_jump next2)) (
     set_block bb_orig))))))))))))))))))))))))"

subsection \<open>Handlers: \<^verbatim>\<open>Bpushcatch\<close>, \<^verbatim>\<open>Bpushconditioncase\<close>\<close>

text \<open>
  \<^verbatim>\<open>define_jmp_buf\<close>, \<^verbatim>\<open>define_handler_struct\<close> and \<^verbatim>\<open>define_thread_state_struct\<close>: the
  members sit at the offsets of the host's structures.
\<close>

definition jmp_buf_s :: jtype where "jmp_buf_s = Struct ''comp_jmp_buf''"
definition handler_s :: jtype where "handler_s = Struct ''comp_handler''"
definition handler_ptr_type :: jtype where "handler_ptr_type = Pointer handler_s"
definition handler_jmp_field :: "lisp_h \<Rightarrow> field" where
  "handler_jmp_field h = Field ''jmp'' jmp_buf_s (offsetof_handler_jmp h)"
definition handler_val_field :: "lisp_h \<Rightarrow> field" where
  "handler_val_field h = Field ''val'' lisp_obj_type (offsetof_handler_val h)"
definition handler_next_field :: "lisp_h \<Rightarrow> field" where
  "handler_next_field h = Field ''next'' handler_ptr_type (offsetof_handler_next h)"
definition thread_state_s :: jtype where "thread_state_s = Struct ''comp_thread_state''"
definition thread_state_ptr_type :: jtype where "thread_state_ptr_type = Pointer thread_state_s"
definition m_handlerlist :: "lisp_h \<Rightarrow> field" where
  "m_handlerlist h = Field ''m_handlerlist'' handler_ptr_type (offsetof_m_handlerlist h)"
definition comp_current_thread :: "lisp_h \<Rightarrow> rvalue" where
  "comp_current_thread h = Rvalue_from_ptr thread_state_ptr_type (current_thread h)"

text \<open>
  The label \<^verbatim>\<open>pushhandler\<close>; \<open>handlertype\<close> is \<^verbatim>\<open>CATCHER\<close> or \<^verbatim>\<open>CONDITION_CASE\<close>.
  \<^verbatim>\<open>struct handler *c = push_handler (POP, type);\<close>
\<close>

definition pushhandler :: "lisp_h \<Rightarrow> 8 word list \<Rightarrow> int \<Rightarrow> unit emit" where
  "pushhandler h bytestr_data handlertype =
     bindE (FETCH2 bytestr_data) (\<lambda>handler_pc.
     bindE (getsE pushhandler_n) (\<lambda>n.
     bindE (format_string (''c_'' @ string_of_nat n)) (\<lambda>c_name.
     bindE (getsE func) (\<lambda>f.
     bindE (gcc_jit_function_new_local f handler_ptr_type c_name) (\<lambda>c.
     thenE (POP1) (
     thenE (set_arg 1 (Rvalue_from_int TYPE_INT handlertype)) (
     bindE (cur_gcc_bb) (\<lambda>b.
     bindE (args_from 0 2) (\<lambda>as.
     bindE (emit_call ''push_handler'' handler_ptr_type 2 as) (\<lambda>ph.
     thenE (block_add b (Add_assignment c ph)) (
     thenE (set_arg 0 (Get_address (Dereference_field (Lvalue_as_rvalue c) (handler_jmp_field h)))) (
     bindE (args_from 0 1) (\<lambda>as1.
     bindE (emit_call (if HAVE__SETJMP h then ''_setjmp'' else ''setjmp'') TYPE_INT 1 as1) (\<lambda>res.
     bindE (format_string (''push_h_val_'' @ string_of_nat n)) (\<lambda>b_name.
     bindE (SAFE_ALLOCA_BLOCK f b_name) (\<lambda>push_h_val_block.
     bindE (getsE pc) (\<lambda>p.
     thenE (emit_cond_jump res push_h_val_block (In_bb_map p)) (
     bindE (getsE stack) (\<lambda>stack_to_restore.
     bindE (getsE block) (\<lambda>bb_orig.
     thenE (set_block push_h_val_block) (
     (let handlerlist = Dereference_field (comp_current_thread h) (m_handlerlist h) in
     bindE (cur_gcc_bb) (\<lambda>hb.
     thenE (block_add hb (Add_assignment handlerlist (Lvalue_as_rvalue (Dereference_field (Lvalue_as_rvalue c) (handler_next_field h))))) (
     thenE (PUSH_LVAL (Dereference_field (Lvalue_as_rvalue c) (handler_val_field h))) (
     bindE (getsE stack) (\<lambda>sp.
     thenE (update_bb (In_bb_map handler_pc) (\<lambda>bb. bb\<lparr>top_sp := Some sp\<rparr>)) (
     thenE (set_block bb_orig) (
     bindE (deref_bb push_h_val_block) (\<lambda>pb.
     bindE (bb_map_gcc_bb handler_pc) (\<lambda>target.
     thenE (block_end (gcc_bb pb) (End_with_jump target)) (
     thenE (modifyE (\<lambda>st. st\<lparr>stack := stack_to_restore\<rparr>)) (
     modifyE (\<lambda>st. st\<lparr>pushhandler_n := (n + 1) mod 2 ^ 32\<rparr>)))))))))))))))))))))))))))))))))"

definition CASE_Bpushconditioncase :: "lisp_h \<Rightarrow> 8 word list \<Rightarrow> unit emit" where
  "CASE_Bpushconditioncase h bytestr_data =
     thenE (CASE ''Bpushconditioncase'') (pushhandler h bytestr_data (CONDITION_CASE h))"

definition CASE_Bpushcatch :: "lisp_h \<Rightarrow> 8 word list \<Rightarrow> unit emit" where
  "CASE_Bpushcatch h bytestr_data =
     thenE (CASE ''Bpushcatch'') (pushhandler h bytestr_data (CATCHER h))"

subsection \<open>Constants: the \<^verbatim>\<open>default\<close> case\<close>

text \<open>
  The label \<^verbatim>\<open>do_constant\<close>.  \<open>vectorp\<close> is the memory behind the pointer to the constants,
  by index, and \<open>vector_size\<close> the number of constants that \<^verbatim>\<open>compile_f\<close> receives with it:
  \<^verbatim>\<open>vectorp[op]\<close> with \<open>op\<close> not below \<open>vector_size\<close> is outside the array.
\<close>

definition do_constant :: "lisp_h \<Rightarrow> bytecode_h \<Rightarrow> 8 word list \<Rightarrow> (nat \<Rightarrow> Lisp_Object) \<Rightarrow> nat \<Rightarrow> nat \<Rightarrow> unit emit" where
  "do_constant h B bytestr_data vectorp vector_size op =
     bindE (getsE pc) (\<lambda>p.
     if p \<ge> length bytestr_data \<or> unat (bytestr_data ! p) \<noteq> B ''Bswitch''
     then thenE (if op < vector_size then returnE () else failE Undefined) (
          bindE (emit_lisp_obj_from_ptr h (vectorp op)) (\<lambda>c.
          thenE (PUSH_RVAL c) (
          bindE (getsE stack) (\<lambda>sp.
          thenE (update_stack_el (sp - 1) (\<lambda>e. e\<lparr>type := XTYPE h (vectorp op)\<rparr>)) (
          if XTYPE h (vectorp op) = Lisp_Symbol h
          then update_stack_el (sp - 1) (\<lambda>e. e\<lparr>el_constant := vectorp op, const_set := True\<rparr>)
          else returnE ())))))
     else modifyE (\<lambda>st. st\<lparr>pc := p + 1\<rparr>))"

text \<open>\<^verbatim>\<open>default: CASE (Bconstant)\<close>; the label \<^verbatim>\<open>fail\<close> is \<^verbatim>\<open>error ("Something went wrong")\<close>.\<close>

definition CASE_Bconstant ::
  "lisp_h \<Rightarrow> bytecode_h \<Rightarrow> 8 word list \<Rightarrow> (nat \<Rightarrow> Lisp_Object) \<Rightarrow> nat \<Rightarrow> nat \<Rightarrow> unit emit" where
  "CASE_Bconstant h B bytestr_data vectorp vector_size op =
     thenE (CASE ''Bconstant'')
       (if op < B ''Bconstant'' \<or> op > B ''Bconstant'' + vector_size
        then failE (Signal ''Something went wrong'')
        else do_constant h B bytestr_data vectorp vector_size (op - B ''Bconstant''))"

text \<open>\<^verbatim>\<open>CASE (Bconstant2)\<close> jumps to \<^verbatim>\<open>do_constant\<close> with the opcode itself in \<^verbatim>\<open>op\<close>.\<close>

definition CASE_Bconstant2 ::
  "lisp_h \<Rightarrow> bytecode_h \<Rightarrow> 8 word list \<Rightarrow> (nat \<Rightarrow> Lisp_Object) \<Rightarrow> nat \<Rightarrow> unit emit" where
  "CASE_Bconstant2 h B bytestr_data vectorp vector_size =
     thenE (CASE ''Bconstant2'')
       (do_constant h B bytestr_data vectorp vector_size (B ''Bconstant2''))"

subsection \<open>PC-relative branches\<close>

text \<open>\<^verbatim>\<open>op = FETCH - 128; op += pc;\<close>\<close>

definition BR_target :: "8 word list \<Rightarrow> nat emit" where
  "BR_target bytestr_data =
     bindE (FETCH bytestr_data) (\<lambda>b.
     bindE (getsE pc) (\<lambda>p.
     returnE (unsigned_add (unsigned_sub b 128) p)))"

definition CASE_BRgoto :: "8 word list \<Rightarrow> unit emit" where
  "CASE_BRgoto bytestr_data =
     thenE (CASE ''BRgoto'') (
     bindE (BR_target bytestr_data) (\<lambda>op.
     bindE (cur_gcc_bb) (\<lambda>b.
     bindE (bb_map_gcc_bb op) (\<lambda>target.
     thenE (block_end b (End_with_jump target)) (
     bindE (getsE block) (\<lambda>cur.
     thenE (update_bb cur (\<lambda>bb. bb\<lparr>terminated := True\<rparr>)) (
     bindE (getsE stack) (\<lambda>sp.
     update_bb (In_bb_map op) (\<lambda>bb. bb\<lparr>top_sp := Some sp\<rparr>)))))))))"

definition CASE_BRgotoifnil :: "8 word list \<Rightarrow> unit emit" where
  "CASE_BRgotoifnil bytestr_data =
     thenE (CASE ''BRgotoifnil'') (
     bindE (BR_target bytestr_data) (\<lambda>op.
     thenE (POP1) (
     bindE (args_from 0 1) (\<lambda>as.
     bindE (getsE nil) (\<lambda>n.
     bindE (getsE pc) (\<lambda>p.
     bindE (emit_comparison_jump EQ (hd as) n (In_bb_map op) (In_bb_map p)) (\<lambda>test.
     bindE (getsE stack) (\<lambda>sp.
     update_bb (In_bb_map op) (\<lambda>bb. bb\<lparr>top_sp := Some sp\<rparr>)))))))))"

definition CASE_BRgotoifnonnil :: "8 word list \<Rightarrow> unit emit" where
  "CASE_BRgotoifnonnil bytestr_data =
     thenE (CASE ''BRgotoifnonnil'') (
     bindE (BR_target bytestr_data) (\<lambda>op.
     thenE (POP1) (
     bindE (args_from 0 1) (\<lambda>as.
     bindE (getsE nil) (\<lambda>n.
     bindE (getsE pc) (\<lambda>p.
     bindE (emit_comparison_jump NE (hd as) n (In_bb_map op) (In_bb_map p)) (\<lambda>test.
     bindE (getsE stack) (\<lambda>sp.
     update_bb (In_bb_map op) (\<lambda>bb. bb\<lparr>top_sp := Some sp\<rparr>)))))))))"

definition CASE_BRgotoifnilelsepop :: "8 word list \<Rightarrow> unit emit" where
  "CASE_BRgotoifnilelsepop bytestr_data =
     thenE (CASE ''BRgotoifnilelsepop'') (
     bindE (BR_target bytestr_data) (\<lambda>op.
     bindE (TOS) (\<lambda>tos.
     bindE (getsE nil) (\<lambda>n.
     bindE (getsE pc) (\<lambda>p.
     bindE (emit_comparison_jump EQ (Lvalue_as_rvalue (gcc_lval tos)) n (In_bb_map op) (In_bb_map p)) (\<lambda>test.
     bindE (getsE stack) (\<lambda>sp.
     thenE (update_bb (In_bb_map op) (\<lambda>bb. bb\<lparr>top_sp := Some sp\<rparr>)) (
     DISCARD 1))))))))"

definition CASE_BRgotoifnonnilelsepop :: "8 word list \<Rightarrow> unit emit" where
  "CASE_BRgotoifnonnilelsepop bytestr_data =
     thenE (CASE ''BRgotoifnonnilelsepop'') (
     bindE (BR_target bytestr_data) (\<lambda>op.
     bindE (TOS) (\<lambda>tos.
     bindE (getsE nil) (\<lambda>n.
     bindE (getsE pc) (\<lambda>p.
     bindE (emit_comparison_jump NE (Lvalue_as_rvalue (gcc_lval tos)) n (In_bb_map op) (In_bb_map p)) (\<lambda>test.
     bindE (getsE stack) (\<lambda>sp.
     thenE (update_bb (In_bb_map op) (\<lambda>bb. bb\<lparr>top_sp := Some sp\<rparr>)) (
     DISCARD 1))))))))"

section \<open>The inline helpers \<^verbatim>\<open>CAR\<close> and \<^verbatim>\<open>CDR\<close>\<close>

text \<open>
  One round of the loop of \<^verbatim>\<open>define_CAR_CDR\<close>, for the function \<open>f\<close> (\<^verbatim>\<open>comp.car\<close>, then
  \<^verbatim>\<open>comp.cdr\<close>); the parameter of both is called \<^verbatim>\<open>c\<close>.
\<close>

definition define_CAR_CDR_round :: "lisp_h \<Rightarrow> gfunc \<Rightarrow> unit emit" where
  "define_CAR_CDR_round h f =
     (let c = Param_as_rvalue lisp_obj_type ''c'' in
     bindE (SAFE_ALLOCA_BLOCK f ''init_block'') (\<lambda>init_block.
     bindE (SAFE_ALLOCA_BLOCK f ''is_cons_b'') (\<lambda>is_cons_b.
     bindE (SAFE_ALLOCA_BLOCK f ''not_a_cons_b'') (\<lambda>not_a_cons_b.
     thenE (set_block init_block) (
     thenE (modifyE (\<lambda>st. st\<lparr>func := f\<rparr>)) (
     bindE (emit_CONSP h c) (\<lambda>consp.
     thenE (emit_cond_jump consp is_cons_b not_a_cons_b) (
     thenE (set_block is_cons_b) (
     bindE (cur_gcc_bb) (\<lambda>b1.
     bindE (if f = car then emit_XCAR h c else emit_XCDR h c) (\<lambda>field.
     thenE (block_end b1 (End_with_return field)) (
     thenE (set_block not_a_cons_b) (
     bindE (SAFE_ALLOCA_BLOCK f ''is_nil_b'') (\<lambda>is_nil_b.
     bindE (SAFE_ALLOCA_BLOCK f ''not_nil_b'') (\<lambda>not_nil_b.
     bindE (emit_NILP h c) (\<lambda>nilp.
     thenE (emit_cond_jump nilp is_nil_b not_nil_b) (
     thenE (set_block is_nil_b) (
     bindE (cur_gcc_bb) (\<lambda>b2.
     bindE (emit_lisp_obj_from_ptr h (Qnil h)) (\<lambda>nil1.
     thenE (block_end b2 (End_with_return nil1)) (
     thenE (set_block not_nil_b) (
     bindE (emit_lisp_obj_from_ptr h (Qlistp h)) (\<lambda>listp.
     bindE (cur_gcc_bb) (\<lambda>b3.
     bindE (emit_call ''wrong_type_argument'' lisp_obj_type 2 [listp, c]) (\<lambda>wta.
     thenE (block_add b3 (Add_eval wta)) (
     bindE (cur_gcc_bb) (\<lambda>b4.
     bindE (emit_lisp_obj_from_ptr h (Qnil h)) (\<lambda>nil2.
     block_end b4 (End_with_return nil2)))))))))))))))))))))))))))))"

text \<open>Declare a substitute for CAR as always inlined function.\<close>

definition define_CAR_CDR :: "lisp_h \<Rightarrow> unit emit" where
  "define_CAR_CDR h = thenE (define_CAR_CDR_round h car) (define_CAR_CDR_round h cdr)"

section \<open>Basic-block discovery\<close>

text \<open>
  \<^verbatim>\<open>bb_start_pc\<close> is an array of \<^verbatim>\<open>unsigned\<close> with as many elements as the bytecode has
  bytes; \<open>record_start\<close> is \<^verbatim>\<open>bb_start_pc[bb_n++] = x\<close>.
\<close>

definition record_start :: "8 word list \<Rightarrow> 32 word list \<Rightarrow> 32 word \<Rightarrow> error + 32 word list" where
  "record_start bytestr_data starts x =
     (if length starts < length bytestr_data then Inr (starts @ [x]) else Inl Undefined)"

definition three_byte_ops :: "string list" where
  "three_byte_ops = [''Bvarref7'', ''Bvarset7'', ''Bvarbind7'', ''Bcall7'', ''Bunbind7'',
     ''Bstack_ref7'', ''Bstack_set2'']"

definition two_byte_ops :: "string list" where
  "two_byte_ops = [''Bvarref6'', ''Bvarset6'', ''Bvarbind6'', ''Bcall6'', ''Bunbind6'',
     ''Bconstant2'', ''BlistN'', ''BconcatN'', ''BinsertN'', ''Bstack_ref6'', ''Bstack_set'',
     ''BdiscardN'']"

definition absolute_branches :: "string list" where
  "absolute_branches = [''Bgoto'', ''Bgotoifnil'', ''Bgotoifnonnil'', ''Bgotoifnilelsepop'',
     ''Bgotoifnonnilelsepop'', ''Bpushcatch'', ''Bpushconditioncase'']"

definition pc_relative_branches :: "string list" where
  "pc_relative_branches = [''BRgoto'', ''BRgotoifnil'', ''BRgotoifnonnil'',
     ''BRgotoifnilelsepop'', ''BRgotoifnonnilelsepop'']"

definition other_ops_changing_bb :: "string list" where
  "other_ops_changing_bb = [''Bsub1'', ''Badd1'', ''Bnegate'', ''Breturn'']"

text \<open>The first loop of \<^verbatim>\<open>compute_blocks\<close>: the \<^verbatim>\<open>switch\<close> compares \<open>op\<close> with the enumerators.\<close>

function compute_blocks_scan ::
  "bytecode_h \<Rightarrow> 8 word list \<Rightarrow> nat \<Rightarrow> bool \<Rightarrow> 32 word list \<Rightarrow> error + 32 word list" where
  "compute_blocks_scan B bytestr_data p new_bb starts =
     (if p < length bytestr_data
      then (case (if new_bb then record_start bytestr_data starts (word_of_nat p)
                  else Inr starts) of
              Inl e \<Rightarrow> Inl e
            | Inr starts1 \<Rightarrow>
               (let op = unat (bytestr_data ! p) in
                if op \<in> set (map B three_byte_ops)
                then compute_blocks_scan B bytestr_data (p + 3) False starts1
                else if op \<in> set (map B two_byte_ops)
                then compute_blocks_scan B bytestr_data (p + 2) False starts1
                else if op \<in> set (map B absolute_branches)
                then (if p + 2 < length bytestr_data
                      then (case record_start bytestr_data starts1
                                   (word_of_nat (unat (bytestr_data ! (p + 1))
                                                 + unat (bytestr_data ! (p + 2)) * 2 ^ 8)) of
                              Inl e \<Rightarrow> Inl e
                            | Inr starts2 \<Rightarrow>
                                compute_blocks_scan B bytestr_data (p + 3) True starts2)
                      else Inl Undefined)
                else if op \<in> set (map B pc_relative_branches)
                then (if p + 1 < length bytestr_data
                      then (case record_start bytestr_data starts1
                                   (word_of_nat (unat (bytestr_data ! (p + 1))) - 128) of
                              Inl e \<Rightarrow> Inl e
                            | Inr starts2 \<Rightarrow>
                                compute_blocks_scan B bytestr_data (p + 2) True starts2)
                      else Inl Undefined)
                else if op \<in> set (map B other_ops_changing_bb)
                then compute_blocks_scan B bytestr_data (p + 1) True starts1
                else compute_blocks_scan B bytestr_data (p + 1) False starts1))
      else Inr starts)"
  by pat_completeness auto
termination
  by (relation "measure (\<lambda>(B, bytestr_data, p, new_bb, starts). length bytestr_data - p)") auto

declare compute_blocks_scan.simps [simp del]

text \<open>
  Sort and remove possible duplicates.  \<^verbatim>\<open>ucmp\<close> compares the elements as \<^verbatim>\<open>int\<close>;
  \<open>dedup\<close> is the loop \<^verbatim>\<open>if (bb_start_pc[i] != bb_start_pc[j]) bb_start_pc[++j] = bb_start_pc[i]\<close>
  with \<open>kept\<close> for \<^verbatim>\<open>bb_start_pc[j]\<close>.
\<close>

fun dedup :: "32 word \<Rightarrow> 32 word list \<Rightarrow> 32 word list" where
  "dedup kept [] = []"
| "dedup kept (x # xs) = (if x \<noteq> kept then x # dedup x xs else dedup kept xs)"

definition sort_and_dedup :: "32 word list \<Rightarrow> 32 word list" where
  "sort_and_dedup starts =
     (case sort_key sint starts of [] \<Rightarrow> [] | x # xs \<Rightarrow> x # dedup x (x # xs))"

text \<open>The block leaders that the discovery records: \<^verbatim>\<open>bb_start_pc\<close> after the sort.\<close>

definition block_leaders :: "bytecode_h \<Rightarrow> 8 word list \<Rightarrow> error + 32 word list" where
  "block_leaders B bytestr_data =
     (case compute_blocks_scan B bytestr_data 0 True [] of
        Inl e \<Rightarrow> Inl e
      | Inr starts \<Rightarrow> Inr (sort_and_dedup starts))"

text \<open>
  The last loop of \<^verbatim>\<open>compute_blocks\<close>, over the PCs \<open>pcs\<close>: \<open>curr_bb\<close> is \<open>None\<close> as long as
  the variable is uninitialised, and copying it then is undefined.
\<close>

fun compute_blocks_sweep ::
  "gfunc \<Rightarrow> 32 word list \<Rightarrow> nat list \<Rightarrow> nat \<Rightarrow> basic_block_t option \<Rightarrow> basic_block_t list \<Rightarrow>
   basic_block_t list emit" where
  "compute_blocks_sweep f starts [] i curr_bb acc = returnE acc"
| "compute_blocks_sweep f starts (p # pcs) i curr_bb acc =
     bindE (if i < length starts \<and> word_of_nat p = starts ! i
            then bindE (format_string (''bb_'' @ string_of_nat (i + 1))) (\<lambda>name.
                 bindE (gcc_jit_function_new_block f name) (\<lambda>b.
                 returnE (i + 1, Some \<lparr>gcc_bb = b, top_sp = None, terminated = False\<rparr>)))
            else returnE (i, curr_bb)) (\<lambda>(i', curr_bb').
     case curr_bb' of
       None \<Rightarrow> failE Undefined
     | Some bb \<Rightarrow> compute_blocks_sweep f starts pcs i' curr_bb' (acc @ [bb]))"

text \<open>Compute and initialize all basic blocks.\<close>

definition compute_blocks :: "bytecode_h \<Rightarrow> 8 word list \<Rightarrow> basic_block_t list emit" where
  "compute_blocks B bytestr_data =
     (case block_leaders B bytestr_data of
        Inl e \<Rightarrow> failE e
      | Inr starts \<Rightarrow>
          bindE (getsE func) (\<lambda>f.
          compute_blocks_sweep f starts [0 ..< length bytestr_data] 0 None []))"

section \<open>The compilation driver\<close>

text \<open>The result of one function compilation, without the handle of the library's result.\<close>

record comp_f_res_t =
  min_args :: int
  max_args :: int

text \<open>Conversion to \<^verbatim>\<open>short\<close>.\<close>

definition c_short :: "int \<Rightarrow> int" where
  "c_short x = sint (word_of_int x :: 16 word)"

text \<open>The first statements of \<^verbatim>\<open>compile_f\<close>: \<^verbatim>\<open>comp_res\<close> starts as \<^verbatim>\<open>{ NULL, 0, 0 }\<close>.\<close>

definition decode_args_template :: "lisp_h \<Rightarrow> Lisp_Object \<Rightarrow> comp_f_res_t emit" where
  "decode_args_template h args_template =
     (if FIXNUMP h args_template
      then (let at = XFIXNUM h args_template;
                rest = (at AND 128 \<noteq> 0);
                mandatory = at AND 127;
                nonrest = drop_bit 8 at
            in thenE (eassert (\<not> rest))
                 (returnE \<lparr>min_args = c_short mandatory,
                           max_args = (if \<not> rest \<and> nonrest < SUBR_MAX_ARGS h
                                       then c_short nonrest else 0)\<rparr>))
      else if CONSP h args_template
      then returnE \<lparr>min_args = c_short (XFIXNUM h (Flength h args_template)),
                    max_args = c_short (XFIXNUM h (Flength h args_template))\<rparr>
      else thenE (eassert (SYMBOLP h args_template \<and> args_template = Qnil h))
                 (returnE \<lparr>min_args = 0, max_args = 0\<rparr>))"

text \<open>
  \<^verbatim>\<open>gcc_jit_function_get_param\<close>: \<^verbatim>\<open>emit_func_declare\<close> names the parameters
  \<^verbatim>\<open>a\<close>, \<^verbatim>\<open>b\<close>, \<^verbatim>\<open>c\<close> and again \<^verbatim>\<open>c\<close>.
\<close>

fun function_get_param :: "gfunc \<Rightarrow> nat \<Rightarrow> rvalue emit" where
  "function_get_param (Function k r n ps) i =
     (if i < length ps \<and> i < 4
      then returnE (Param_as_rvalue (ps ! i) ([''a'', ''b'', ''c'', ''c''] ! i))
      else failE Undefined)"

fun push_params :: "bb_ptr \<Rightarrow> gfunc \<Rightarrow> nat list \<Rightarrow> unit emit" where
  "push_params prologue f [] = returnE ()"
| "push_params prologue f (i # is) =
     bindE (function_get_param f i) (\<lambda>p.
     thenE (PUSH_PARAM prologue p) (push_params prologue f is))"

text \<open>
  \<^verbatim>\<open>compile_f\<close> up to the loop over the bytecode.  \<open>junk\<close> is what \<^verbatim>\<open>SAFE_NALLOCA\<close> finds in
  the memory of the meta stack.  The array is created with an \<^verbatim>\<open>int\<close> number of elements and the
  loop over it counts in \<^verbatim>\<open>int\<close>.
\<close>

definition compile_f_prologue :: "lisp_h \<Rightarrow> bytecode_h \<Rightarrow> string \<Rightarrow> 8 word list \<Rightarrow> nat \<Rightarrow> Lisp_Object \<Rightarrow> (nat \<Rightarrow> stack_el_t) \<Rightarrow> comp_f_res_t emit" where
  "compile_f_prologue h B c_f_name bytestr_data stack_depth args_template junk =
     thenE (modifyE (\<lambda>st. st\<lparr>pc := 0, pushhandler_n := 0, stack_base := map junk [0 ..< stack_depth], stack := 0\<rparr>)) (
     bindE (decode_args_template h args_template) (\<lambda>comp_res.
     bindE (emit_func_declare c_f_name lisp_obj_type (nat (max_args comp_res mod 2 ^ 32)) None EXPORTED False) (\<lambda>f.
     thenE (modifyE (\<lambda>st. st\<lparr>func := f\<rparr>)) (
     thenE (if stack_depth < 2 ^ 31 then returnE () else failE Undefined) (
     bindE (gcc_jit_function_new_local f (Array lisp_obj_type stack_depth) ''local'') (\<lambda>meta_stack_array.
     thenE (modifyE (\<lambda>st. st\<lparr>stack_base := map (\<lambda>i. (stack_base st ! i)\<lparr>gcc_lval := Array_access (Lvalue_as_rvalue meta_stack_array) (Rvalue_from_int TYPE_INT (int i))\<rparr>) [0 ..< stack_depth]\<rparr>)) (
     bindE (SAFE_ALLOCA_BLOCK f ''prologue'') (\<lambda>prologue.
     bindE (compute_blocks B bytestr_data) (\<lambda>bbs.
     thenE (modifyE (\<lambda>st. st\<lparr>bb_map := bbs\<rparr>)) (
     thenE (push_params prologue f [0 ..< nat (max_args comp_res)]) (
     bindE (deref_bb prologue) (\<lambda>pb.
     bindE (bb_map_gcc_bb 0) (\<lambda>first.
     thenE (block_end (gcc_bb pb) (End_with_jump first)) (
     thenE (set_block (In_bb_map 0)) (
     bindE (emit_lisp_obj_from_ptr h (Qnil h)) (\<lambda>n.
     thenE (modifyE (\<lambda>st. st\<lparr>nil := n\<rparr>)) (
     thenE (set_block Null) (
     returnE comp_res))))))))))))))))))"

text \<open>
  The head of the loop of \<^verbatim>\<open>compile_f\<close>, down to \<^verbatim>\<open>op = FETCH\<close>: if we are changing BB and the
  last was one wasn't terminated terminate it with a fall through.
\<close>

definition loop_head :: "8 word list \<Rightarrow> nat emit" where
  "loop_head bytestr_data =
     bindE (getsE pc) (\<lambda>p.
     bindE (getsE block) (\<lambda>cur.
     bindE (deref_bb (In_bb_map p)) (\<lambda>nb.
     thenE (if cur = Null then returnE ()
            else bindE (deref_bb cur) (\<lambda>cb.
                 if gcc_bb cb \<noteq> gcc_bb nb \<and> \<not> terminated cb
                 then thenE (block_end (gcc_bb cb) (End_with_jump (gcc_bb nb)))
                            (update_bb cur (\<lambda>bb. bb\<lparr>terminated := True\<rparr>))
                 else returnE ())) (
     thenE (set_block (In_bb_map p)) (
     bindE (deref_bb (In_bb_map p)) (\<lambda>nb1.
     thenE (case top_sp nb1 of None \<Rightarrow> returnE () | Some t \<Rightarrow> modifyE (\<lambda>st. st\<lparr>stack := t\<rparr>)) (
     FETCH bytestr_data)))))))"

text \<open>
  \<^verbatim>\<open>emacs_native_compile\<close>: the slots of the compiled-function object that \<^verbatim>\<open>AREF\<close> reads, the
  checks, and the arguments that \<^verbatim>\<open>compile_f\<close> is called with.
\<close>

record compiled_function =
  COMPILED_ARGLIST :: Lisp_Object
  COMPILED_BYTECODE :: Lisp_Object
  COMPILED_CONSTANTS :: Lisp_Object
  COMPILED_STACK_DEPTH :: Lisp_Object

record compile_f_args =
  arg_bytestr_data :: "8 word list"
  arg_stack_depth :: nat
  arg_vectorp :: "nat \<Rightarrow> Lisp_Object"
  arg_vector_size :: nat
  arg_args_template :: Lisp_Object

definition emacs_native_compile_args :: "lisp_h \<Rightarrow> compiled_function \<Rightarrow> error + compile_f_args" where
  "emacs_native_compile_args h fn =
     (let bytestr = COMPILED_BYTECODE fn in
      if \<not> STRINGP h bytestr then Inl (Signal ''wrong-type-argument stringp'')
      else
        let bytestr = (if STRING_MULTIBYTE h bytestr then Fstring_as_unibyte h bytestr
                       else bytestr);
            vector = COMPILED_CONSTANTS fn
        in if \<not> VECTORP h vector then Inl (Signal ''wrong-type-argument vectorp'')
           else
             let maxdepth = COMPILED_STACK_DEPTH fn
             in if \<not> FIXNATP h maxdepth then Inl (Signal ''wrong-type-argument fixnatp'')
                else Inr \<lparr>arg_bytestr_data = SDATA h bytestr,
                          arg_stack_depth = XFIXNAT h maxdepth + 1,
                          arg_vectorp = XVECTOR_contents h vector,
                          arg_vector_size = ASIZE h vector,
                          arg_args_template = COMPILED_ARGLIST fn\<rparr>)"

text \<open>\<^verbatim>\<open>emacs_native_compile\<close> after \<^verbatim>\<open>init_comp\<close>, into \<^verbatim>\<open>compile_f\<close> and up to its loop.\<close>

definition emacs_native_compile_prologue ::
  "lisp_h \<Rightarrow> bytecode_h \<Rightarrow> string \<Rightarrow> compiled_function \<Rightarrow> (nat \<Rightarrow> stack_el_t) \<Rightarrow> comp_f_res_t emit" where
  "emacs_native_compile_prologue h B c_f_name fn junk =
     (case emacs_native_compile_args h fn of
        Inl e \<Rightarrow> failE e
      | Inr a \<Rightarrow> compile_f_prologue h B c_f_name (arg_bytestr_data a) (arg_stack_depth a)
                   (arg_args_template a) junk)"

section \<open>Notions for the statements\<close>

text \<open>The basic block that \<^verbatim>\<open>comp.block\<close> points to, when it points to one.\<close>

definition cur_bb :: "cstate \<Rightarrow> basic_block_t option" where
  "cur_bb st = (case block st of
       Null \<Rightarrow> None
     | In_bb_map i \<Rightarrow> if i < length (bb_map st) then Some (bb_map st ! i) else None
     | Alloca i \<Rightarrow> if i < length (allocas st) then Some (allocas st ! i) else None)"

text \<open>The statements that a piece of the emitter has added to block \<open>b\<close>.\<close>

definition added :: "cstate \<Rightarrow> cstate \<Rightarrow> nat \<Rightarrow> stmt list" where
  "added st st' b = drop (length (stmts st b)) (stmts st' b)"

text \<open>
  What a case of the emitter does when it ``pops \<open>n\<close> values, calls the host function
  \<open>fname\<close> and pushes the result'': it succeeds, it adds to the current block its comment and
  one assignment, of a call of a function of that name on exactly the \<open>n\<close> topmost slots in
  stack order, to the lowest of them (or to the next free slot when \<open>n = 0\<close>), and it leaves
  the stack pointer just above that slot.
\<close>

definition emits_call_n :: "unit emit \<Rightarrow> string \<Rightarrow> nat \<Rightarrow> cstate \<Rightarrow> bool" where
  "emits_call_n m fname n st \<longleftrightarrow>
     (\<exists>st' f bb c.
        m st = Inr ((), st') \<and> cur_bb st = Some bb \<and>
        stack st' = stack st - int n + 1 \<and>
        function_name f = fname \<and>
        added st st' (gcc_bb bb) =
          [Add_comment c,
           Add_assignment (gcc_lval (stack_base st ! nat (stack st - int n)))
             (Call f (map (\<lambda>i. Lvalue_as_rvalue
                                   (gcc_lval (stack_base st ! nat (stack st - int n + int i))))
                          [0 ..< n]))])"

text \<open>
  What a case does when it pops one value and pushes the truth value of an inline test: after
  the comment and \<^verbatim>\<open>POP1\<close> the expression \<open>r\<close> of the test is built on the popped slot, and
  the last statement added is the assignment of \<^verbatim>\<open>bool_to_lisp_obj (r)\<close> to that slot.
\<close>

definition emits_inline_test ::
  "unit emit \<Rightarrow> (rvalue \<Rightarrow> rvalue emit) \<Rightarrow> cstate \<Rightarrow> bool" where
  "emits_inline_test m test st \<longleftrightarrow>
     (\<exists>st' bb c sa r sb.
        m st = Inr ((), st') \<and> cur_bb st = Some bb \<and>
        thenE (CASE c) POP1 st = Inr ((), sa) \<and>
        test (Lvalue_as_rvalue (gcc_lval (stack_base st ! nat (stack st - 1)))) sa = Inr (r, sb) \<and>
        stack st' = stack st \<and>
        last (stmts st' (gcc_bb bb)) =
          Add_assignment (gcc_lval (stack_base st ! nat (stack st - 1)))
            (Call bool_to_lisp_obj [r]))"

text \<open>The table of declared functions maps a name to a function of that name.\<close>

definition func_hash_ok :: "cstate \<Rightarrow> bool" where
  "func_hash_ok st \<longleftrightarrow> (\<forall>name f. func_hash st name = Some f \<longrightarrow> function_name f = name)"



text \<open>A piece of the emitter that leaves the lvalues of the meta-stack slots as they are.\<close>

definition keeps_slots :: "'a emit \<Rightarrow> bool" where
  "keeps_slots m \<longleftrightarrow>
     (\<forall>st x st'. m st = Inr (x, st') \<longrightarrow>
        map gcc_lval (stack_base st') = map gcc_lval (stack_base st))"

text \<open>The lvalues of the meta-stack slots after a run, when it succeeds.\<close>

definition slots_after :: "error + ('a \<times> cstate) \<Rightarrow> lvalue list" where
  "slots_after r = (case r of Inl e \<Rightarrow> [] | Inr (x, st') \<Rightarrow> map gcc_lval (stack_base st'))"

text \<open>A PC that the discovery of the basic blocks records as the start of a block.\<close>

definition is_leader :: "bytecode_h \<Rightarrow> 8 word list \<Rightarrow> nat \<Rightarrow> bool" where
  "is_leader B bytestr_data t =
     (case block_leaders B bytestr_data of
        Inl e \<Rightarrow> False
      | Inr starts \<Rightarrow> word_of_nat t \<in> set starts)"

text \<open>The target that the emission pass computes for the relative branch whose displacement
  byte is at \<open>p\<close>, when it gets there.\<close>

definition emitted_target :: "8 word list \<Rightarrow> nat \<Rightarrow> cstate \<Rightarrow> nat option" where
  "emitted_target bytestr_data p st =
     (case BR_target bytestr_data (st\<lparr>pc := p\<rparr>) of
        Inl e \<Rightarrow> None
      | Inr (t, st') \<Rightarrow> Some t)"

text \<open>The block that a terminator passes control to, as \<open>exec_blocks\<close> follows it.\<close>

definition next_block ::
  "host_sem \<Rightarrow> (string \<Rightarrow> val option) \<Rightarrow> terminator \<Rightarrow> rt_state \<Rightarrow> nat option" where
  "next_block host ps t rt = (case t of
       End_with_jump b \<Rightarrow> Some b
     | End_with_conditional c b1 b2 \<Rightarrow>
         (case eval_rvalue host ps c rt of
            Returns (Word w) rt' \<Rightarrow> Some (if w \<noteq> 0 then b1 else b2)
          | _ \<Rightarrow> None)
     | _ \<Rightarrow> None)"

text \<open>The function that \<^verbatim>\<open>emit_call\<close> calls under a name: the one of the table of declared
  functions, or else the one that it declares, imported, with the types of the arguments.\<close>

definition declared_function :: "cstate \<Rightarrow> string \<Rightarrow> jtype \<Rightarrow> rvalue list \<Rightarrow> gfunc" where
  "declared_function st name ret as =
     (case func_hash st name of
        Some f \<Rightarrow> f
      | None \<Rightarrow> Function IMPORTED ret name (map rvalue_get_type as))"

section \<open>A concrete configuration\<close>

text \<open>
  For the instances at concrete inputs: the constants as a 64-bit GNU/Linux build of the host
  has them (tags in the low three bits, fixnums tagged \<open>2\<close> in the low two), and the
  opcode numbers of the host's byte-code format for the enumerators that the model mentions.
\<close>

definition example_lisp_h :: lisp_h where
  "example_lisp_h = \<lparr>
     USE_LSB_TAG = True, VALBITS = 61, GCTYPEBITS = 3, INTTYPEBITS = 2, FIXNUM_BITS = 62,
     Lisp_Symbol = 0, Lisp_Int0 = 2, Lisp_Cons = 3, Lisp_Float = 7, Lisp_Vectorlike = 5,
     PVEC_BIGNUM = 2,
     MOST_POSITIVE_FIXNUM = 2 ^ 61 - 1, MOST_NEGATIVE_FIXNUM = - (2 ^ 61),
     MANY = - 2, SUBR_MAX_ARGS = 9, CATCHER = 0, CONDITION_CASE = 1, HAVE__SETJMP = True,
     Qnil = 0, Qlistp = 2400,
     LISP_WORD_TAG = (\<lambda>tag. tag),
     XTYPE = (\<lambda>w. uint (take_bit 3 w)),
     SYMBOLP = (\<lambda>w. take_bit 3 w = 0),
     SYMBOL_NAME = (\<lambda>w. if w = 0 then ''nil'' else if w = 2400 then ''listp''
                        else if w = 4800 then ''foo'' else ''car''),
     symbol_function = (\<lambda>w. if w = 7200 then 805 else 0),
     SUBRP = (\<lambda>w. w = 805),
     subr_max_args = (\<lambda>w. 2),
     subr_function_a0 = (\<lambda>w. 4198400),
     FIXNUMP = (\<lambda>w. take_bit 2 w = 2),
     XFIXNUM = (\<lambda>w. sint (signed_drop_bit 2 w)),
     FIXNATP = (\<lambda>w. take_bit 2 w = 2 \<and> 0 \<le> sint w),
     XFIXNAT = (\<lambda>w. unat (drop_bit 2 w)),
     CONSP = (\<lambda>w. take_bit 3 w = 3),
     Flength = (\<lambda>w. 2),
     STRINGP = (\<lambda>w. take_bit 3 w = 4),
     STRING_MULTIBYTE = (\<lambda>w. False),
     Fstring_as_unibyte = (\<lambda>w. w),
     SDATA = (\<lambda>w. [192, 135]),
     VECTORP = (\<lambda>w. take_bit 3 w = 5),
     XVECTOR_contents = (\<lambda>w i. if i = 0 then 7200 else 170),
     ASIZE = (\<lambda>w. 1),
     offsetof_handler_val = 16, offsetof_handler_next = 24, offsetof_handler_jmp = 56,
     offsetof_m_handlerlist = 96, current_thread = 8192\<rparr>"

definition example_bytecode_h :: bytecode_h where
  "example_bytecode_h name =
     (case map_of
        [(''Bstack_ref'', 0), (''Bstack_ref6'', 6), (''Bstack_ref7'', 7),
         (''Bvarref'', 8), (''Bvarref6'', 14), (''Bvarref7'', 15),
         (''Bvarset'', 16), (''Bvarset6'', 22), (''Bvarset7'', 23),
         (''Bvarbind'', 24), (''Bvarbind6'', 30), (''Bvarbind7'', 31),
         (''Bcall'', 32), (''Bcall1'', 33), (''Bcall2'', 34), (''Bcall3'', 35),
         (''Bcall4'', 36), (''Bcall5'', 37), (''Bcall6'', 38), (''Bcall7'', 39),
         (''Bunbind'', 40), (''Bunbind6'', 46), (''Bunbind7'', 47),
         (''Bpushconditioncase'', 49), (''Bpushcatch'', 50),
         (''Blist1'', 67), (''Blist2'', 68), (''Blist3'', 69), (''Blist4'', 70),
         (''Bsub1'', 83), (''Badd1'', 84), (''Bnegate'', 91),
         (''Bconstant2'', 129), (''Bgoto'', 130), (''Bgotoifnil'', 131),
         (''Bgotoifnonnil'', 132), (''Bgotoifnilelsepop'', 133),
         (''Bgotoifnonnilelsepop'', 134), (''Breturn'', 135),
         (''BRgoto'', 170), (''BRgotoifnil'', 171), (''BRgotoifnonnil'', 172),
         (''BRgotoifnilelsepop'', 173), (''BRgotoifnonnilelsepop'', 174),
         (''BlistN'', 175), (''BconcatN'', 176), (''BinsertN'', 177),
         (''Bstack_set'', 178), (''Bstack_set2'', 179), (''BdiscardN'', 182),
         (''Bswitch'', 183), (''Bconstant'', 192)] name of
        Some n \<Rightarrow> n
      | None \<Rightarrow> 256)"

text \<open>
  A state in the middle of a compilation: a function of no arguments with a meta stack of four
  slots, two of them in use, two blocks for six bytes of bytecode, and \<^verbatim>\<open>nil\<close> in a local.
\<close>

definition example_func :: gfunc where
  "example_func = Function EXPORTED lisp_obj_type ''Fnative_comp_foo'' []"

definition example_slot :: "nat \<Rightarrow> lvalue" where
  "example_slot i =
     Array_access (Lvalue_as_rvalue (Local 0 (Array lisp_obj_type 4) ''local''))
                  (Rvalue_from_int TYPE_INT (int i))"

definition example_bb :: "nat \<Rightarrow> basic_block_t" where
  "example_bb b = \<lparr>gcc_bb = b, top_sp = None, terminated = False\<rparr>"

definition example_state :: cstate where
  "example_state = \<lparr>
     stmts = (\<lambda>b. []), ends = (\<lambda>b. None),
     blocks = [(example_func, ''bb_1''), (example_func, ''bb_2'')],
     nlocals = 2, ctxt_error = False,
     func = example_func, block = In_bb_map 0, func_hash = (\<lambda>name. None),
     cast_i = 0, obj_i = 1, allocas = [],
     bb_map = [example_bb 0, example_bb 0, example_bb 0, example_bb 1, example_bb 1, example_bb 1],
     stack_base = map (\<lambda>i. \<lparr>gcc_lval = example_slot i, type = - 1, el_constant = 0,
                              const_set = False\<rparr>) [0, 1, 2, 3],
     stack = 2, args = (\<lambda>i. Rvalue_from_int TYPE_INT 0), pc = 1, pushhandler_n = 0,
     nil = Lvalue_as_rvalue (Local 1 lisp_obj_type ''lisp_obj_from_ptr_0'')\<rparr>"

text \<open>A run-time state, a host whose functions all return \<open>0\<close>, and no parameters.\<close>

definition example_rt :: rt_state where
  "example_rt = \<lparr>locals = (\<lambda>i k. 0), heap = (\<lambda>a. 0), calls = []\<rparr>"

definition example_host :: host_sem where
  "example_host f vs rt = Returns (Word 0) rt"

definition no_params :: "string \<Rightarrow> val option" where
  "no_params name = None"

text \<open>The memory of a constants vector of two elements, and the word after its end.\<close>

definition example_vectorp :: "nat \<Rightarrow> Lisp_Object" where
  "example_vectorp i = (if i = 0 then 4800 else if i = 1 then 2400 else 7200)"

text \<open>The host of the example with symbols whose names have 600 characters.\<close>

definition example_long_names :: lisp_h where
  "example_long_names = example_lisp_h\<lparr>SYMBOL_NAME := (\<lambda>w. replicate 600 CHR ''a'')\<rparr>"


text \<open>The state of the example with three values on the meta-stack.\<close>

definition example_state3 :: cstate where
  "example_state3 = example_state\<lparr>stack := 3\<rparr>"

text \<open>A compiled-function object of stack depth 3, with the bytecode \<^verbatim>\<open>constant 0; return\<close>, and
  what the memory of the meta stack holds before it is set up.\<close>

definition example_fn :: compiled_function where
  "example_fn = \<lparr>COMPILED_ARGLIST = 0, COMPILED_BYTECODE = 4, COMPILED_CONSTANTS = 5,
                  COMPILED_STACK_DEPTH = 14\<rparr>"

definition example_junk :: "nat \<Rightarrow> stack_el_t" where
  "example_junk i = \<lparr>gcc_lval = example_slot 0, type = 0, el_constant = 0, const_set = False\<rparr>"

text \<open>The state of the example with one value on the meta stack, and with none.\<close>

definition example_state1 :: cstate where
  "example_state1 = example_state\<lparr>stack := 1\<rparr>"

definition example_state0 :: cstate where
  "example_state0 = example_state\<lparr>stack := 0\<rparr>"

text \<open>\<^verbatim>\<open>constant 0; constant 0; BRgotoifnil +1; constant 1; return\<close>: the branch at 2 skips
  the instruction at 4 and goes to the \<^verbatim>\<open>return\<close> at 5.\<close>

definition example_branch :: "8 word list" where
  "example_branch = [192, 192, 171, 129, 193, 135]"

text \<open>\<^verbatim>\<open>pushcatch 4\<close> at PC 0, and three more bytes.\<close>

definition example_handler_code :: "8 word list" where
  "example_handler_code = [50, 4, 0, 135, 135, 135]"

section \<open>Properties\<close>

subsection \<open>Words of the target\<close>

lemma sval_long: "sval TYPE_LONG w = sint w"
  by (simp add: sval_def sint_uint)

lemma norm_long: "norm TYPE_LONG w = w"
  by (simp add: norm_def take_bit_word_eq_self)


lemma sint_woi: "- (2 ^ 63) \<le> k \<Longrightarrow> k < 2 ^ 63 \<Longrightarrow> sint (word_of_int k :: 64 word) = k"
  by (simp add: sint_sbintrunc' signed_take_bit_int_eq_self)

lemma range_mult:
  assumes "b < 63" "- (2 ^ (63 - b)) \<le> n" "n < 2 ^ (63 - b)"
  shows "- (2 ^ 63) \<le> n * 2 ^ b" "n * 2 ^ b + 2 ^ b \<le> (2 ^ 63 :: int)"
proof -
  have e: "(2::int) ^ 63 = 2 ^ (63 - b) * 2 ^ b"
    using assms(1) by (simp flip: power_add)
  have "- (2 ^ (63 - b)) * 2 ^ b \<le> n * (2 ^ b :: int)"
    using assms(2) by (intro mult_right_mono) auto
  then show "- (2 ^ 63) \<le> n * 2 ^ b" using e by simp
  have "(n + 1) * 2 ^ b \<le> 2 ^ (63 - b) * (2 ^ b :: int)"
    using assms(3) by (intro mult_right_mono) auto
  then show "n * 2 ^ b + 2 ^ b \<le> (2 ^ 63 :: int)" using e by (simp add: algebra_simps)
qed


lemma in_range_long: "in_range TYPE_LONG k \<longleftrightarrow> - (2 ^ 63) \<le> k \<and> k < 2 ^ 63"
  by (simp add: in_range_def)

lemma sval_cval_long: "in_range TYPE_LONG k \<Longrightarrow> sval TYPE_LONG (cval TYPE_LONG k) = k"
  by (simp add: sval_long cval_def norm_long sint_woi in_range_long)

lemma unat_cval_long: "b < 64 \<Longrightarrow> unat (cval TYPE_LONG (int b)) = b"
proof -
  assume "b < 64"
  then have "b < 2 ^ 64" by (simp add: order_less_trans [of _ 64])
  then show ?thesis by (simp add: cval_def norm_long unsigned_of_nat take_bit_nat_eq_self)
qed

lemma arith_LSHIFT_long:
  "b < 64 \<Longrightarrow>
   arith LSHIFT TYPE_LONG (cval TYPE_LONG n) (cval TYPE_LONG (int b)) = Some (cval TYPE_LONG (n * 2 ^ b))"
  by (simp add: arith_def unat_cval_long) (simp add: cval_def norm_long push_bit_eq_mult)

lemma arith_RSHIFT_long:
  "b < 64 \<Longrightarrow> in_range TYPE_LONG k \<Longrightarrow>
   arith RSHIFT TYPE_LONG (cval TYPE_LONG k) (cval TYPE_LONG (int b)) = Some (cval TYPE_LONG (k div 2 ^ b))"
  by (simp add: arith_def unat_cval_long sval_cval_long drop_bit_eq_div)

lemma arith_PLUS_long:
  "in_range TYPE_LONG x \<Longrightarrow> in_range TYPE_LONG y \<Longrightarrow> in_range TYPE_LONG (x + y) \<Longrightarrow>
   arith PLUS TYPE_LONG (cval TYPE_LONG x) (cval TYPE_LONG y) = Some (cval TYPE_LONG (x + y))"
  by (simp add: arith_def sval_cval_long) (simp add: cval_def norm_long)

lemma arith_MINUS_long:
  "in_range TYPE_LONG x \<Longrightarrow> in_range TYPE_LONG y \<Longrightarrow> in_range TYPE_LONG (x - y) \<Longrightarrow>
   arith MINUS TYPE_LONG (cval TYPE_LONG x) (cval TYPE_LONG y) = Some (cval TYPE_LONG (x - y))"
  by (simp add: arith_def sval_cval_long) (simp add: cval_def norm_long)

lemma fixnum_ranges:
  assumes "b < 63" "0 \<le> t" "t < 2 ^ b" "- (2 ^ (63 - b)) \<le> n" "n < 2 ^ (63 - b)"
  shows "in_range TYPE_LONG (n * 2 ^ b)" "in_range TYPE_LONG t" "in_range TYPE_LONG (n * 2 ^ b + t)"
    and "(n * 2 ^ b + t) div 2 ^ b = n"
proof -
  note r = range_mult [OF assms(1,4,5)]
  have p: "(0::int) < 2 ^ b" by simp
  have q: "(2::int) ^ b < 2 ^ 63"
    using assms(1) by (intro power_strict_increasing) auto
  show "in_range TYPE_LONG (n * 2 ^ b)" using r p unfolding in_range_long by linarith
  show "in_range TYPE_LONG t" using assms(2,3) q unfolding in_range_long by linarith
  show "in_range TYPE_LONG (n * 2 ^ b + t)" using r assms(2,3) unfolding in_range_long by linarith
  show "(n * 2 ^ b + t) div 2 ^ b = n"
    using assms(2,3) by (simp add: div_pos_pos_trivial)
qed

lemma cur_gcc_bb_eq:
  "cur_gcc_bb st = (case cur_bb st of None \<Rightarrow> Inl Undefined | Some bb \<Rightarrow> Inr (gcc_bb bb, st))"
  by (simp add: cur_gcc_bb_def cur_bb_def bindE_def getsE_def deref_bb_def returnE_def
      split: bb_ptr.splits)

lemma cur_bb_update [simp]:
  "cur_bb (stmts_update f1 st) = cur_bb st"
  "cur_bb (ends_update f2 st) = cur_bb st"
  "cur_bb (blocks_update f3 st) = cur_bb st"
  "cur_bb (nlocals_update f4 st) = cur_bb st"
  "cur_bb (ctxt_error_update f5 st) = cur_bb st"
  "cur_bb (func_update f6 st) = cur_bb st"
  "cur_bb (func_hash_update f7 st) = cur_bb st"
  "cur_bb (cast_i_update f8 st) = cur_bb st"
  "cur_bb (obj_i_update f9 st) = cur_bb st"
  "cur_bb (stack_base_update f10 st) = cur_bb st"
  "cur_bb (stack_update f11 st) = cur_bb st"
  "cur_bb (args_update f12 st) = cur_bb st"
  "cur_bb (pc_update f13 st) = cur_bb st"
  "cur_bb (pushhandler_n_update f14 st) = cur_bb st"
  "cur_bb (nil_update f15 st) = cur_bb st"
  by (simp_all add: cur_bb_def split: bb_ptr.splits)

lemmas emit_monad = bindE_def thenE_def returnE_def failE_def getsE_def modifyE_def eassert_def

lemma emit_comment_eq:
  "cur_bb st = Some bb \<Longrightarrow> ends st (gcc_bb bb) = None \<Longrightarrow>
   emit_comment c st =
     Inr ((), st\<lparr>stmts := (stmts st)(gcc_bb bb := stmts st (gcc_bb bb) @ [Add_comment c])\<rparr>)"
  by (simp add: emit_comment_def cur_gcc_bb_eq block_add_def emit_monad)

subsection \<open>Packing and extracting a fixnum\<close>

text \<open>
  Claim C10.  Packing then extracting a fixnum is the identity.  Let \<open>obj\<close> be an expression
  whose value is the integer \<open>n\<close>, with \<open>n\<close> in the fixnum range
  \<open>[MOST_NEGATIVE_FIXNUM, MOST_POSITIVE_FIXNUM]\<close>.  Then \<^verbatim>\<open>emit_make_fixnum\<close> succeeds, the
  statements it adds to the current block run (they store \<open>(n << INTTYPEBITS) + Lisp_Int0\<close> into
  the integer view of a fresh local), and the expression that \<^verbatim>\<open>emit_XFIXNUM\<close> builds for
  that local (the arithmetic right shift of the integer view by \<open>INTTYPEBITS\<close>) evaluates to
  \<open>n\<close>.  The hypotheses on the constants are how \<^verbatim>\<open>lisp.h\<close> relates them: the tag
  \<open>Lisp_Int0\<close> fits into the \<open>INTTYPEBITS\<close> low bits and the fixnum range is the range of
  \<open>64 - INTTYPEBITS\<close> bits.
\<close>

theorem fixnum_roundtrip:
  assumes b: "INTTYPEBITS h < 63"
    and t: "0 \<le> Lisp_Int0 h" "Lisp_Int0 h < 2 ^ INTTYPEBITS h"
    and lo: "- (2 ^ (63 - INTTYPEBITS h)) \<le> MOST_NEGATIVE_FIXNUM h"
    and hi: "MOST_POSITIVE_FIXNUM h < 2 ^ (63 - INTTYPEBITS h)"
    and n: "MOST_NEGATIVE_FIXNUM h \<le> n" "n \<le> MOST_POSITIVE_FIXNUM h"
    and cur: "cur_bb st = Some bb" "ends st (gcc_bb bb) = None"
    and obj: "eval_rvalue host ps obj rt = Returns (Word (word_of_int n)) rt1"
  shows "\<exists>packed st1 extracted st2 rt2.
      emit_make_fixnum h obj st = Inr (packed, st1) \<and>
      emit_XFIXNUM h packed st1 = Inr (extracted, st2) \<and>
      exec_stmts host ps (added st st1 (gcc_bb bb)) rt = Returns () rt2 \<and>
      eval_rvalue host ps extracted rt2 = Returns (Word (word_of_int n)) rt2"
proof -
  have nr: "- (2 ^ (63 - INTTYPEBITS h)) \<le> n" "n < 2 ^ (63 - INTTYPEBITS h)"
    using lo hi n by auto
  note fr = fixnum_ranges [OF b t nr]
  have b64: "INTTYPEBITS h < 64" using b by simp
  have w: "word_of_int n = cval TYPE_LONG n"
    by (simp add: cval_def norm_long)
  show ?thesis
    using obj unfolding w
    apply (simp add: emit_make_fixnum_def emit_XFIXNUM_def emit_XLI_def emit_lval_XLI_def
        emit_comment_eq [OF cur] cur_gcc_bb_eq cur block_add_def emit_monad
        gcc_jit_function_new_local_def Let_def emit_comment_def added_def)
    apply (simp add: inttypebits_def lisp_int0_def emacs_int_type_def lisp_obj_as_num_def
        lisp_obj_type_def norm_long load_def store_def merge_def
        arith_LSHIFT_long arith_PLUS_long arith_RSHIFT_long b64 fr)
    done
qed

theorem fixnum_roundtrip_witness:
  "INTTYPEBITS example_lisp_h < 63 \<and> 0 \<le> Lisp_Int0 example_lisp_h \<and>
   Lisp_Int0 example_lisp_h < 2 ^ INTTYPEBITS example_lisp_h \<and>
   - (2 ^ (63 - INTTYPEBITS example_lisp_h)) \<le> MOST_NEGATIVE_FIXNUM example_lisp_h \<and>
   MOST_POSITIVE_FIXNUM example_lisp_h < 2 ^ (63 - INTTYPEBITS example_lisp_h) \<and>
   MOST_NEGATIVE_FIXNUM example_lisp_h \<le> - 5 \<and> - 5 \<le> MOST_POSITIVE_FIXNUM example_lisp_h \<and>
   cur_bb example_state = Some (example_bb 0) \<and> ends example_state (gcc_bb (example_bb 0)) = None \<and>
   eval_rvalue example_host no_params (Rvalue_from_int emacs_int_type (- 5)) example_rt
     = Returns (Word (word_of_int (- 5))) example_rt \<and>
   (\<exists>packed st1 extracted st2 rt2.
      emit_make_fixnum example_lisp_h (Rvalue_from_int emacs_int_type (- 5)) example_state
        = Inr (packed, st1) \<and>
      emit_XFIXNUM example_lisp_h packed st1 = Inr (extracted, st2) \<and>
      exec_stmts example_host no_params (added example_state st1 (gcc_bb (example_bb 0))) example_rt
        = Returns () rt2 \<and>
      eval_rvalue example_host no_params extracted rt2 = Returns (Word (word_of_int (- 5))) rt2)"
proof -
  have h: "INTTYPEBITS example_lisp_h < 63" "0 \<le> Lisp_Int0 example_lisp_h"
    "Lisp_Int0 example_lisp_h < 2 ^ INTTYPEBITS example_lisp_h"
    "- (2 ^ (63 - INTTYPEBITS example_lisp_h)) \<le> MOST_NEGATIVE_FIXNUM example_lisp_h"
    "MOST_POSITIVE_FIXNUM example_lisp_h < 2 ^ (63 - INTTYPEBITS example_lisp_h)"
    "MOST_NEGATIVE_FIXNUM example_lisp_h \<le> - 5" "- 5 \<le> MOST_POSITIVE_FIXNUM example_lisp_h"
    by (simp_all add: example_lisp_h_def)
  have c: "cur_bb example_state = Some (example_bb 0)"
    "ends example_state (gcc_bb (example_bb 0)) = None"
    by (simp_all add: cur_bb_def example_state_def example_bb_def)
  have e: "eval_rvalue example_host no_params (Rvalue_from_int emacs_int_type (- 5)) example_rt
     = Returns (Word (word_of_int (- 5))) example_rt"
    by (simp add: emacs_int_type_def cval_def norm_long)
  show ?thesis
    using h c e fixnum_roundtrip [OF h c e] by blast
qed

subsection \<open>Running the macros of the emitter\<close>

lemma deref_block_eq:
  "deref_bb (block st) st = (case cur_bb st of None \<Rightarrow> Inl Undefined | Some bb \<Rightarrow> Inr (bb, st))"
  by (simp add: cur_bb_def deref_bb_def split: bb_ptr.splits)

lemma string_of_nat_length: "0 < k \<Longrightarrow> n < 10 ^ k \<Longrightarrow> length (string_of_nat n) \<le> k"
proof (induction k arbitrary: n)
  case 0
  then show ?case by simp
next
  case (Suc k)
  show ?case
  proof (cases "n < 10")
    case True
    then show ?thesis by (subst string_of_nat.simps) simp
  next
    case False
    then have k: "0 < k"
      using Suc.prems by (cases k) auto
    have "n div 10 < 10 ^ k"
      using Suc.prems by (simp add: less_mult_imp_div_less mult.commute)
    then have "length (string_of_nat (n div 10)) \<le> k"
      using Suc.IH k by simp
    with False show ?thesis by (subst string_of_nat.simps) simp
  qed
qed

lemma string_of_counter_length: "n < 2 ^ 32 \<Longrightarrow> length (string_of_nat n) \<le> 10"
  by (rule string_of_nat_length) auto

lemma POP1_eq:
  "0 < stack st \<Longrightarrow> stack st \<le> int (length (stack_base st)) \<Longrightarrow>
   POP1 st = Inr ((), st\<lparr>stack := stack st - 1,
                         args := (args st)(0 := Lvalue_as_rvalue
                                   (gcc_lval (stack_base st ! nat (stack st - 1))))\<rparr>)"
  by (simp add: POP1_def pop_to_def CHECK_STACK_def stack_el_def set_arg_def MAX_POP_def emit_monad)

lemma PUSH_RVAL_eq:
  "cur_bb st = Some bb \<Longrightarrow> ends st (gcc_bb bb) = None \<Longrightarrow>
   0 \<le> stack st \<Longrightarrow> stack st < int (length (stack_base st)) \<Longrightarrow>
   PUSH_RVAL r st =
     Inr ((), st\<lparr>stmts := (stmts st)(gcc_bb bb := stmts st (gcc_bb bb) @
                      [Add_assignment (gcc_lval (stack_base st ! nat (stack st))) r]),
                  stack_base := (stack_base st)[nat (stack st) :=
                      (stack_base st ! nat (stack st))\<lparr>type := - 1, const_set := False\<rparr>],
                  stack := stack st + 1\<rparr>)"
  by (simp add: PUSH_RVAL_def CHECK_STACK_def emit_assign_to_stack_slot_def deref_block_eq
      stack_el_def update_stack_el_def block_add_def emit_monad)

lemma emit_call_eq:
  "n \<le> 4 \<or> func_hash st name \<noteq> None \<Longrightarrow>
   emit_call name ret n as st =
     (let f = (case func_hash st name of
                 Some f \<Rightarrow> f
               | None \<Rightarrow> Function IMPORTED ret name (map rvalue_get_type (take n as)))
      in Inr (Call f (take n as), st\<lparr>func_hash := (func_hash st)(name \<mapsto> f)\<rparr>))"
  by (auto simp: emit_call_def emit_func_declare_def emit_monad Let_def fun_upd_idem)

lemma func_hash_name:
  "func_hash_ok st \<Longrightarrow>
   function_name (case func_hash st name of Some f \<Rightarrow> f | None \<Rightarrow> Function IMPORTED ret name ts) = name"
  by (auto simp: func_hash_ok_def split: option.splits)

lemma EMIT_CALL_1:
  assumes cur: "cur_bb st = Some bb" "ends st (gcc_bb bb) = None"
    and sp: "1 \<le> stack st" "stack st \<le> int (length (stack_base st))"
    and fh: "func_hash_ok st"
  shows "emits_call_n (thenE (CASE cname) (EMIT_CALL_N fname 1)) fname 1 st"
  using assms func_hash_name [OF fh, where name = fname]
  apply (simp add: emits_call_n_def CASE_def EMIT_CALL_N_def emit_comment_eq [OF cur] thenE_def bindE_def
      POP1_eq args_from_def MAX_POP_def getsE_def emit_call_eq PUSH_RVAL_eq Let_def added_def)
  done

lemma POP2_eq:
  "2 \<le> stack st \<Longrightarrow> stack st \<le> int (length (stack_base st)) \<Longrightarrow>
   POP2 st = Inr ((), st\<lparr>stack := stack st - 2,
                         args := (args st)
                           (1 := Lvalue_as_rvalue (gcc_lval (stack_base st ! nat (stack st - 1))),
                            0 := Lvalue_as_rvalue (gcc_lval (stack_base st ! nat (stack st - 2))))\<rparr>)"
  by (simp add: POP2_def pop_to_def CHECK_STACK_def stack_el_def set_arg_def MAX_POP_def emit_monad)

lemma EMIT_CALL_0:
  assumes cur: "cur_bb st = Some bb" "ends st (gcc_bb bb) = None"
    and sp: "0 \<le> stack st" "stack st < int (length (stack_base st))"
    and fh: "func_hash_ok st"
  shows "emits_call_n (thenE (CASE cname) (EMIT_CALL_N fname 0)) fname 0 st"
  using assms func_hash_name [OF fh, where name = fname]
  by (simp add: emits_call_n_def CASE_def EMIT_CALL_N_def emit_comment_eq [OF cur] thenE_def bindE_def
      POP0_def returnE_def args_from_def MAX_POP_def getsE_def emit_call_eq PUSH_RVAL_eq Let_def added_def)

lemma EMIT_CALL_2:
  assumes cur: "cur_bb st = Some bb" "ends st (gcc_bb bb) = None"
    and sp: "2 \<le> stack st" "stack st \<le> int (length (stack_base st))"
    and fh: "func_hash_ok st"
  shows "emits_call_n (thenE (CASE cname) (EMIT_CALL_N fname 2)) fname 2 st"
  using assms func_hash_name [OF fh, where name = fname]
  by (simp add: emits_call_n_def CASE_def EMIT_CALL_N_def emit_comment_eq [OF cur] thenE_def bindE_def
      POP2_eq args_from_def MAX_POP_def getsE_def emit_call_eq PUSH_RVAL_eq Let_def added_def
      nat_diff_distrib nat_add_distrib upt_rec numeral_2_eq_2)

lemma format_string_eq: "length s < 512 \<Longrightarrow> format_string s st = Inr (s, st)"
  by (simp add: format_string_def returnE_def)

lemma emit_cast_eq:
  assumes cur: "cur_bb st = Some bb" "ends st (gcc_bb bb) = None"
    and i: "cast_i st < 2 ^ 32"
    and o: "type_to_cast_field (rvalue_get_type obj) st = Inr (fo, st)"
    and d: "type_to_cast_field t st = Inr (fd, st)"
  shows "emit_cast t obj st =
     Inr (Rvalue_access_field
            (Lvalue_as_rvalue (Local (nlocals st) cast_union_type
                                 (''union_cast_'' @ string_of_nat (cast_i st)))) fd,
          st\<lparr>cast_i := (cast_i st + 1) mod 2 ^ 32,
             nlocals := nlocals st + 1,
             stmts := (stmts st)(gcc_bb bb := stmts st (gcc_bb bb) @
               [Add_assignment
                  (Lvalue_access_field (Local (nlocals st) cast_union_type
                                          (''union_cast_'' @ string_of_nat (cast_i st))) fo) obj])\<rparr>)"
  using assms string_of_counter_length [OF i]
  by (simp add: emit_cast_def bindE_def thenE_def getsE_def modifyE_def returnE_def
      format_string_eq gcc_jit_function_new_local_def cur_gcc_bb_eq block_add_def)

lemma type_to_cast_field_simps:
  "type_to_cast_field TYPE_LONG st = Inr (cast_union_as_l, st)"
  "type_to_cast_field TYPE_UNSIGNED_INT st = Inr (cast_union_as_u, st)"
  "type_to_cast_field TYPE_INT st = Inr (cast_union_as_i, st)"
  "type_to_cast_field TYPE_BOOL st = Inr (cast_union_as_b, st)"
  "type_to_cast_field (Pointer lisp_cons_s) st = Inr (cast_union_as_lisp_cons_ptr, st)"
  by (simp_all add: type_to_cast_field_def returnE_def char_ptr_type_def lisp_cons_ptr_type_def
      lisp_cons_s_def)

lemma Bintegerp_emitted:
  assumes cur: "cur_bb st = Some bb" "ends st (gcc_bb bb) = None"
    and sp: "1 \<le> stack st" "stack st \<le> int (length (stack_base st))"
    and i: "cast_i st < 2 ^ 32"
  shows "emits_inline_test (CASE_Bintegerp h) (emit_INTEGERP h) st"
  using assms
  apply (simp add: emits_inline_test_def CASE_Bintegerp_def CASE_def emit_comment_eq [OF cur] thenE_def bindE_def
      POP1_eq args_from_def MAX_POP_def getsE_def PUSH_RVAL_eq Let_def
      emit_INTEGERP_def emit_FIXNUMP_def emit_XLI_def emit_comment_eq emit_cast_eq
      emit_BIGNUMP_def returnE_def type_to_cast_field_simps emacs_int_type_def)
  done

subsection \<open>The opcodes of the arity-1 row\<close>

lemma Bnumberp_emitted:
  assumes cur: "cur_bb st = Some bb" "ends st (gcc_bb bb) = None"
    and sp: "1 \<le> stack st" "stack st \<le> int (length (stack_base st))"
    and i: "cast_i st < 2 ^ 32"
  shows "emits_inline_test (CASE_Bnumberp h) (emit_NUMBERP h) st"
  using assms
  by (simp add: emits_inline_test_def CASE_Bnumberp_def CASE_def emit_comment_eq [OF cur] thenE_def bindE_def
      POP1_eq args_from_def MAX_POP_def getsE_def PUSH_RVAL_eq Let_def
      emit_NUMBERP_def emit_FLOATP_def emit_TAGGEDP_def
      emit_INTEGERP_def emit_FIXNUMP_def emit_XLI_def emit_comment_eq emit_cast_eq
      emit_BIGNUMP_def returnE_def type_to_cast_field_simps emacs_int_type_def)

lemma Bpreceding_char_emitted:
  assumes cur: "cur_bb st = Some bb" "ends st (gcc_bb bb) = None"
    and sp: "0 \<le> stack st" "stack st < int (length (stack_base st))"
    and fh: "func_hash_ok st"
  shows "emits_call_n CASE_Bpreceding_char ''Fprevious_char'' 0 st"
  using assms func_hash_name [OF fh, where name = "''Fprevious_char''"]
  by (simp add: emits_call_n_def CASE_Bpreceding_char_def CASE_def emit_comment_eq [OF cur] thenE_def bindE_def
      returnE_def args_from_def MAX_POP_def getsE_def emit_call_eq PUSH_RVAL_eq Let_def added_def)

lemma example_state_facts:
  "cur_bb example_state = Some (example_bb 0)"
  "ends example_state (gcc_bb (example_bb 0)) = None"
  "2 \<le> stack example_state" "stack example_state < int (length (stack_base example_state))"
  "func_hash_ok example_state" "cast_i example_state < 2 ^ 32"
  by (simp_all add: cur_bb_def example_state_def example_bb_def func_hash_ok_def)

lemma emits_call_n_stack:
  "emits_call_n m f n st \<Longrightarrow> emits_call_n m f' n' st \<Longrightarrow> n = n'"
  unfolding emits_call_n_def by (elim exE conjE) simp

lemma emits_call_n_name:
  "emits_call_n m f n st \<Longrightarrow> emits_call_n m f' n' st \<Longrightarrow> f = f'"
  unfolding emits_call_n_def by (elim exE conjE) auto

lemma emits_inline_test_no_call:
  assumes "emits_inline_test m test st" "emits_call_n m fname n st"
  shows "fname = ''bool_to_lisp_obj''"
proof -
  from assms(1) obtain st' bb r where
    a: "m st = Inr ((), st')" "cur_bb st = Some bb"
      "last (stmts st' (gcc_bb bb)) =
          Add_assignment (gcc_lval (stack_base st ! nat (stack st - 1))) (Call bool_to_lisp_obj [r])"
    unfolding emits_inline_test_def by blast
  from assms(2) obtain st'' f bb' c lv as where
    b: "m st = Inr ((), st'')" "cur_bb st = Some bb'" "function_name f = fname"
      "added st st'' (gcc_bb bb') = [Add_comment c, Add_assignment lv (Call f as)]"
    unfolding emits_call_n_def by blast
  from a b have e: "st'' = st'" "bb' = bb" by auto
  have "last (added st st' (gcc_bb bb)) = last (stmts st' (gcc_bb bb))"
    using b(4) e unfolding added_def by (metis last_drop drop_eq_Nil not_le list.distinct(1))
  with a(3) b(4) e have "f = bool_to_lisp_obj" by simp
  with b(3) show ?thesis by (simp add: bool_to_lisp_obj_def)
qed

text \<open>
  Claim C5 says that every opcode of the arity-1 row pops exactly one value, calls the host
  function \<^verbatim>\<open>F<name>\<close> with exactly one argument and pushes the result.  On a meta stack of
  two values it fails for \<^verbatim>\<open>nth\<close> (the case is \<^verbatim>\<open>CASE_CALL_N (nth, 2)\<close>: two values are popped),
  for \<^verbatim>\<open>current_buffer\<close> (\<^verbatim>\<open>CASE_CALL_N (current_buffer, 0)\<close>: nothing is popped), for
  \<^verbatim>\<open>preceding_char\<close> (nothing is popped, and the function is \<^verbatim>\<open>Fprevious_char\<close>), for
  \<^verbatim>\<open>car_safe\<close> (the function is \<^verbatim>\<open>CAR_SAFE\<close>) and for \<^verbatim>\<open>numberp\<close> (the value pushed is
  \<^verbatim>\<open>bool_to_lisp_obj\<close> of an inline test).
\<close>

theorem arity1_row_counterexample:
  "\<not> emits_call_n CASE_Bnth ''Fnth'' 1 example_state \<and>
   \<not> emits_call_n CASE_Bcurrent_buffer ''Fcurrent_buffer'' 1 example_state \<and>
   \<not> emits_call_n CASE_Bpreceding_char ''Fpreceding_char'' 1 example_state \<and>
   \<not> emits_call_n CASE_Bcar_safe ''Fcar_safe'' 1 example_state \<and>
   \<not> emits_call_n (CASE_Bnumberp example_lisp_h) ''Fnumberp'' 1 example_state"
proof -
  note f = example_state_facts
  have f0: "0 \<le> stack example_state" "1 \<le> stack example_state"
    "stack example_state \<le> int (length (stack_base example_state))"
    using f(3,4) by auto
  have nth: "emits_call_n CASE_Bnth ''Fnth'' 2 example_state"
    unfolding CASE_Bnth_def CASE_CALL_N_def append.simps
    by (rule EMIT_CALL_2 [OF f(1,2,3) f0(3) f(5)])
  have cb: "emits_call_n CASE_Bcurrent_buffer ''Fcurrent_buffer'' 0 example_state"
    unfolding CASE_Bcurrent_buffer_def CASE_CALL_N_def append.simps
    by (rule EMIT_CALL_0 [OF f(1,2) f0(1) f(4,5)])
  have pc: "emits_call_n CASE_Bpreceding_char ''Fprevious_char'' 0 example_state"
    by (rule Bpreceding_char_emitted [OF f(1,2) f0(1) f(4,5)])
  have cs: "emits_call_n CASE_Bcar_safe ''CAR_SAFE'' 1 example_state"
    unfolding CASE_Bcar_safe_def
    by (rule EMIT_CALL_1 [OF f(1,2) f0(2,3) f(5)])
  have np: "emits_inline_test (CASE_Bnumberp example_lisp_h) (emit_NUMBERP example_lisp_h) example_state"
    by (rule Bnumberp_emitted [OF f(1,2) f0(2,3) f(6)])
  show ?thesis
    using emits_call_n_stack [OF nth] emits_call_n_stack [OF cb] emits_call_n_stack [OF pc]
      emits_call_n_name [OF cs] emits_inline_test_no_call [OF np]
    by fastforce
qed

text \<open>
  Claim C5, as amended.  Let the current block be open, the table of the declared functions as
  \<^verbatim>\<open>emit_func_declare\<close> fills it, and the counter of the casts an \<^verbatim>\<open>unsigned\<close>.  Each of the 21
  opcodes of the row does what its case in \<^verbatim>\<open>compile_f\<close> says, on every meta stack that holds
  the values it pops:
  \<^item> with at least one value on the meta stack, \<^verbatim>\<open>symbolp\<close>, \<^verbatim>\<open>stringp\<close>, \<^verbatim>\<open>listp\<close>, \<^verbatim>\<open>not\<close>,
    \<^verbatim>\<open>length\<close>, \<^verbatim>\<open>symbol_value\<close> and \<^verbatim>\<open>symbol_function\<close> pop exactly one value, call
    \<^verbatim>\<open>F<name>\<close> with exactly that one argument and push the result; \<^verbatim>\<open>car_safe\<close> and
    \<^verbatim>\<open>cdr_safe\<close> pop exactly one value and call \<^verbatim>\<open>CAR_SAFE\<close> and \<^verbatim>\<open>CDR_SAFE\<close> with it;
    \<^verbatim>\<open>numberp\<close> and \<^verbatim>\<open>integerp\<close> pop exactly one value and push \<^verbatim>\<open>bool_to_lisp_obj\<close> of the
    inline test that \<^verbatim>\<open>emit_NUMBERP\<close> and \<^verbatim>\<open>emit_INTEGERP\<close> build, and no host function
    \<^verbatim>\<open>F<name>\<close> is called;
  \<^item> with at least two values on the meta stack, \<^verbatim>\<open>nth\<close> pops exactly two values and calls
    \<^verbatim>\<open>Fnth\<close> with the two;
  \<^item> with a free slot on the meta stack, \<^verbatim>\<open>current_buffer\<close>, \<^verbatim>\<open>eolp\<close>, \<^verbatim>\<open>eobp\<close>, \<^verbatim>\<open>bolp\<close>,
    \<^verbatim>\<open>bobp\<close>, \<^verbatim>\<open>widen\<close>, \<^verbatim>\<open>current_column\<close> and \<^verbatim>\<open>following_char\<close> pop nothing, call
    \<^verbatim>\<open>F<name>\<close> without arguments and push the result; \<^verbatim>\<open>preceding_char\<close> pops nothing and
    calls \<^verbatim>\<open>Fprevious_char\<close> without arguments.
\<close>

theorem arity1_row_as_emitted:
  assumes cur: "cur_bb st = Some bb" "ends st (gcc_bb bb) = None"
    and fh: "func_hash_ok st"
    and i: "cast_i st < 2 ^ 32"
  shows "(1 \<le> stack st \<and> stack st \<le> int (length (stack_base st)) \<longrightarrow>
            emits_call_n CASE_Bsymbolp ''Fsymbolp'' 1 st \<and>
            emits_call_n CASE_Bstringp ''Fstringp'' 1 st \<and>
            emits_call_n CASE_Blistp ''Flistp'' 1 st \<and>
            emits_call_n CASE_Bnot ''Fnot'' 1 st \<and>
            emits_call_n CASE_Blength ''Flength'' 1 st \<and>
            emits_call_n CASE_Bsymbol_value ''Fsymbol_value'' 1 st \<and>
            emits_call_n CASE_Bsymbol_function ''Fsymbol_function'' 1 st \<and>
            emits_call_n CASE_Bcar_safe ''CAR_SAFE'' 1 st \<and>
            emits_call_n CASE_Bcdr_safe ''CDR_SAFE'' 1 st \<and>
            emits_inline_test (CASE_Bnumberp h) (emit_NUMBERP h) st \<and>
            emits_inline_test (CASE_Bintegerp h) (emit_INTEGERP h) st) \<and>
         (2 \<le> stack st \<and> stack st \<le> int (length (stack_base st)) \<longrightarrow>
            emits_call_n CASE_Bnth ''Fnth'' 2 st) \<and>
         (0 \<le> stack st \<and> stack st < int (length (stack_base st)) \<longrightarrow>
            emits_call_n CASE_Bcurrent_buffer ''Fcurrent_buffer'' 0 st \<and>
            emits_call_n CASE_Beolp ''Feolp'' 0 st \<and>
            emits_call_n CASE_Beobp ''Feobp'' 0 st \<and>
            emits_call_n CASE_Bbolp ''Fbolp'' 0 st \<and>
            emits_call_n CASE_Bbobp ''Fbobp'' 0 st \<and>
            emits_call_n CASE_Bwiden ''Fwiden'' 0 st \<and>
            emits_call_n CASE_Bcurrent_column ''Fcurrent_column'' 0 st \<and>
            emits_call_n CASE_Bfollowing_char ''Ffollowing_char'' 0 st \<and>
            emits_call_n CASE_Bpreceding_char ''Fprevious_char'' 0 st)"
proof (intro conjI impI)
  assume "1 \<le> stack st \<and> stack st \<le> int (length (stack_base st))"
  then have sp: "1 \<le> stack st" "stack st \<le> int (length (stack_base st))"
    by auto
  note one = EMIT_CALL_1 [OF cur sp fh]
  show "emits_call_n CASE_Bsymbolp ''Fsymbolp'' 1 st"
    unfolding CASE_Bsymbolp_def CASE_CALL_N_def append.simps by (rule one)
  show "emits_call_n CASE_Bstringp ''Fstringp'' 1 st"
    unfolding CASE_Bstringp_def CASE_CALL_N_def append.simps by (rule one)
  show "emits_call_n CASE_Blistp ''Flistp'' 1 st"
    unfolding CASE_Blistp_def CASE_CALL_N_def append.simps by (rule one)
  show "emits_call_n CASE_Bnot ''Fnot'' 1 st"
    unfolding CASE_Bnot_def CASE_CALL_N_def append.simps by (rule one)
  show "emits_call_n CASE_Blength ''Flength'' 1 st"
    unfolding CASE_Blength_def CASE_CALL_N_def append.simps by (rule one)
  show "emits_call_n CASE_Bsymbol_value ''Fsymbol_value'' 1 st"
    unfolding CASE_Bsymbol_value_def CASE_CALL_N_def append.simps by (rule one)
  show "emits_call_n CASE_Bsymbol_function ''Fsymbol_function'' 1 st"
    unfolding CASE_Bsymbol_function_def CASE_CALL_N_def append.simps by (rule one)
  show "emits_call_n CASE_Bcar_safe ''CAR_SAFE'' 1 st"
    unfolding CASE_Bcar_safe_def by (rule one)
  show "emits_call_n CASE_Bcdr_safe ''CDR_SAFE'' 1 st"
    unfolding CASE_Bcdr_safe_def by (rule one)
  show "emits_inline_test (CASE_Bnumberp h) (emit_NUMBERP h) st"
    by (rule Bnumberp_emitted [OF cur sp i])
  show "emits_inline_test (CASE_Bintegerp h) (emit_INTEGERP h) st"
    by (rule Bintegerp_emitted [OF cur sp i])
next
  assume "2 \<le> stack st \<and> stack st \<le> int (length (stack_base st))"
  then have sp: "2 \<le> stack st" "stack st \<le> int (length (stack_base st))"
    by auto
  show "emits_call_n CASE_Bnth ''Fnth'' 2 st"
    unfolding CASE_Bnth_def CASE_CALL_N_def append.simps by (rule EMIT_CALL_2 [OF cur sp fh])
next
  assume "0 \<le> stack st \<and> stack st < int (length (stack_base st))"
  then have sp: "0 \<le> stack st" "stack st < int (length (stack_base st))"
    by auto
  note zero = EMIT_CALL_0 [OF cur sp fh]
  show "emits_call_n CASE_Bcurrent_buffer ''Fcurrent_buffer'' 0 st"
    unfolding CASE_Bcurrent_buffer_def CASE_CALL_N_def append.simps by (rule zero)
  show "emits_call_n CASE_Beolp ''Feolp'' 0 st"
    unfolding CASE_Beolp_def CASE_CALL_N_def append.simps by (rule zero)
  show "emits_call_n CASE_Beobp ''Feobp'' 0 st"
    unfolding CASE_Beobp_def CASE_CALL_N_def append.simps by (rule zero)
  show "emits_call_n CASE_Bbolp ''Fbolp'' 0 st"
    unfolding CASE_Bbolp_def CASE_CALL_N_def append.simps by (rule zero)
  show "emits_call_n CASE_Bbobp ''Fbobp'' 0 st"
    unfolding CASE_Bbobp_def CASE_CALL_N_def append.simps by (rule zero)
  show "emits_call_n CASE_Bwiden ''Fwiden'' 0 st"
    unfolding CASE_Bwiden_def CASE_CALL_N_def append.simps by (rule zero)
  show "emits_call_n CASE_Bcurrent_column ''Fcurrent_column'' 0 st"
    unfolding CASE_Bcurrent_column_def CASE_CALL_N_def append.simps by (rule zero)
  show "emits_call_n CASE_Bfollowing_char ''Ffollowing_char'' 0 st"
    unfolding CASE_Bfollowing_char_def CASE_CALL_N_def append.simps by (rule zero)
  show "emits_call_n CASE_Bpreceding_char ''Fprevious_char'' 0 st"
    by (rule Bpreceding_char_emitted [OF cur sp fh])
qed

lemma example_state_few:
  "cur_bb example_state1 = Some (example_bb 0)"
  "ends example_state1 (gcc_bb (example_bb 0)) = None"
  "func_hash_ok example_state1" "cast_i example_state1 < 2 ^ 32"
  "stack example_state1 = 1" "length (stack_base example_state1) = 4"
  "cur_bb example_state0 = Some (example_bb 0)"
  "ends example_state0 (gcc_bb (example_bb 0)) = None"
  "func_hash_ok example_state0" "cast_i example_state0 < 2 ^ 32"
  "stack example_state0 = 0" "length (stack_base example_state0) = 4"
  by (simp_all add: cur_bb_def example_state1_def example_state0_def example_state_def
      example_bb_def func_hash_ok_def)

theorem arity1_row_as_emitted_witness:
  "emits_call_n CASE_Bsymbolp ''Fsymbolp'' 1 example_state \<and>
   emits_call_n CASE_Bnth ''Fnth'' 2 example_state \<and>
   emits_call_n CASE_Bwiden ''Fwiden'' 0 example_state \<and>
   emits_call_n CASE_Bpreceding_char ''Fprevious_char'' 0 example_state \<and>
   emits_call_n CASE_Bcar_safe ''CAR_SAFE'' 1 example_state \<and>
   emits_inline_test (CASE_Bnumberp example_lisp_h) (emit_NUMBERP example_lisp_h) example_state \<and>
   emits_call_n CASE_Bsymbolp ''Fsymbolp'' 1 example_state1 \<and>
   emits_inline_test (CASE_Bintegerp example_lisp_h) (emit_INTEGERP example_lisp_h) example_state1 \<and>
   emits_call_n CASE_Bcurrent_buffer ''Fcurrent_buffer'' 0 example_state1 \<and>
   emits_call_n CASE_Bcurrent_buffer ''Fcurrent_buffer'' 0 example_state0"
  using arity1_row_as_emitted [OF example_state_facts(1,2,5,6), of example_lisp_h]
    arity1_row_as_emitted [OF example_state_few(1-4), of example_lisp_h]
    arity1_row_as_emitted [OF example_state_few(7-10), of example_lisp_h]
    example_state_facts(3,4)
  by (simp add: example_state_few)

subsection \<open>The default case of the dispatch\<close>

lemma bindE_Inl: "bindE m f st = Inl e \<longleftrightarrow> m st = Inl e \<or> (\<exists>x st'. m st = Inr (x, st') \<and> f x st' = Inl e)"
  by (auto simp: bindE_def split: sum.splits)

lemma thenE_Inl: "thenE m k st = Inl e \<longleftrightarrow> m st = Inl e \<or> (\<exists>st'. m st = Inr ((), st') \<and> k st' = Inl e)"
  by (auto simp: thenE_def bindE_def split: sum.splits)

lemma emit_comment_Inl: "emit_comment c st = Inl e \<Longrightarrow> e = Undefined"
  by (auto simp: emit_comment_def cur_gcc_bb_eq block_add_def emit_monad split: option.splits)

lemma format_string_Inl: "format_string s st = Inl e \<Longrightarrow> e = Signal ''Truncating string''"
  by (auto simp: format_string_def emit_monad split: if_splits)

lemma emit_lisp_obj_from_ptr_Inl:
  "emit_lisp_obj_from_ptr h p st = Inl e \<Longrightarrow> e = Undefined \<or> e = Signal ''Truncating string''"
  unfolding emit_lisp_obj_from_ptr_def emit_lval_XLP_def Let_def
  by (auto simp: bindE_Inl thenE_Inl getsE_def modifyE_def returnE_def gcc_jit_function_new_local_def
      cur_gcc_bb_eq block_add_def
      dest!: emit_comment_Inl format_string_Inl split: if_splits option.splits)

lemma PUSH_RVAL_Inl: "PUSH_RVAL r st = Inl e \<Longrightarrow> e = Undefined \<or> e = Eassert"
  unfolding PUSH_RVAL_def CHECK_STACK_def emit_assign_to_stack_slot_def
  by (auto simp: bindE_Inl thenE_Inl getsE_def modifyE_def returnE_def eassert_def failE_def
      deref_bb_def stack_el_def update_stack_el_def block_add_def
      split: if_splits option.splits bb_ptr.splits)

lemma update_stack_el_Inl: "update_stack_el k f st = Inl e \<Longrightarrow> e = Undefined"
  by (auto simp: update_stack_el_def split: if_splits)

lemma do_constant_Inl:
  "do_constant h B bs vectorp vector_size op st = Inl e \<Longrightarrow>
   e = Undefined \<or> e = Eassert \<or> e = Signal ''Truncating string''"
  unfolding do_constant_def
  by (auto simp: bindE_Inl thenE_Inl getsE_def modifyE_def returnE_def failE_def
      dest!: emit_lisp_obj_from_ptr_Inl PUSH_RVAL_Inl update_stack_el_Inl split: if_splits)

lemma emit_lisp_obj_from_ptr_eq:
  assumes cur: "cur_bb st = Some bb" "ends st (gcc_bb bb) = None"
    and i: "obj_i st < 2 ^ 32"
    and sym: "\<not> (SYMBOLP h p \<and> 505 \<le> length (SYMBOL_NAME h p))"
  shows "emit_lisp_obj_from_ptr h p st =
     Inr (Lvalue_as_rvalue (Local (nlocals st) lisp_obj_type
                              (''lisp_obj_from_ptr_'' @ string_of_nat (obj_i st))),
          st\<lparr>obj_i := (obj_i st + 1) mod 2 ^ 32,
             nlocals := nlocals st + 1,
             stmts := (stmts st)(gcc_bb bb := stmts st (gcc_bb bb) @
               Add_comment ''lisp_obj_from_ptr'' #
               (if SYMBOLP h p then [Add_comment (''Symbol '' @ SYMBOL_NAME h p)] else []) @
               [Add_comment ''lval_XLP'',
                Add_assignment
                  (Lvalue_access_field (Local (nlocals st) lisp_obj_type
                     (''lisp_obj_from_ptr_'' @ string_of_nat (obj_i st))) lisp_obj_as_ptr)
                  (Rvalue_from_ptr TYPE_VOID_PTR p)])\<rparr>)"
proof (cases "SYMBOLP h p")
  case True
  with sym have "length (''Symbol '' @ SYMBOL_NAME h p) < 512"
    by simp
  then have "\<And>s. format_string (''Symbol '' @ SYMBOL_NAME h p) s = Inr (''Symbol '' @ SYMBOL_NAME h p, s)"
    by (rule format_string_eq)
  then show ?thesis
    using True cur i string_of_counter_length [OF i]
    by (simp add: emit_lisp_obj_from_ptr_def emit_lval_XLP_def emit_comment_eq bindE_def thenE_def
      getsE_def modifyE_def returnE_def format_string_eq gcc_jit_function_new_local_def
      cur_gcc_bb_eq block_add_def Let_def)
next
  case False
  then show ?thesis
    using cur i string_of_counter_length [OF i]
    by (simp add: emit_lisp_obj_from_ptr_def emit_lval_XLP_def emit_comment_eq bindE_def thenE_def
      getsE_def modifyE_def returnE_def format_string_eq gcc_jit_function_new_local_def
      cur_gcc_bb_eq block_add_def Let_def)
qed

lemma emit_lisp_obj_from_ptr_long:
  assumes cur: "cur_bb st = Some bb" "ends st (gcc_bb bb) = None"
    and i: "obj_i st < 2 ^ 32"
    and sym: "SYMBOLP h p" "505 \<le> length (SYMBOL_NAME h p)"
  shows "emit_lisp_obj_from_ptr h p st = Inl (Signal ''Truncating string'')"
proof -
  from sym have "512 \<le> length (''Symbol '' @ SYMBOL_NAME h p)"
    by simp
  then have "\<And>s. format_string (''Symbol '' @ SYMBOL_NAME h p) s = Inl (Signal ''Truncating string'')"
    by (simp add: format_string_def failE_def)
  then show ?thesis
    using sym(1) cur i string_of_counter_length [OF i]
    by (simp add: emit_lisp_obj_from_ptr_def emit_lval_XLP_def emit_comment_eq bindE_def thenE_def
      getsE_def modifyE_def returnE_def format_string_eq gcc_jit_function_new_local_def
      cur_gcc_bb_eq block_add_def Let_def)
qed

lemma CASE_Bconstant_fail:
  assumes cur: "cur_bb st = Some bb"
  shows "CASE_Bconstant h B bytestr_data vectorp vector_size op st
            = Inl (Signal ''Something went wrong'')
          \<longleftrightarrow> op < B ''Bconstant'' \<or> op > B ''Bconstant'' + vector_size"
  unfolding CASE_Bconstant_def CASE_def
  using cur
  by (auto simp: thenE_Inl failE_def emit_comment_def cur_gcc_bb_eq block_add_def bindE_def
      modifyE_def dest!: do_constant_Inl)

lemma CASE_Bconstant_switch:
  assumes cur: "cur_bb st = Some bb" "ends st (gcc_bb bb) = None"
    and rng: "B ''Bconstant'' \<le> op" "op \<le> B ''Bconstant'' + vector_size"
    and sw: "pc st < length bytestr_data" "unat (bytestr_data ! pc st) = B ''Bswitch''"
  shows "CASE_Bconstant h B bytestr_data vectorp vector_size op st =
     Inr ((), st\<lparr>stmts := (stmts st)(gcc_bb bb := stmts st (gcc_bb bb) @ [Add_comment ''Bconstant'']),
                  pc := pc st + 1\<rparr>)"
  using assms
  by (simp add: CASE_Bconstant_def CASE_def do_constant_def emit_comment_eq thenE_def bindE_def
      getsE_def modifyE_def)

lemma CASE_Bconstant_truncating:
  assumes cur: "cur_bb st = Some bb" "ends st (gcc_bb bb) = None"
    and i: "obj_i st < 2 ^ 32"
    and rng: "B ''Bconstant'' \<le> op" "op < B ''Bconstant'' + vector_size"
    and sw: "\<not> (pc st < length bytestr_data \<and> unat (bytestr_data ! pc st) = B ''Bswitch'')"
    and sym: "SYMBOLP h (vectorp (op - B ''Bconstant''))"
      "505 \<le> length (SYMBOL_NAME h (vectorp (op - B ''Bconstant'')))"
  shows "CASE_Bconstant h B bytestr_data vectorp vector_size op st =
     Inl (Signal ''Truncating string'')"
proof -
  have "op - B ''Bconstant'' < vector_size"
    using rng by auto
  then show ?thesis
    using cur i rng sw sym
    by (auto simp: CASE_Bconstant_def CASE_def do_constant_def emit_comment_eq thenE_def bindE_def
      getsE_def returnE_def emit_lisp_obj_from_ptr_long)
qed

lemma CASE_Bconstant_full:
  assumes cur: "cur_bb st = Some bb" "ends st (gcc_bb bb) = None"
    and i: "obj_i st < 2 ^ 32"
    and rng: "B ''Bconstant'' \<le> op" "op < B ''Bconstant'' + vector_size"
    and sw: "\<not> (pc st < length bytestr_data \<and> unat (bytestr_data ! pc st) = B ''Bswitch'')"
    and sym: "\<not> (SYMBOLP h (vectorp (op - B ''Bconstant'')) \<and>
                 505 \<le> length (SYMBOL_NAME h (vectorp (op - B ''Bconstant''))))"
    and full: "stack st < 0 \<or> int (length (stack_base st)) \<le> stack st"
  shows "CASE_Bconstant h B bytestr_data vectorp vector_size op st = Inl Eassert"
proof -
  have "op - B ''Bconstant'' < vector_size"
    using rng by auto
  then show ?thesis
    using cur i rng sw sym full
    by (auto simp: CASE_Bconstant_def CASE_def do_constant_def emit_comment_eq thenE_def bindE_def
      getsE_def returnE_def emit_lisp_obj_from_ptr_eq PUSH_RVAL_def CHECK_STACK_def eassert_def
      failE_def)
qed

lemma CASE_Bconstant_pushes:
  assumes cur: "cur_bb st = Some bb" "ends st (gcc_bb bb) = None"
    and i: "obj_i st < 2 ^ 32"
    and rng: "B ''Bconstant'' \<le> op" "op < B ''Bconstant'' + vector_size"
    and sw: "\<not> (pc st < length bytestr_data \<and> unat (bytestr_data ! pc st) = B ''Bswitch'')"
    and sym: "\<not> (SYMBOLP h (vectorp (op - B ''Bconstant'')) \<and>
                 505 \<le> length (SYMBOL_NAME h (vectorp (op - B ''Bconstant''))))"
    and room: "\<not> (stack st < 0 \<or> int (length (stack_base st)) \<le> stack st)"
  shows "\<exists>st'.
     CASE_Bconstant h B bytestr_data vectorp vector_size op st = Inr ((), st') \<and>
     stack st' = stack st + 1 \<and> pc st' = pc st \<and>
     Add_assignment
       (Lvalue_access_field
          (Local (nlocals st) lisp_obj_type (''lisp_obj_from_ptr_'' @ string_of_nat (obj_i st)))
          lisp_obj_as_ptr)
       (Rvalue_from_ptr TYPE_VOID_PTR (vectorp (op - B ''Bconstant'')))
       \<in> set (added st st' (gcc_bb bb)) \<and>
     last (added st st' (gcc_bb bb)) =
       Add_assignment (gcc_lval (stack_base st ! nat (stack st)))
         (Lvalue_as_rvalue
            (Local (nlocals st) lisp_obj_type (''lisp_obj_from_ptr_'' @ string_of_nat (obj_i st)))) \<and>
     type (stack_base st' ! nat (stack st)) = XTYPE h (vectorp (op - B ''Bconstant''))"
proof -
  have "op - B ''Bconstant'' < vector_size"
    using rng by auto
  then show ?thesis
    using cur i rng sw sym room
    by (auto simp: CASE_Bconstant_def CASE_def do_constant_def emit_comment_eq thenE_def bindE_def
        getsE_def modifyE_def returnE_def emit_lisp_obj_from_ptr_eq PUSH_RVAL_eq
        update_stack_el_def added_def)
qed

lemma CASE_Bconstant_boundary:
  assumes cur: "cur_bb st = Some bb" "ends st (gcc_bb bb) = None"
    and sw: "\<not> (pc st < length bytestr_data \<and> unat (bytestr_data ! pc st) = B ''Bswitch'')"
  shows "CASE_Bconstant h B bytestr_data vectorp vector_size (B ''Bconstant'' + vector_size) st =
     Inl Undefined"
  using assms
  by (auto simp: CASE_Bconstant_def CASE_def do_constant_def emit_comment_eq thenE_def bindE_def
      getsE_def failE_def)

lemma example_bytecode_h_Bconstant:
  "example_bytecode_h ''Bconstant'' = 192" "example_bytecode_h ''Bswitch'' = 183"
  by (simp_all add: example_bytecode_h_def)

lemma example_state_constant:
  "pc example_state = 1" "stack example_state = 2"
  "length (stack_base example_state) = 4" "obj_i example_state = 1"
  "nlocals example_state = 2" "gcc_bb (example_bb 0) = 0" "ends example_state 0 = None"
  by (simp_all add: example_state_def example_bb_def)

text \<open>Claim C9, as it is stated: the compilation of an opcode of the default case aborts with
  an error if and only if the opcode is below \<^verbatim>\<open>Bconstant\<close> or above
  \<^verbatim>\<open>Bconstant + vector_size\<close>.  It fails for the opcode \<^verbatim>\<open>Bconstant\<close> itself, with two
  constants, when the first constant is a symbol whose name has 600 characters: the opcode is
  in the range and \<^verbatim>\<open>format_string\<close> aborts the compilation with ``Truncating string''.\<close>

theorem constant_guard_counterexample:
  "\<not> (192 < example_bytecode_h ''Bconstant'' \<or> 192 > example_bytecode_h ''Bconstant'' + 2) \<and>
   CASE_Bconstant example_long_names example_bytecode_h [192, 135] example_vectorp 2 192
     example_state = Inl (Signal ''Truncating string'')"
proof -
  have "CASE_Bconstant example_long_names example_bytecode_h [192, 135] example_vectorp 2 192
     example_state = Inl (Signal ''Truncating string'')"
    by (rule CASE_Bconstant_truncating [OF example_state_facts(1,2)])
      (simp_all add: example_bytecode_h_Bconstant example_state_constant example_long_names_def
        example_vectorp_def example_lisp_h_def)
  then show ?thesis
    by (simp add: example_bytecode_h_Bconstant)
qed

text \<open>Claim C9, amended.  Let the current block be open.  In the default case of the dispatch
  the jump to \<^verbatim>\<open>fail\<close> (the error ``Something went wrong'') is taken for every opcode below
  \<^verbatim>\<open>Bconstant\<close> or above \<^verbatim>\<open>Bconstant + vector_size\<close>, and for no opcode from
  \<^verbatim>\<open>Bconstant\<close> to \<^verbatim>\<open>Bconstant + vector_size - 1\<close>.  For such an opcode:
  \<^item> when the next byte is \<^verbatim>\<open>Bswitch\<close>, no constant is read: the case only moves \<^verbatim>\<open>pc\<close> past
    that byte;
  \<^item> otherwise the constant \<^verbatim>\<open>vectorp[op - Bconstant]\<close> is read.  When it is a symbol whose
    name has 505 bytes or more, \<^verbatim>\<open>format_string\<close> aborts the compilation with ``Truncating
    string''; else, when the meta stack has no free slot, the assertion of \<^verbatim>\<open>PUSH_RVAL\<close>
    fails; else the case succeeds, loads the constant into a fresh local and pushes that local
    with the type tag of the constant.

  The opcode \<^verbatim>\<open>Bconstant + vector_size\<close> is left out: the guard lets it pass and
  \<^verbatim>\<open>vectorp[vector_size]\<close> is outside the array of constants (lemma
  \<open>CASE_Bconstant_boundary\<close>).\<close>

theorem constant_case_outcomes:
  assumes cur: "cur_bb st = Some bb" "ends st (gcc_bb bb) = None"
    and i: "obj_i st < 2 ^ 32"
    and r: "r = CASE_Bconstant h B bytestr_data vectorp vector_size op st"
    and c: "c = vectorp (op - B ''Bconstant'')"
    and l: "l = Local (nlocals st) lisp_obj_type (''lisp_obj_from_ptr_'' @ string_of_nat (obj_i st))"
  shows "(op < B ''Bconstant'' \<or> op > B ''Bconstant'' + vector_size \<longrightarrow>
            r = Inl (Signal ''Something went wrong'')) \<and>
         (B ''Bconstant'' \<le> op \<and> op < B ''Bconstant'' + vector_size \<longrightarrow>
            r \<noteq> Inl (Signal ''Something went wrong'') \<and>
            (if pc st < length bytestr_data \<and> unat (bytestr_data ! pc st) = B ''Bswitch''
             then r = Inr ((), st\<lparr>stmts := (stmts st)(gcc_bb bb :=
                                     stmts st (gcc_bb bb) @ [Add_comment ''Bconstant'']),
                                   pc := pc st + 1\<rparr>)
             else if SYMBOLP h c \<and> 505 \<le> length (SYMBOL_NAME h c)
             then r = Inl (Signal ''Truncating string'')
             else if stack st < 0 \<or> int (length (stack_base st)) \<le> stack st
             then r = Inl Eassert
             else (\<exists>st'. r = Inr ((), st') \<and>
                     stack st' = stack st + 1 \<and> pc st' = pc st \<and>
                     Add_assignment (Lvalue_access_field l lisp_obj_as_ptr)
                       (Rvalue_from_ptr TYPE_VOID_PTR c) \<in> set (added st st' (gcc_bb bb)) \<and>
                     last (added st st' (gcc_bb bb)) =
                       Add_assignment (gcc_lval (stack_base st ! nat (stack st)))
                         (Lvalue_as_rvalue l) \<and>
                     type (stack_base st' ! nat (stack st)) = XTYPE h c)))"
proof (intro conjI impI)
  assume "op < B ''Bconstant'' \<or> op > B ''Bconstant'' + vector_size"
  then show "r = Inl (Signal ''Something went wrong'')"
    unfolding r using CASE_Bconstant_fail [OF cur(1)] by blast
next
  assume a: "B ''Bconstant'' \<le> op \<and> op < B ''Bconstant'' + vector_size"
  then show "r \<noteq> Inl (Signal ''Something went wrong'')"
    unfolding r using CASE_Bconstant_fail [OF cur(1), of h B bytestr_data vectorp vector_size op]
    by auto
  from a have rng: "B ''Bconstant'' \<le> op" "op < B ''Bconstant'' + vector_size"
    "op \<le> B ''Bconstant'' + vector_size"
    by auto
  show "if pc st < length bytestr_data \<and> unat (bytestr_data ! pc st) = B ''Bswitch''
        then r = Inr ((), st\<lparr>stmts := (stmts st)(gcc_bb bb :=
                                stmts st (gcc_bb bb) @ [Add_comment ''Bconstant'']),
                              pc := pc st + 1\<rparr>)
        else if SYMBOLP h c \<and> 505 \<le> length (SYMBOL_NAME h c)
        then r = Inl (Signal ''Truncating string'')
        else if stack st < 0 \<or> int (length (stack_base st)) \<le> stack st
        then r = Inl Eassert
        else (\<exists>st'. r = Inr ((), st') \<and>
                stack st' = stack st + 1 \<and> pc st' = pc st \<and>
                Add_assignment (Lvalue_access_field l lisp_obj_as_ptr)
                  (Rvalue_from_ptr TYPE_VOID_PTR c) \<in> set (added st st' (gcc_bb bb)) \<and>
                last (added st st' (gcc_bb bb)) =
                  Add_assignment (gcc_lval (stack_base st ! nat (stack st)))
                    (Lvalue_as_rvalue l) \<and>
                type (stack_base st' ! nat (stack st)) = XTYPE h c)"
  proof (cases "pc st < length bytestr_data \<and> unat (bytestr_data ! pc st) = B ''Bswitch''")
    case True
    then show ?thesis
      unfolding r using CASE_Bconstant_switch [where B = B and op = op and vector_size = vector_size and st = st and bb = bb
            and bytestr_data = bytestr_data and h = h and vectorp = vectorp, OF cur rng(1,3)]
      by simp
  next
    case sw: False
    show ?thesis
    proof (cases "SYMBOLP h c \<and> 505 \<le> length (SYMBOL_NAME h c)")
      case True
      then show ?thesis
        unfolding r c using sw CASE_Bconstant_truncating [where B = B and op = op and vector_size = vector_size and st = st and bb = bb
            and bytestr_data = bytestr_data and h = h and vectorp = vectorp, OF cur i rng(1,2) sw]
        by simp
    next
      case sym: False
      show ?thesis
      proof (cases "stack st < 0 \<or> int (length (stack_base st)) \<le> stack st")
        case True
        then show ?thesis
          using sw sym CASE_Bconstant_full [where B = B and op = op and vector_size = vector_size and st = st and bb = bb
            and bytestr_data = bytestr_data and h = h and vectorp = vectorp, OF cur i rng(1,2) sw sym [unfolded c] True]
          unfolding r c by simp
      next
        case False
        then show ?thesis
          using sw sym CASE_Bconstant_pushes [where B = B and op = op and vector_size = vector_size and st = st and bb = bb
            and bytestr_data = bytestr_data and h = h and vectorp = vectorp, OF cur i rng(1,2) sw sym [unfolded c] False]
          unfolding r c l by auto
      qed
    qed
  qed
qed

theorem constant_case_outcomes_witness:
  "CASE_Bconstant example_lisp_h example_bytecode_h [193, 135] example_vectorp 2 195 example_state
     = Inl (Signal ''Something went wrong'') \<and>
   CASE_Bconstant example_lisp_h example_bytecode_h [193, 135] example_vectorp 2 191 example_state
     = Inl (Signal ''Something went wrong'') \<and>
   (\<exists>st'. CASE_Bconstant example_lisp_h example_bytecode_h [193, 135] example_vectorp 2 193
             example_state = Inr ((), st') \<and>
          stack st' = stack example_state + 1 \<and>
          Add_assignment
            (Lvalue_access_field
               (Local 2 lisp_obj_type (''lisp_obj_from_ptr_'' @ string_of_nat 1)) lisp_obj_as_ptr)
            (Rvalue_from_ptr TYPE_VOID_PTR (example_vectorp 1))
            \<in> set (added example_state st' 0)) \<and>
   CASE_Bconstant example_lisp_h example_bytecode_h [193, 183] example_vectorp 2 193 example_state
     = Inr ((), example_state\<lparr>stmts := (stmts example_state)(0 := [Add_comment ''Bconstant'']),
                              pc := 2\<rparr>)"
proof (intro conjI)
  have v: "SYMBOL_NAME example_lisp_h (example_vectorp (Suc 0)) = ''listp''"
    by (simp add: example_lisp_h_def example_vectorp_def)
  have o: "obj_i example_state < 2 ^ 32"
    by (simp add: example_state_constant)
  show "CASE_Bconstant example_lisp_h example_bytecode_h [193, 135] example_vectorp 2 195 example_state
     = Inl (Signal ''Something went wrong'')"
    using constant_case_outcomes [OF example_state_facts(1,2) o refl refl refl,
        where h = example_lisp_h and B = example_bytecode_h and bytestr_data = "[193, 135]"
        and vectorp = example_vectorp and vector_size = 2 and op = 195]
    by (simp add: example_bytecode_h_Bconstant)
  show "CASE_Bconstant example_lisp_h example_bytecode_h [193, 135] example_vectorp 2 191 example_state
     = Inl (Signal ''Something went wrong'')"
    using constant_case_outcomes [OF example_state_facts(1,2) o refl refl refl,
        where h = example_lisp_h and B = example_bytecode_h and bytestr_data = "[193, 135]"
        and vectorp = example_vectorp and vector_size = 2 and op = 191]
    by (simp add: example_bytecode_h_Bconstant)
  show "\<exists>st'. CASE_Bconstant example_lisp_h example_bytecode_h [193, 135] example_vectorp 2 193
             example_state = Inr ((), st') \<and>
          stack st' = stack example_state + 1 \<and>
          Add_assignment
            (Lvalue_access_field
               (Local 2 lisp_obj_type (''lisp_obj_from_ptr_'' @ string_of_nat 1)) lisp_obj_as_ptr)
            (Rvalue_from_ptr TYPE_VOID_PTR (example_vectorp 1))
            \<in> set (added example_state st' 0)"
    using constant_case_outcomes [OF example_state_facts(1,2) o refl refl refl,
        where h = example_lisp_h and B = example_bytecode_h and bytestr_data = "[193, 135]"
        and vectorp = example_vectorp and vector_size = 2 and op = 193]
    by (simp add: example_bytecode_h_Bconstant example_state_constant v) blast
  show "CASE_Bconstant example_lisp_h example_bytecode_h [193, 183] example_vectorp 2 193 example_state
     = Inr ((), example_state\<lparr>stmts := (stmts example_state)(0 := [Add_comment ''Bconstant'']),
                              pc := 2\<rparr>)"
    using constant_case_outcomes [OF example_state_facts(1,2) o refl refl refl,
        where h = example_lisp_h and B = example_bytecode_h and bytestr_data = "[193, 183]"
        and vectorp = example_vectorp and vector_size = 2 and op = 193]
    by (simp add: example_bytecode_h_Bconstant example_state_constant)
      (simp add: example_state_def)
qed

subsection \<open>The call opcodes\<close>











subsection \<open>List construction\<close>

lemma Fcons_step:
  assumes cur: "cur_bb st = Some bb" "ends st (gcc_bb bb) = None"
    and sp: "2 \<le> stack st" "stack st \<le> int (length (stack_base st))"
  shows "\<exists>st1. (\<forall>k. thenE POP2
                  (bindE (args_from 0 2) (\<lambda>as.
                   bindE (emit_call ''Fcons'' lisp_obj_type 2 as) (\<lambda>res.
                   thenE (PUSH_RVAL res) k))) st = k st1) \<and>
           cur_bb st1 = Some bb \<and> ends st1 = ends st \<and>
           length (stack_base st1) = length (stack_base st) \<and> stack st1 = stack st - 1 \<and>
           pc st1 = pc st"
proof -
  have "\<exists>st1. \<forall>k. thenE POP2
                  (bindE (args_from 0 2) (\<lambda>as.
                   bindE (emit_call ''Fcons'' lisp_obj_type 2 as) (\<lambda>res.
                   thenE (PUSH_RVAL res) k))) st = k st1 \<and>
           cur_bb st1 = Some bb \<and> ends st1 = ends st \<and>
           length (stack_base st1) = length (stack_base st) \<and> stack st1 = stack st - 1 \<and>
           pc st1 = pc st"
    using assms
    apply (simp add: thenE_def bindE_def POP2_eq args_from_def MAX_POP_def getsE_def emit_call_eq
      PUSH_RVAL_eq Let_def)
    apply (rule exI)
    apply (intro allI conjI)
         apply (rule refl)
        apply simp_all
    done
  then show ?thesis by blast
qed

lemma make_list_loop_ok:
  "cur_bb st = Some bb \<Longrightarrow> ends st (gcc_bb bb) = None \<Longrightarrow>
   int n + 1 \<le> stack st \<Longrightarrow> stack st \<le> int (length (stack_base st)) \<Longrightarrow>
   \<exists>st'. make_list_loop n st = Inr ((), st') \<and> stack st' = stack st - int n \<and> pc st' = pc st"
proof (induction n arbitrary: st)
  case 0
  then show ?case by (simp add: returnE_def)
next
  case (Suc n)
  from Fcons_step [OF Suc.prems(1,2) _ Suc.prems(4)] Suc.prems(3)
  obtain st1 where s: "cur_bb st1 = Some bb" "ends st1 = ends st"
    "length (stack_base st1) = length (stack_base st)" "stack st1 = stack st - 1" "pc st1 = pc st"
    "make_list_loop (Suc n) st = make_list_loop n st1"
    by (auto simp del: One_nat_def)
  from Suc.IH [of st1] s Suc.prems show ?case
    by (simp add: algebra_simps)
qed

lemma make_list_loop_underflow:
  "cur_bb st = Some bb \<Longrightarrow> ends st (gcc_bb bb) = None \<Longrightarrow>
   1 \<le> stack st \<Longrightarrow> stack st \<le> int n \<Longrightarrow> stack st \<le> int (length (stack_base st)) \<Longrightarrow>
   make_list_loop n st = Inl Undefined"
proof (induction n arbitrary: st)
  case 0
  then show ?case by simp
next
  case (Suc n)
  show ?case
  proof (cases "stack st = 1")
    case True
    moreover from Suc.prems have "stack_base st \<noteq> []" by auto
    ultimately show ?thesis
      using Suc.prems
      by (simp add: thenE_def bindE_def POP2_def pop_to_def CHECK_STACK_def stack_el_def
          eassert_def getsE_def modifyE_def returnE_def set_arg_def MAX_POP_def)
  next
    case False
    with Suc.prems have "2 \<le> stack st" by simp
    from Fcons_step [OF Suc.prems(1,2) this Suc.prems(5)]
    obtain st1 where s: "cur_bb st1 = Some bb" "ends st1 = ends st"
      "length (stack_base st1) = length (stack_base st)" "stack st1 = stack st - 1"
      "make_list_loop (Suc n) st = make_list_loop n st1"
      by (auto simp del: One_nat_def)
    from Suc.IH [of st1] s Suc.prems \<open>2 \<le> stack st\<close> show ?thesis
      by simp
  qed
qed

lemma make_list_first:
  assumes cur: "cur_bb st = Some bb" "ends st (gcc_bb bb) = None"
    and sp: "1 \<le> stack st" "stack st \<le> int (length (stack_base st))"
  shows "\<exists>st1. make_list op st = make_list_loop op st1 \<and>
           cur_bb st1 = Some bb \<and> ends st1 = ends st \<and>
           length (stack_base st1) = length (stack_base st) \<and> stack st1 = stack st \<and>
           pc st1 = pc st"
  using assms
  apply (simp add: make_list_def thenE_def bindE_def POP1_eq set_arg_def MAX_POP_def modifyE_def
      args_from_def getsE_def emit_call_eq PUSH_RVAL_eq Let_def)
  apply (rule exI)
  apply (intro conjI)
       apply (rule refl)
      apply simp_all
  done

lemma make_list_ok:
  assumes cur: "cur_bb st = Some bb" "ends st (gcc_bb bb) = None"
    and sp: "int op + 1 \<le> stack st" "stack st \<le> int (length (stack_base st))"
  shows "\<exists>st'. make_list op st = Inr ((), st') \<and> stack st' = stack st - int op \<and> pc st' = pc st"
proof -
  from make_list_first [OF cur _ sp(2), of op] sp(1)
  obtain st1 where s: "cur_bb st1 = Some bb" "ends st1 = ends st"
    "length (stack_base st1) = length (stack_base st)" "stack st1 = stack st" "pc st1 = pc st"
    "make_list op st = make_list_loop op st1"
    by auto
  from make_list_loop_ok [of st1 bb op] s cur sp show ?thesis
    by simp
qed

lemma make_list_underflow:
  assumes cur: "cur_bb st = Some bb" "ends st (gcc_bb bb) = None"
    and sp: "1 \<le> stack st" "stack st \<le> int op" "stack st \<le> int (length (stack_base st))"
  shows "make_list op st = Inl Undefined"
proof -
  from make_list_first [OF cur sp(1,3), of op]
  obtain st1 where s: "cur_bb st1 = Some bb" "ends st1 = ends st"
    "length (stack_base st1) = length (stack_base st)" "stack st1 = stack st"
    "make_list op st = make_list_loop op st1"
    by auto
  from make_list_loop_underflow [of st1 bb op] s cur sp show ?thesis
    by simp
qed

lemma CASE_BlistN_eq:
  assumes cur: "cur_bb st = Some bb" "ends st (gcc_bb bb) = None"
    and p: "pc st < length bs"
  shows "CASE_BlistN bs st =
     make_list (unat (bs ! pc st))
       (st\<lparr>stmts := (stmts st)(gcc_bb bb := stmts st (gcc_bb bb) @ [Add_comment ''BlistN'']),
           pc := pc st + 1\<rparr>)"
  using assms
  by (simp add: CASE_BlistN_def CASE_def emit_comment_eq thenE_def bindE_def FETCH_def getsE_def
      modifyE_def returnE_def)

lemma make_list_count_eq:
  assumes cur: "cur_bb st = Some bb" "ends st (gcc_bb bb) = None"
  shows "make_list_count B name op st =
     make_list (unsigned_sub op (B ''Blist1''))
       (st\<lparr>stmts := (stmts st)(gcc_bb bb := stmts st (gcc_bb bb) @ [Add_comment name])\<rparr>)"
  using assms
  by (simp add: make_list_count_def CASE_def emit_comment_eq thenE_def bindE_def)

lemma example_state3_facts:
  "cur_bb example_state3 = Some (example_bb 0)"
  "ends example_state3 (gcc_bb (example_bb 0)) = None"
  "stack example_state3 = 3" "length (stack_base example_state3) = 4" "pc example_state3 = 1"
  by (simp_all add: cur_bb_def example_state3_def example_state_def example_bb_def)

lemma example_state_stack:
  "stack example_state = 2" "length (stack_base example_state) = 4" "pc example_state = 1"
  by (simp_all add: example_state_def)

text \<open>Claim C3, at the bytes \<^verbatim>\<open>BlistN 2\<close>.  With three values on the meta-stack the case pops
  all three and pushes one; with exactly two values, the operands of a list of two elements,
  it reads the slot below the base of the meta-stack.  \<^verbatim>\<open>Blist2\<close>, through the label
  \<^verbatim>\<open>make_list_count\<close>, pops the two values and pushes one.\<close>

theorem listN_pops_one_more:
  "(\<exists>st'. CASE_BlistN [175, 2] example_state3 = Inr ((), st') \<and>
          stack st' = stack example_state3 - 3 + 1) \<and>
   CASE_BlistN [175, 2] example_state = Inl Undefined \<and>
   (\<exists>st'. make_list_count example_bytecode_h ''Blist2'' 68 example_state = Inr ((), st') \<and>
          stack st' = stack example_state - 2 + 1)"
proof (intro conjI)
  let ?st = "example_state3\<lparr>stmts := (stmts example_state3)(gcc_bb (example_bb 0) :=
                 stmts example_state3 (gcc_bb (example_bb 0)) @ [Add_comment ''BlistN'']),
               pc := pc example_state3 + 1\<rparr>"
  have "CASE_BlistN [175, 2] example_state3 = make_list 2 ?st"
    using CASE_BlistN_eq [OF example_state3_facts(1,2), of "[175, 2]"]
    by (simp add: example_state3_facts)
  moreover have "\<exists>st'. make_list 2 ?st = Inr ((), st') \<and> stack st' = stack ?st - int 2 \<and> pc st' = pc ?st"
    by (rule make_list_ok [where bb = "example_bb 0"]) (simp_all add: example_state3_facts)
  ultimately show "\<exists>st'. CASE_BlistN [175, 2] example_state3 = Inr ((), st') \<and>
          stack st' = stack example_state3 - 3 + 1"
    by (auto simp: example_state3_facts)
next
  let ?st = "example_state\<lparr>stmts := (stmts example_state)(gcc_bb (example_bb 0) :=
                 stmts example_state (gcc_bb (example_bb 0)) @ [Add_comment ''BlistN'']),
               pc := pc example_state + 1\<rparr>"
  have "CASE_BlistN [175, 2] example_state = make_list 2 ?st"
    using CASE_BlistN_eq [OF example_state_facts(1,2), of "[175, 2]"]
    by (simp add: example_state_stack)
  moreover have "make_list 2 ?st = Inl Undefined"
    by (rule make_list_underflow [where bb = "example_bb 0"])
      (simp_all add: example_state_facts example_state_stack)
  ultimately show "CASE_BlistN [175, 2] example_state = Inl Undefined"
    by simp
next
  let ?st = "example_state\<lparr>stmts := (stmts example_state)(gcc_bb (example_bb 0) :=
                 stmts example_state (gcc_bb (example_bb 0)) @ [Add_comment ''Blist2''])\<rparr>"
  have "make_list_count example_bytecode_h ''Blist2'' 68 example_state = make_list 1 ?st"
    using make_list_count_eq [OF example_state_facts(1,2), of example_bytecode_h "''Blist2''" 68]
    by (simp add: example_bytecode_h_def unsigned_sub_def)
  moreover have "\<exists>st'. make_list 1 ?st = Inr ((), st') \<and> stack st' = stack ?st - int 1 \<and> pc st' = pc ?st"
    by (rule make_list_ok [where bb = "example_bb 0"])
      (simp_all add: example_state_facts example_state_stack)
  ultimately show "\<exists>st'. make_list_count example_bytecode_h ''Blist2'' 68 example_state = Inr ((), st') \<and>
          stack st' = stack example_state - 2 + 1"
    by (auto simp: example_state_stack)
qed

subsection \<open>The driver and the array of the meta stack\<close>

lemma bindE_Inr:
  "bindE m f st = Inr r \<longleftrightarrow> (\<exists>x s1. m st = Inr (x, s1) \<and> f x s1 = Inr r)"
  by (auto simp: bindE_def split: sum.splits)

lemma thenE_Inr:
  "thenE m k st = Inr r \<longleftrightarrow> (\<exists>s1. m st = Inr ((), s1) \<and> k s1 = Inr r)"
  by (auto simp: thenE_def bindE_def split: sum.splits)

lemma keeps_returnE: "keeps_slots (returnE x)"
  by (simp add: keeps_slots_def returnE_def)

lemma keeps_failE: "keeps_slots (failE e)"
  by (simp add: keeps_slots_def failE_def)

lemma keeps_getsE: "keeps_slots (getsE g)"
  by (simp add: keeps_slots_def getsE_def)

lemma keeps_bindE: "keeps_slots m \<Longrightarrow> (\<And>x. keeps_slots (f x)) \<Longrightarrow> keeps_slots (bindE m f)"
  unfolding keeps_slots_def bindE_Inr by (metis (no_types))

lemma keeps_thenE: "keeps_slots m \<Longrightarrow> keeps_slots k \<Longrightarrow> keeps_slots (thenE m k)"
  unfolding thenE_def by (rule keeps_bindE)

lemma keeps_if: "keeps_slots a \<Longrightarrow> keeps_slots b \<Longrightarrow> keeps_slots (if c then a else b)"
  by simp

lemma keeps_modifyE:
  "(\<And>st. map gcc_lval (stack_base (g st)) = map gcc_lval (stack_base st)) \<Longrightarrow> keeps_slots (modifyE g)"
  by (simp add: keeps_slots_def modifyE_def)

lemma keeps_eassert: "keeps_slots (eassert c)"
  by (simp add: eassert_def keeps_returnE keeps_failE)

lemma keeps_block_add: "keeps_slots (block_add b s)"
  unfolding block_add_def by (rule keeps_modifyE) simp

lemma keeps_block_end: "keeps_slots (block_end b t)"
  unfolding block_end_def by (rule keeps_modifyE) simp

lemma keeps_deref_bb: "keeps_slots (deref_bb p)"
  by (auto simp: keeps_slots_def deref_bb_def split: bb_ptr.splits if_splits)

lemma keeps_stack_el: "keeps_slots (stack_el k)"
  by (auto simp: keeps_slots_def stack_el_def split: if_splits)

lemma keeps_update_stack_el:
  "(\<And>e. gcc_lval (g e) = gcc_lval e) \<Longrightarrow> keeps_slots (update_stack_el k g)"
  by (auto simp: keeps_slots_def update_stack_el_def map_update list_update_same_conv split: if_splits)

lemma keeps_new_block: "keeps_slots (gcc_jit_function_new_block f name)"
  by (auto simp: keeps_slots_def gcc_jit_function_new_block_def Let_def)

lemma keeps_new_local: "keeps_slots (gcc_jit_function_new_local f t name)"
  by (auto simp: keeps_slots_def gcc_jit_function_new_local_def)

lemma keeps_SAFE_ALLOCA_BLOCK: "keeps_slots (SAFE_ALLOCA_BLOCK f name)"
  by (auto simp: keeps_slots_def SAFE_ALLOCA_BLOCK_def bindE_Inr gcc_jit_function_new_block_def Let_def)

lemma keeps_format_string: "keeps_slots (format_string s)"
  by (simp add: format_string_def keeps_returnE keeps_failE)

lemmas keeps_monad = keeps_bindE keeps_thenE keeps_if keeps_returnE keeps_failE keeps_getsE
  keeps_eassert keeps_block_add keeps_block_end keeps_deref_bb keeps_stack_el keeps_new_block
  keeps_new_local keeps_SAFE_ALLOCA_BLOCK keeps_format_string

lemma keeps_cur_gcc_bb: "keeps_slots cur_gcc_bb"
  unfolding cur_gcc_bb_def by (intro keeps_monad)

lemma keeps_emit_comment: "keeps_slots (emit_comment c)"
  unfolding emit_comment_def by (intro keeps_monad keeps_cur_gcc_bb)

lemma keeps_emit_assign_to_stack_slot: "keeps_slots (emit_assign_to_stack_slot blk slot v)"
  unfolding emit_assign_to_stack_slot_def by (intro keeps_monad keeps_update_stack_el) simp

lemma keeps_PUSH_PARAM: "keeps_slots (PUSH_PARAM prologue obj)"
  unfolding PUSH_PARAM_def CHECK_STACK_def
  by (intro keeps_monad keeps_emit_assign_to_stack_slot keeps_modifyE) simp

lemma keeps_function_get_param: "keeps_slots (function_get_param f i)"
  by (cases f) (simp add: keeps_monad)

lemma keeps_push_params: "keeps_slots (push_params prologue f is)"
  by (induction "is") (auto intro!: keeps_monad keeps_function_get_param keeps_PUSH_PARAM)

lemma keeps_compute_blocks_sweep: "keeps_slots (compute_blocks_sweep f starts pcs i curr_bb acc)"
proof (induction pcs arbitrary: i curr_bb acc)
  case Nil
  then show ?case by (simp add: keeps_monad)
next
  case (Cons p pcs)
  show ?case
    unfolding compute_blocks_sweep.simps
    by (intro keeps_monad) (auto split: option.splits intro!: keeps_monad Cons.IH)
qed

lemma keeps_compute_blocks: "keeps_slots (compute_blocks B bs)"
  unfolding compute_blocks_def
  by (auto split: sum.splits intro!: keeps_monad keeps_compute_blocks_sweep)

lemma keeps_emit_lisp_obj_from_ptr: "keeps_slots (emit_lisp_obj_from_ptr h p)"
  unfolding emit_lisp_obj_from_ptr_def emit_lval_XLP_def Let_def
  by (intro keeps_monad keeps_emit_comment keeps_cur_gcc_bb keeps_modifyE) simp_all

lemma keeps_set_block: "keeps_slots (set_block p)"
  unfolding set_block_def by (rule keeps_modifyE) simp

lemma keeps_bb_map_gcc_bb: "keeps_slots (bb_map_gcc_bb i)"
  unfolding bb_map_gcc_bb_def by (intro keeps_monad)

lemma decode_args_template_state:
  "decode_args_template h t st = Inr (r, st') \<Longrightarrow> st' = st"
  by (auto simp: decode_args_template_def Let_def thenE_Inr eassert_def returnE_def failE_def
      split: if_splits)

lemma emit_func_declare_state:
  "emit_func_declare name ret n None kind False st = Inr (f, st') \<Longrightarrow> st' = st"
  by (auto simp: emit_func_declare_def Let_def returnE_def failE_def split: if_splits)

lemma compile_f_prologue_slots:
  assumes run: "compile_f_prologue h B c_f_name bytestr_data stack_depth args_template junk st
                  = Inr (res, st')"
  shows "map gcc_lval (stack_base st') =
     map (\<lambda>i. Array_access
                 (Lvalue_as_rvalue (Local (nlocals st) (Array lisp_obj_type stack_depth) ''local''))
                 (Rvalue_from_int TYPE_INT (int i))) [0 ..< stack_depth]"
proof -
  have tail: "\<And>cr f arr. keeps_slots (
     bindE (SAFE_ALLOCA_BLOCK f ''prologue'') (\<lambda>prologue.
     bindE (compute_blocks B bytestr_data) (\<lambda>bbs.
     thenE (modifyE (\<lambda>st. st\<lparr>bb_map := bbs\<rparr>)) (
     thenE (push_params prologue f [0 ..< nat (max_args cr)]) (
     bindE (deref_bb prologue) (\<lambda>pb.
     bindE (bb_map_gcc_bb 0) (\<lambda>first.
     thenE (block_end (gcc_bb pb) (End_with_jump first)) (
     thenE (set_block (In_bb_map 0)) (
     bindE (emit_lisp_obj_from_ptr h (Qnil h)) (\<lambda>n.
     thenE (modifyE (\<lambda>st. st\<lparr>nil := n\<rparr>)) (
     thenE (set_block Null) (
     returnE cr))))))))))))"
    by (intro keeps_monad keeps_compute_blocks keeps_push_params keeps_set_block
        keeps_bb_map_gcc_bb keeps_emit_lisp_obj_from_ptr keeps_modifyE) simp_all
  from run show ?thesis
    unfolding compile_f_prologue_def
    apply (simp only: thenE_Inr [where m = "modifyE g" for g] bindE_Inr [where m = "decode_args_template h t" for h t]
        bindE_Inr [where m = "emit_func_declare a b c d e f" for a b c d e f]
        thenE_Inr [where m = "if c then returnE () else failE Undefined" for c]
        bindE_Inr [where m = "gcc_jit_function_new_local f t n" for f t n])
    apply (elim exE conjE)
    apply (drule decode_args_template_state)
    apply (drule emit_func_declare_state)
    apply (drule tail [unfolded keeps_slots_def, rule_format])
    apply (auto simp: modifyE_def gcc_jit_function_new_local_def returnE_def failE_def
        split: if_splits)
    done
qed

lemma example_args:
  "emacs_native_compile_args example_lisp_h example_fn =
     Inr \<lparr>arg_bytestr_data = [192, 135], arg_stack_depth = 4,
          arg_vectorp = XVECTOR_contents example_lisp_h 5, arg_vector_size = 1,
          arg_args_template = 0\<rparr>"
  by (simp add: emacs_native_compile_args_def example_fn_def example_lisp_h_def Let_def)

lemma example_op_values:
  "map example_bytecode_h three_byte_ops = [15, 23, 31, 39, 47, 7, 179]"
  "map example_bytecode_h two_byte_ops = [14, 22, 30, 38, 46, 129, 175, 176, 177, 6, 178, 182]"
  "map example_bytecode_h absolute_branches = [130, 131, 132, 133, 134, 50, 49]"
  "map example_bytecode_h pc_relative_branches = [170, 171, 172, 173, 174]"
  "map example_bytecode_h other_ops_changing_bb = [83, 84, 91, 135]"
  by (simp_all add: example_bytecode_h_def three_byte_ops_def two_byte_ops_def
      absolute_branches_def pc_relative_branches_def other_ops_changing_bb_def)

lemma example_ops:
  "192 \<notin> example_bytecode_h ` set three_byte_ops"
  "192 \<notin> example_bytecode_h ` set two_byte_ops"
  "192 \<notin> example_bytecode_h ` set absolute_branches"
  "192 \<notin> example_bytecode_h ` set pc_relative_branches"
  "192 \<notin> example_bytecode_h ` set other_ops_changing_bb"
  "135 \<notin> example_bytecode_h ` set three_byte_ops"
  "135 \<notin> example_bytecode_h ` set two_byte_ops"
  "135 \<notin> example_bytecode_h ` set absolute_branches"
  "135 \<notin> example_bytecode_h ` set pc_relative_branches"
  "135 \<in> example_bytecode_h ` set other_ops_changing_bb"
  unfolding set_map [symmetric] example_op_values by simp_all

lemma example_leaders: "block_leaders example_bytecode_h [192, 135] = Inr [0]"
  by (simp add: block_leaders_def compute_blocks_scan.simps [of _ _ 0]
      compute_blocks_scan.simps [of _ _ 1] compute_blocks_scan.simps [of _ _ 2]
      compute_blocks_scan.simps [of _ _ "Suc 0"] compute_blocks_scan.simps [of _ _ "Suc (Suc 0)"]
      record_start_def example_ops sort_and_dedup_def Let_def)

lemma example_h_args:
  "FIXNUMP example_lisp_h 0 = False" "CONSP example_lisp_h 0 = False"
  "SYMBOLP example_lisp_h 0 = True" "Qnil example_lisp_h = 0"
  "SYMBOL_NAME example_lisp_h 0 = ''nil''"
  by (simp_all add: example_lisp_h_def)

lemma upt_small: "[0 ..< 2] = [0, 1]" "[0 ..< 4] = [0, 1, 2, 3]"
  by (simp_all add: upt_rec)

lemma string_of_nat_1: "length (string_of_nat (Suc 0)) \<le> 10"
  using string_of_counter_length [of 1] by simp

lemma example_compute_blocks:
  "compute_blocks example_bytecode_h [192, 135] st =
     Inr ([\<lparr>gcc_bb = length (blocks st), top_sp = None, terminated = False\<rparr>,
           \<lparr>gcc_bb = length (blocks st), top_sp = None, terminated = False\<rparr>],
          st\<lparr>blocks := blocks st @ [(func st, ''bb_'' @ string_of_nat 1)],
             stmts := (stmts st)(length (blocks st) := []),
             ends := (ends st)(length (blocks st) := None)\<rparr>)"
  using string_of_nat_1
  by (simp add: compute_blocks_def example_leaders getsE_def upt_small bindE_def returnE_def
      failE_def format_string_eq gcc_jit_function_new_block_def Let_def)

lemma example_prologue_runs:
  "\<exists>res st'. emacs_native_compile_prologue example_lisp_h example_bytecode_h ''Fnative_comp_foo''
          example_fn example_junk example_state = Inr (res, st')"
  using string_of_nat_1
  by (simp add: emacs_native_compile_prologue_def example_args compile_f_prologue_def
      decode_args_template_def example_h_args thenE_def bindE_def modifyE_def returnE_def
      eassert_def emit_func_declare_def Let_def gcc_jit_function_new_local_def
      SAFE_ALLOCA_BLOCK_def gcc_jit_function_new_block_def example_compute_blocks
      getsE_def upt_small deref_bb_def bb_map_gcc_bb_def block_end_def
      set_block_def emit_lisp_obj_from_ptr_def emit_lval_XLP_def emit_comment_def cur_gcc_bb_def
      block_add_def format_string_eq example_state_def)

lemma emacs_native_compile_prologue_slots:
  assumes run: "emacs_native_compile_prologue h B c_f_name fn junk st = Inr (res, st')"
  shows "map gcc_lval (stack_base st') =
     map (\<lambda>i. Array_access
                 (Lvalue_as_rvalue
                    (Local (nlocals st)
                       (Array lisp_obj_type (XFIXNAT h (COMPILED_STACK_DEPTH fn) + 1)) ''local''))
                 (Rvalue_from_int TYPE_INT (int i)))
         [0 ..< XFIXNAT h (COMPILED_STACK_DEPTH fn) + 1]"
proof (cases "emacs_native_compile_args h fn")
  case (Inl e)
  with run show ?thesis
    by (simp add: emacs_native_compile_prologue_def failE_def)
next
  case (Inr a)
  then have d: "arg_stack_depth a = XFIXNAT h (COMPILED_STACK_DEPTH fn) + 1"
    by (auto simp: emacs_native_compile_args_def Let_def split: if_splits)
  from run Inr have "compile_f_prologue h B c_f_name (arg_bytestr_data a) (arg_stack_depth a)
                   (arg_args_template a) junk st = Inr (res, st')"
    by (simp add: emacs_native_compile_prologue_def)
  from compile_f_prologue_slots [OF this] show ?thesis
    unfolding d .
qed

lemma example_depth: "XFIXNAT example_lisp_h (COMPILED_STACK_DEPTH example_fn) = 3"
  by (simp add: example_lisp_h_def example_fn_def drop_bit_eq_div unat_div)

lemma example_nlocals: "nlocals example_state = 2"
  by (simp add: example_state_def)

text \<open>Claim C4, as the specification states it: the array that backs the meta-stack has
  exactly \<^verbatim>\<open>max_depth\<close> elements.  For a compiled-function object of stack depth 3 the driver
  creates an array of four elements, and four slots that refer to its elements 0 to 3.\<close>

theorem meta_stack_array_counterexample:
  "XFIXNAT example_lisp_h (COMPILED_STACK_DEPTH example_fn) = 3 \<and>
   slots_after (emacs_native_compile_prologue example_lisp_h example_bytecode_h
                  ''Fnative_comp_foo'' example_fn example_junk example_state) =
     [Array_access (Lvalue_as_rvalue (Local 2 (Array lisp_obj_type 4) ''local''))
        (Rvalue_from_int TYPE_INT 0),
      Array_access (Lvalue_as_rvalue (Local 2 (Array lisp_obj_type 4) ''local''))
        (Rvalue_from_int TYPE_INT 1),
      Array_access (Lvalue_as_rvalue (Local 2 (Array lisp_obj_type 4) ''local''))
        (Rvalue_from_int TYPE_INT 2),
      Array_access (Lvalue_as_rvalue (Local 2 (Array lisp_obj_type 4) ''local''))
        (Rvalue_from_int TYPE_INT 3)]"
proof -
  from example_prologue_runs obtain res st' where
    r: "emacs_native_compile_prologue example_lisp_h example_bytecode_h ''Fnative_comp_foo''
          example_fn example_junk example_state = Inr (res, st')"
    by blast
  from emacs_native_compile_prologue_slots [OF r] show ?thesis
    by (simp add: slots_after_def r example_depth example_nlocals upt_small)
qed

text \<open>Claim C4, amended.  \<^verbatim>\<open>emacs_native_compile\<close> passes \<^verbatim>\<open>XFIXNAT (maxdepth) + 1\<close> to
  \<^verbatim>\<open>compile_f\<close>, where \<^verbatim>\<open>maxdepth\<close> is the stack-depth field of the compiled-function object.
  When the driver reaches the loop over the bytecode, the meta-stack has \<^verbatim>\<open>maxdepth + 1\<close>
  slots, and slot \<open>i\<close> is element \<open>i\<close> of one local array of \<^verbatim>\<open>maxdepth + 1\<close> Lisp
  values, the local created first in the function.\<close>

theorem meta_stack_array_size:
  assumes "emacs_native_compile_prologue h B c_f_name fn junk st = Inr (res, st')"
    and "max_depth = XFIXNAT h (COMPILED_STACK_DEPTH fn)"
    and "meta_stack_array = Local (nlocals st) (Array lisp_obj_type (max_depth + 1)) ''local''"
  shows "length (stack_base st') = max_depth + 1 \<and>
         (\<forall>i < max_depth + 1.
            gcc_lval (stack_base st' ! i) =
              Array_access (Lvalue_as_rvalue meta_stack_array) (Rvalue_from_int TYPE_INT (int i)))"
proof -
  have m: "map gcc_lval (stack_base st') =
     map (\<lambda>i. Array_access (Lvalue_as_rvalue meta_stack_array) (Rvalue_from_int TYPE_INT (int i)))
         [0 ..< max_depth + 1]"
    using emacs_native_compile_prologue_slots [OF assms(1)] assms(2,3) by simp
  from arg_cong [OF m, of length] have l: "length (stack_base st') = max_depth + 1"
    by simp
  have "gcc_lval (stack_base st' ! i) =
          Array_access (Lvalue_as_rvalue meta_stack_array) (Rvalue_from_int TYPE_INT (int i))"
    if "i < max_depth + 1" for i
  proof -
    from that l have "map gcc_lval (stack_base st') ! i = gcc_lval (stack_base st' ! i)"
      by simp
    moreover from that have "map (\<lambda>i. Array_access (Lvalue_as_rvalue meta_stack_array)
        (Rvalue_from_int TYPE_INT (int i))) [0 ..< max_depth + 1] ! i =
        Array_access (Lvalue_as_rvalue meta_stack_array) (Rvalue_from_int TYPE_INT (int i))"
      by (simp del: upt_Suc)
    ultimately show ?thesis
      using m by simp
  qed
  with l show ?thesis by blast
qed

theorem meta_stack_array_size_witness:
  "\<exists>res st'.
     emacs_native_compile_prologue example_lisp_h example_bytecode_h ''Fnative_comp_foo''
       example_fn example_junk example_state = Inr (res, st') \<and>
     length (stack_base st') = 3 + 1 \<and>
     (\<forall>i < 3 + 1.
        gcc_lval (stack_base st' ! i) =
          Array_access (Lvalue_as_rvalue (Local 2 (Array lisp_obj_type (3 + 1)) ''local''))
            (Rvalue_from_int TYPE_INT (int i)))"
proof -
  from example_prologue_runs obtain res st' where
    r: "emacs_native_compile_prologue example_lisp_h example_bytecode_h ''Fnative_comp_foo''
          example_fn example_junk example_state = Inr (res, st')"
    by blast
  from meta_stack_array_size [OF r example_depth [symmetric] refl] r show ?thesis
    unfolding example_nlocals by blast
qed

subsection \<open>Relative branches and the starts of the blocks\<close>

lemma example_branch_ops:
  "192 \<notin> example_bytecode_h ` set three_byte_ops"
  "192 \<notin> example_bytecode_h ` set two_byte_ops"
  "192 \<notin> example_bytecode_h ` set absolute_branches"
  "192 \<notin> example_bytecode_h ` set pc_relative_branches"
  "192 \<notin> example_bytecode_h ` set other_ops_changing_bb"
  "193 \<notin> example_bytecode_h ` set three_byte_ops"
  "193 \<notin> example_bytecode_h ` set two_byte_ops"
  "193 \<notin> example_bytecode_h ` set absolute_branches"
  "193 \<notin> example_bytecode_h ` set pc_relative_branches"
  "193 \<notin> example_bytecode_h ` set other_ops_changing_bb"
  "171 \<notin> example_bytecode_h ` set three_byte_ops"
  "171 \<notin> example_bytecode_h ` set two_byte_ops"
  "171 \<notin> example_bytecode_h ` set absolute_branches"
  "171 \<in> example_bytecode_h ` set pc_relative_branches"
  "135 \<notin> example_bytecode_h ` set three_byte_ops"
  "135 \<notin> example_bytecode_h ` set two_byte_ops"
  "135 \<notin> example_bytecode_h ` set absolute_branches"
  "135 \<notin> example_bytecode_h ` set pc_relative_branches"
  "135 \<in> example_bytecode_h ` set other_ops_changing_bb"
  unfolding set_map [symmetric] example_op_values by simp_all

lemma example_branch_bytes:
  "length example_branch = 6"
  "unat (example_branch ! 0) = 192" "unat (example_branch ! 1) = 192"
  "unat (example_branch ! Suc 0) = 192"
  "unat (example_branch ! 2) = 171" "unat (example_branch ! 3) = 129"
  "unat (example_branch ! 4) = 193" "unat (example_branch ! 5) = 135"
  by (simp_all add: example_branch_def)

lemma example_branch_scan:
  "compute_blocks_scan example_bytecode_h example_branch 0 True [] = Inr [0, 1, 4]"
proof -
  note b = example_branch_bytes example_branch_ops record_start_def Let_def
  have s6: "compute_blocks_scan example_bytecode_h example_branch 6 True [0, 1, 4] = Inr [0, 1, 4]"
    by (subst compute_blocks_scan.simps) (simp add: b)
  have s5: "compute_blocks_scan example_bytecode_h example_branch 5 False [0, 1, 4] = Inr [0, 1, 4]"
    by (subst compute_blocks_scan.simps) (simp add: b s6)
  have s4: "compute_blocks_scan example_bytecode_h example_branch 4 True [0, 1] = Inr [0, 1, 4]"
    by (subst compute_blocks_scan.simps) (simp add: b s5)
  have s2: "compute_blocks_scan example_bytecode_h example_branch 2 False [0] = Inr [0, 1, 4]"
    by (subst compute_blocks_scan.simps) (simp add: b s4)
  have s1: "compute_blocks_scan example_bytecode_h example_branch 1 False [0] = Inr [0, 1, 4]"
    by (subst compute_blocks_scan.simps) (simp add: b s2 s2 [unfolded numeral_2_eq_2])
  show ?thesis
    by (subst compute_blocks_scan.simps) (simp add: b s1 s1 [unfolded One_nat_def])
qed

lemma example_branch_leaders:
  "block_leaders example_bytecode_h example_branch = Inr [0, 1, 4]"
  by (simp add: block_leaders_def example_branch_scan sort_and_dedup_def)

lemma example_branch_target:
  "BR_target example_branch (st\<lparr>pc := 3\<rparr>) = Inr (5, st\<lparr>pc := 4\<rparr>)"
  by (simp add: BR_target_def FETCH_def bindE_def thenE_def getsE_def modifyE_def returnE_def
      example_branch_bytes unsigned_add_def unsigned_sub_def)

text \<open>Claim C1, at the bytecode \<^verbatim>\<open>constant 0; constant 0; BRgotoifnil +1; constant 1; return\<close>.
  The byte at 2 is the opcode of a relative branch and the byte at 3 its displacement.  The
  emission pass computes the target 5 for it, the PC after the displacement byte plus
  \<^verbatim>\<open>129 - 128\<close>.  The discovery pass records 0, 1 and 4 as the starts of blocks: 1 is
  \<^verbatim>\<open>129 - 128\<close> taken as an absolute PC, and 5 is not recorded.\<close>

theorem relative_branch_target_not_leader:
  "unat (example_branch ! 2) = example_bytecode_h ''BRgotoifnil'' \<and>
   emitted_target example_branch 3 example_state = Some 5 \<and>
   block_leaders example_bytecode_h example_branch = Inr [0, 1, 4] \<and>
   \<not> is_leader example_bytecode_h example_branch 5 \<and>
   is_leader example_bytecode_h example_branch (129 - 128)"
  by (simp add: emitted_target_def example_branch_target is_leader_def example_branch_leaders
      example_branch_bytes example_bytecode_h_def)

subsection \<open>The handlers\<close>

lemma FETCH2_eq:
  "pc st + 1 < length bs \<Longrightarrow>
   FETCH2 bs st = Inr (unat (bs ! pc st) + unat (bs ! (pc st + 1)) * 2 ^ 8, st\<lparr>pc := pc st + 2\<rparr>)"
  by (simp add: FETCH2_def FETCH_def bindE_def thenE_def getsE_def modifyE_def returnE_def)

lemma emit_call_declared:
  "n \<le> 4 \<or> func_hash st name \<noteq> None \<Longrightarrow>
   emit_call name ret n as st =
     Inr (Call (declared_function st name ret (take n as)) (take n as),
          st\<lparr>func_hash := (func_hash st)(name \<mapsto> declared_function st name ret (take n as))\<rparr>)"
  by (simp add: emit_call_eq declared_function_def Let_def)

lemma declared_function_update [simp]:
  "declared_function (stmts_update f1 st) = declared_function st"
  "declared_function (ends_update f2 st) = declared_function st"
  "declared_function (blocks_update f3 st) = declared_function st"
  "declared_function (nlocals_update f4 st) = declared_function st"
  "declared_function (ctxt_error_update f5 st) = declared_function st"
  "declared_function (func_update f6 st) = declared_function st"
  "declared_function (cast_i_update f8 st) = declared_function st"
  "declared_function (obj_i_update f9 st) = declared_function st"
  "declared_function (stack_base_update f10 st) = declared_function st"
  "declared_function (stack_update f11 st) = declared_function st"
  "declared_function (args_update f12 st) = declared_function st"
  "declared_function (pc_update f13 st) = declared_function st"
  "declared_function (pushhandler_n_update f14 st) = declared_function st"
  "declared_function (nil_update f15 st) = declared_function st"
  "declared_function (block_update f16 st) = declared_function st"
  "declared_function (allocas_update f17 st) = declared_function st"
  "declared_function (bb_map_update f18 st) = declared_function st"
  by (simp_all add: declared_function_def fun_eq_iff)

lemma declared_function_other:
  "name \<noteq> a \<Longrightarrow>
   declared_function (st'\<lparr>func_hash := (func_hash st)(a \<mapsto> f)\<rparr>) name = declared_function st name"
  by (simp add: declared_function_def fun_eq_iff)

lemma declared_function_name:
  "func_hash_ok st \<Longrightarrow> function_name (declared_function st name ret as) = name"
  by (auto simp: declared_function_def func_hash_ok_def split: option.splits)

lemma declared_function_ret:
  "\<forall>f. func_hash st name = Some f \<longrightarrow> function_ret f = ret \<Longrightarrow>
   function_ret (declared_function st name ret as) = ret"
  by (auto simp: declared_function_def split: option.splits)

lemma pushhandler_run:
  assumes blk: "block st = In_bb_map i" "i < length (bb_map st)" "bb = bb_map st ! i"
    and opn: "ends st (gcc_bb bb) = None" "gcc_bb bb < length (blocks st)"
    and imm: "pc st + 1 < length bs"
      "handler_pc = unat (bs ! pc st) + unat (bs ! (pc st + 1)) * 2 ^ 8"
      "handler_pc < length (bb_map st)" "pc st + 2 < length (bb_map st)"
    and sp: "1 \<le> stack st" "stack st \<le> int (length (stack_base st))"
    and fh: "func_hash_ok st"
    and sj: "\<forall>f. func_hash st (if HAVE__SETJMP h then ''_setjmp'' else ''setjmp'') = Some f \<longrightarrow>
                function_ret f = TYPE_INT"
    and n: "pushhandler_n st < 2 ^ 32"
    and c: "c = Local (nlocals st) handler_ptr_type (''c_'' @ string_of_nat (pushhandler_n st))"
    and slot: "slot = gcc_lval (stack_base st ! nat (stack st - 1))"
  shows "\<exists>st' ph sj.
     thenE (CASE cname) (pushhandler h bs kind) st = Inr ((), st') \<and>
     function_name ph = ''push_handler'' \<and>
     function_name sj = (if HAVE__SETJMP h then ''_setjmp'' else ''setjmp'') \<and>
     pc st' = pc st + 2 \<and> stack st' = stack st - 1 \<and>
     added st st' (gcc_bb bb) =
       [Add_comment cname,
        Add_assignment c (Call ph [Lvalue_as_rvalue slot, Rvalue_from_int TYPE_INT kind])] \<and>
     ends st' (gcc_bb bb) =
       Some (End_with_conditional
               (Unary_op UNARY_LOGICAL_NEGATE TYPE_BOOL
                  (Call sj [Get_address (Dereference_field (Lvalue_as_rvalue c)
                                           (handler_jmp_field h))]))
               (gcc_bb (bb_map st ! (pc st + 2))) (length (blocks st))) \<and>
     stmts st' (length (blocks st)) =
       [Add_assignment (Dereference_field (comp_current_thread h) (m_handlerlist h))
          (Lvalue_as_rvalue (Dereference_field (Lvalue_as_rvalue c) (handler_next_field h))),
        Add_assignment slot
          (Lvalue_as_rvalue (Dereference_field (Lvalue_as_rvalue c) (handler_val_field h)))] \<and>
     ends st' (length (blocks st)) = Some (End_with_jump (gcc_bb (bb_map st ! handler_pc))) \<and>
     top_sp (bb_map st' ! handler_pc) = Some (stack st)"
  using assms string_of_counter_length [OF n]
    declared_function_name [OF fh] declared_function_ret [OF sj]
  apply (cases "HAVE__SETJMP h")
  apply (simp_all add: nth_list_update pushhandler_def CASE_def emit_comment_def cur_gcc_bb_def FETCH2_eq
      bindE_def thenE_def getsE_def modifyE_def returnE_def deref_bb_def
      format_string_eq gcc_jit_function_new_local_def POP1_eq set_arg_def MAX_POP_def
      block_add_def args_from_def emit_call_declared declared_function_other SAFE_ALLOCA_BLOCK_def
      gcc_jit_function_new_block_def emit_cond_jump_def block_end_def update_bb_def
      set_block_def PUSH_LVAL_def PUSH_RVAL_def CHECK_STACK_def eassert_def
      emit_assign_to_stack_slot_def stack_el_def update_stack_el_def bb_map_gcc_bb_def
      Let_def added_def)
  done

lemma next_block_negated:
  "eval_rvalue host ps test rt = Returns (Word w) rt' \<Longrightarrow>
   next_block host ps (End_with_conditional (Unary_op UNARY_LOGICAL_NEGATE TYPE_BOOL test) b1 b2) rt
     = Some (if w = 0 then b1 else b2)"
  by (simp add: next_block_def)

text \<open>
  Claim C7.  Let \<^verbatim>\<open>comp.block\<close> point to an open block of \<^verbatim>\<open>bb_map\<close>, as the loop of \<^verbatim>\<open>compile_f\<close>
  sets it, with a value on the meta stack, the two bytes of the immediate in the bytecode, the
  handler PC and the PC after the immediate within \<^verbatim>\<open>bb_map\<close>, and \<^verbatim>\<open>setjmp\<close>, if it is
  declared already, declared with the result type \<^verbatim>\<open>int\<close>.  Then \<^verbatim>\<open>pushcatch\<close> (with the kind
  \<^verbatim>\<open>CATCHER\<close>) and \<^verbatim>\<open>pushconditioncase\<close> (with \<^verbatim>\<open>CONDITION_CASE\<close>) succeed and
  \<^item> pop one value: the meta stack is one slot lower afterwards, and \<^verbatim>\<open>pc\<close> is behind the
    immediate;
  \<^item> add to the current block the assignment to a fresh local \<open>c\<close> of the call of
    \<^verbatim>\<open>push_handler\<close> on the popped slot and the kind;
  \<^item> end the current block with a conditional on the negation of \<^verbatim>\<open>setjmp (&c->jmp)\<close>:
    when the call yields zero, control goes to the block of the PC after the immediate,
    otherwise to a new block;
  \<^item> the new block assigns \<^verbatim>\<open>c->next\<close> to \<^verbatim>\<open>current_thread->m_handlerlist\<close>, assigns
    \<^verbatim>\<open>c->val\<close> to the slot that was popped, and ends with the jump to the block of the handler
    PC, whose entry depth is recorded one above the depth of the other path.
\<close>

theorem handler_emitted:
  assumes blk: "block st = In_bb_map i" "i < length (bb_map st)" "bb = bb_map st ! i"
    and opn: "ends st (gcc_bb bb) = None" "gcc_bb bb < length (blocks st)"
    and imm: "pc st + 1 < length bs"
      "handler_pc = unat (bs ! pc st) + unat (bs ! (pc st + 1)) * 2 ^ 8"
      "handler_pc < length (bb_map st)" "pc st + 2 < length (bb_map st)"
    and sp: "1 \<le> stack st" "stack st \<le> int (length (stack_base st))"
    and fh: "func_hash_ok st"
    and sj: "\<forall>f. func_hash st (if HAVE__SETJMP h then ''_setjmp'' else ''setjmp'') = Some f \<longrightarrow>
                function_ret f = TYPE_INT"
    and n: "pushhandler_n st < 2 ^ 32"
    and c: "c = Local (nlocals st) handler_ptr_type (''c_'' @ string_of_nat (pushhandler_n st))"
    and slot: "slot = gcc_lval (stack_base st ! nat (stack st - 1))"
    and m: "(m, kind) = (CASE_Bpushcatch h bs, CATCHER h) \<or>
            (m, kind) = (CASE_Bpushconditioncase h bs, CONDITION_CASE h)"
    and nb: "next_pc_block = gcc_bb (bb_map st ! (pc st + 2))"
      "handler_entry = length (blocks st)"
  shows "\<exists>st' ph sj cmt test.
     m st = Inr ((), st') \<and>
     function_name ph = ''push_handler'' \<and>
     function_name sj = (if HAVE__SETJMP h then ''_setjmp'' else ''setjmp'') \<and>
     pc st' = pc st + 2 \<and> stack st' = stack st - 1 \<and>
     added st st' (gcc_bb bb) =
       [Add_comment cmt,
        Add_assignment c (Call ph [Lvalue_as_rvalue slot, Rvalue_from_int TYPE_INT kind])] \<and>
     test = Call sj [Get_address (Dereference_field (Lvalue_as_rvalue c) (handler_jmp_field h))] \<and>
     ends st' (gcc_bb bb) =
       Some (End_with_conditional (Unary_op UNARY_LOGICAL_NEGATE TYPE_BOOL test)
               next_pc_block handler_entry) \<and>
     (\<forall>host ps rt w rt'.
        eval_rvalue host ps test rt = Returns (Word w) rt' \<longrightarrow>
        next_block host ps
          (End_with_conditional (Unary_op UNARY_LOGICAL_NEGATE TYPE_BOOL test)
             next_pc_block handler_entry) rt
          = Some (if w = 0 then next_pc_block else handler_entry)) \<and>
     stmts st' handler_entry =
       [Add_assignment (Dereference_field (comp_current_thread h) (m_handlerlist h))
          (Lvalue_as_rvalue (Dereference_field (Lvalue_as_rvalue c) (handler_next_field h))),
        Add_assignment slot
          (Lvalue_as_rvalue (Dereference_field (Lvalue_as_rvalue c) (handler_val_field h)))] \<and>
     ends st' handler_entry = Some (End_with_jump (gcc_bb (bb_map st ! handler_pc))) \<and>
     top_sp (bb_map st' ! handler_pc) = Some (stack st' + 1)"
proof -
  from m obtain cname where
    mm: "m = thenE (CASE cname) (pushhandler h bs kind)"
    by (auto simp: CASE_Bpushcatch_def CASE_Bpushconditioncase_def)
  from pushhandler_run [OF blk opn imm sp fh sj n c slot, of cname kind]
  obtain st' ph sj where
    r: "thenE (CASE cname) (pushhandler h bs kind) st = Inr ((), st')"
      "function_name ph = ''push_handler''"
      "function_name sj = (if HAVE__SETJMP h then ''_setjmp'' else ''setjmp'')"
      "pc st' = pc st + 2" "stack st' = stack st - 1"
      "added st st' (gcc_bb bb) =
         [Add_comment cname,
          Add_assignment c (Call ph [Lvalue_as_rvalue slot, Rvalue_from_int TYPE_INT kind])]"
      "ends st' (gcc_bb bb) =
         Some (End_with_conditional
                 (Unary_op UNARY_LOGICAL_NEGATE TYPE_BOOL
                    (Call sj [Get_address (Dereference_field (Lvalue_as_rvalue c)
                                             (handler_jmp_field h))]))
                 (gcc_bb (bb_map st ! (pc st + 2))) (length (blocks st)))"
      "stmts st' (length (blocks st)) =
         [Add_assignment (Dereference_field (comp_current_thread h) (m_handlerlist h))
            (Lvalue_as_rvalue (Dereference_field (Lvalue_as_rvalue c) (handler_next_field h))),
          Add_assignment slot
            (Lvalue_as_rvalue (Dereference_field (Lvalue_as_rvalue c) (handler_val_field h)))]"
      "ends st' (length (blocks st)) = Some (End_with_jump (gcc_bb (bb_map st ! handler_pc)))"
      "top_sp (bb_map st' ! handler_pc) = Some (stack st)"
    by blast
  show ?thesis
    apply (rule exI [of _ st'], rule exI [of _ ph], rule exI [of _ sj], rule exI [of _ cname])
    apply (rule exI [of _ "Call sj [Get_address (Dereference_field (Lvalue_as_rvalue c)
                                             (handler_jmp_field h))]"])
    using r unfolding mm nb
    by (simp add: next_block_negated)
qed

lemma example_handler_facts:
  "block example_state = In_bb_map 0" "0 < length (bb_map example_state)"
  "example_bb 0 = bb_map example_state ! 0"
  "ends example_state (gcc_bb (example_bb 0)) = None"
  "gcc_bb (example_bb 0) < length (blocks example_state)"
  "pc example_state + 1 < length example_handler_code"
  "4 = unat (example_handler_code ! pc example_state) +
       unat (example_handler_code ! (pc example_state + 1)) * 2 ^ 8"
  "4 < length (bb_map example_state)" "pc example_state + 2 < length (bb_map example_state)"
  "1 \<le> stack example_state" "stack example_state \<le> int (length (stack_base example_state))"
  "func_hash_ok example_state"
  "\<forall>f. func_hash example_state (if HAVE__SETJMP example_lisp_h then ''_setjmp'' else ''setjmp'')
         = Some f \<longrightarrow> function_ret f = TYPE_INT"
  "pushhandler_n example_state < 2 ^ 32"
  by (simp_all add: example_state_def example_bb_def example_handler_code_def func_hash_ok_def)

theorem handler_emitted_witness:
  "\<exists>st'. CASE_Bpushcatch example_lisp_h example_handler_code example_state = Inr ((), st') \<and>
         pc st' = pc example_state + 2 \<and> stack st' = stack example_state - 1 \<and>
         ends st' (length (blocks example_state)) =
           Some (End_with_jump (gcc_bb (bb_map example_state ! 4))) \<and>
         top_sp (bb_map st' ! 4) = Some (stack st' + 1)"
  using handler_emitted [OF example_handler_facts refl refl _ refl refl,
      where m = "CASE_Bpushcatch example_lisp_h example_handler_code"
        and kind = "CATCHER example_lisp_h"]
  by blast

end
